theory Spec2Isabelle
  imports Main
begin

section \<open>The canary executor of the rollout-run controller\<close>

text \<open>
  A shallow embedding of \<^verbatim>\<open>pkg/controllers/rolloutrun/executor/canary.go\<close>. The executor
  talks to collaborators that sit behind Go interfaces (the workload registry, the canary
  strategy of a workload, the traffic manager, the webhook executor). Their implementations
  are not part of the file, so they are parameters here: each call is a function from the
  state of the outside world \<open>'w\<close> to a result and a new state of the world. Every call the
  executor makes is appended, with the answer it got, to a trace kept in the execution
  context, so that "calls X before Y" and "does not call Z" are statements about the trace.
  Logging is left out.
\<close>

subsection \<open>Values\<close>

text \<open>\<^verbatim>\<open>time.Duration\<close> is a signed integer of nanoseconds; no arithmetic is done on it here.\<close>

type_synonym Duration = int

text \<open>
  \<^verbatim>\<open>controllerutil.OperationResult\<close> is a string type of controller-runtime;
  \<^verbatim>\<open>OperationResultNone\<close> is its constant \<^verbatim>\<open>"unchanged"\<close>.
\<close>

type_synonym OperationResult = string

definition OperationResultNone :: OperationResult where
  "OperationResultNone = ''unchanged''"

text \<open>
  A Go \<^verbatim>\<open>error\<close>: either the structured \<^verbatim>\<open>*CodeReasonMessage\<close> the executor builds, or
  any other error value handed back by a collaborator.
\<close>

datatype go_error =
    CodeReasonMessage (Code: string) (Reason: string) (Message: string)
  | ErrorString string

definition newDoCanaryError :: "string \<Rightarrow> string \<Rightarrow> go_error" where
  "newDoCanaryError reason msg = CodeReasonMessage ''DoCanaryError'' reason msg"

text \<open>\<^verbatim>\<open>ctrl.Result\<close> of controller-runtime.\<close>

record Result =
  Requeue :: bool
  RequeueAfter :: Duration

text \<open>\<^verbatim>\<open>intstr.IntOrString\<close>, the type of a target's replica count.\<close>

datatype IntOrString = FromInt int | FromString string

text \<open>One canary target of the rollout-run spec: a cross-cluster name and the replicas.\<close>

record RolloutRunStepTarget =
  Cluster :: string
  Name :: string
  Replicas :: IntOrString

text \<open>
  What \<^verbatim>\<open>GetCanaryInfo\<close> returns (taken to be non-nil, as the source does). Of the
  workload info the executor reads only the replica count of the status (the other
  fields are read for logging).
\<close>

record Info =
  InfoClusterName :: string
  InfoName :: string
  StatusReplicas :: int
  StatusUpdatedAvailableReplicas :: int

text \<open>The phase marker passed to the webhook executor.\<close>

datatype HookType = PreCanaryStepHook | PostCanaryStepHook

text \<open>
  \<^verbatim>\<open>RolloutStepState\<close> is a string type; the empty string is the "no next state" that
  the terminal transition is registered with.
\<close>

type_synonym RolloutStepState = string

text \<open>
  Modelled from the spec: the declarations of the six step-state constants are not in
  the source at hand; the spec names the states \<open>Pending\<close>, \<open>PreCanaryStepHook\<close>, \<open>Running\<close>,
  \<open>PostCanaryStepHook\<close>, \<open>ResourceRecycling\<close>, \<open>Succeeded\<close>.
\<close>

definition StepPending :: RolloutStepState where
  "StepPending = ''Pending''"

definition StepPreCanaryStepHook :: RolloutStepState where
  "StepPreCanaryStepHook = ''PreCanaryStepHook''"

definition StepRunning :: RolloutStepState where
  "StepRunning = ''Running''"

definition StepPostCanaryStepHook :: RolloutStepState where
  "StepPostCanaryStepHook = ''PostCanaryStepHook''"

definition StepResourceRecycling :: RolloutStepState where
  "StepResourceRecycling = ''ResourceRecycling''"

definition StepSucceeded :: RolloutStepState where
  "StepSucceeded = ''Succeeded''"

subsection \<open>The store holding metadata patches\<close>

text \<open>
  \<^verbatim>\<open>*MetadataPatch\<close> is a pointer and \<^verbatim>\<open>map[string]string\<close> a reference, so a write
  through one name is seen through every other: patches and label maps live in a store
  and are named by addresses. A nil pointer or nil map is \<open>None\<close>. Of the struct only the
  \<^verbatim>\<open>Labels\<close> field is used by the executor.
\<close>

type_synonym addr = nat

record MetadataPatch =
  Labels :: "addr option"

record Heap =
  patches :: "addr \<Rightarrow> MetadataPatch"
  labelMaps :: "addr \<Rightarrow> (string \<Rightarrow> string option)"
  nextPatch :: addr
  nextMap :: addr

text \<open>\<^verbatim>\<open>&rolloutv1alpha1.MetadataPatch{}\<close>: a fresh patch with nil labels.\<close>

definition newMetadataPatch :: "Heap \<Rightarrow> addr \<times> Heap" where
  "newMetadataPatch h =
     (nextPatch h,
      h\<lparr>patches := (patches h)(nextPatch h := \<lparr>Labels = None\<rparr>),
        nextPatch := Suc (nextPatch h)\<rparr>)"

text \<open>\<^verbatim>\<open>map[string]string{}\<close>: a fresh empty map.\<close>

definition newLabelMap :: "Heap \<Rightarrow> addr \<times> Heap" where
  "newLabelMap h =
     (nextMap h,
      h\<lparr>labelMaps := (labelMaps h)(nextMap h := Map.empty),
        nextMap := Suc (nextMap h)\<rparr>)"

text \<open>The labels a patch pointer leads to: \<open>None\<close> when the \<^verbatim>\<open>Labels\<close> field is nil.\<close>

definition patchLabels :: "Heap \<Rightarrow> addr \<Rightarrow> (string \<Rightarrow> string option) option" where
  "patchLabels h p = map_option (labelMaps h) (Labels (patches h p))"

subsection \<open>The trace of calls\<close>

type_synonym handle = nat

datatype event =
    CallWith
  | CallGet string string "handle option"
  | CallCanaryStrategy handle handle "go_error option"
  | CallInitialize handle string string "go_error option"
  | CallCreateOrUpdate handle IntOrString addr "(string \<Rightarrow> string option) option"
      OperationResult "go_error option"
  | CallGetCanaryInfo handle Info
  | CallCheckPartitionReady Info int bool
  | CallDelete handle "go_error option"
  | CallTraffic string OperationResult "go_error option"
  | CallCheckReady string bool
  | CallWebhook HookType bool Duration "go_error option"
  | CallPause

subsection \<open>The execution context\<close>

text \<open>
  The fields of \<^verbatim>\<open>ExecutorContext\<close> that the executor reads or writes: the names of the
  rollout and the rollout-run, the canary part of the rollout-run spec (targets, the
  traffic pointer, the pointer to the pod-template metadata patch), the step state of
  the new status, the pause signal, the store, the world of the collaborators and the
  trace. The collaborators act on the world only. The canary part of the spec and the
  canary status of the new status are taken to be there: the handlers read them through
  their pointers without a nil check.
\<close>

record 'w ExecutorContext =
  RolloutName :: string
  RolloutRunName :: string
  Targets :: "RolloutRunStepTarget list"
  Traffic :: "addr option"
  PodTemplateMetadataPatch :: "addr option"
  State :: RolloutStepState
  paused :: bool
  heap :: Heap
  world :: 'w
  trace :: "event list"

text \<open>
  What the file uses and does not declare: the three retry durations, the reason constant,
  the two label keys, the formatting of a target reference (\<^verbatim>\<open>%s\<close>) and of an error
  (\<^verbatim>\<open>%v\<close>), the translation of a retry duration into a \<^verbatim>\<open>ctrl.Result\<close>, the test
  \<^verbatim>\<open>inCanary\<close> of the context, and the collaborators behind interfaces. The test
  \<^verbatim>\<open>inCanary\<close> and the webhook executor are handed the context and may read all of it;
  the other collaborators get the arguments the source passes. All of them act on the
  world only.
\<close>

record 'w Env =
  retryStop :: Duration
  retryDefault :: Duration
  retryImmediately :: Duration
  ReasonWorkloadInterfaceNotExist :: string
  LabelCanary :: string
  LabelPodRevision :: string
  formatRef :: "string \<Rightarrow> string \<Rightarrow> string"
  formatErr :: "go_error \<Rightarrow> string"
  requeueResult :: "Duration \<Rightarrow> Result"
  inCanary :: "'w ExecutorContext \<Rightarrow> bool \<times> 'w"
  trafficWith :: "RolloutRunStepTarget list \<Rightarrow> addr option \<Rightarrow> 'w \<Rightarrow> 'w"
  trafficForkStable :: "'w \<Rightarrow> (OperationResult \<times> go_error option) \<times> 'w"
  trafficForkCanary :: "'w \<Rightarrow> (OperationResult \<times> go_error option) \<times> 'w"
  trafficRevertStable :: "'w \<Rightarrow> (OperationResult \<times> go_error option) \<times> 'w"
  trafficRevertCanary :: "'w \<Rightarrow> (OperationResult \<times> go_error option) \<times> 'w"
  trafficCheckReady :: "'w \<Rightarrow> bool \<times> 'w"
  workloadsGet :: "string \<Rightarrow> string \<Rightarrow> 'w \<Rightarrow> handle option \<times> 'w"
  workloadCanaryStrategy :: "handle \<Rightarrow> 'w \<Rightarrow> (handle \<times> go_error option) \<times> 'w"
  canaryInitialize :: "handle \<Rightarrow> string \<Rightarrow> string \<Rightarrow> 'w \<Rightarrow> go_error option \<times> 'w"
  canaryCreateOrUpdate :: "handle \<Rightarrow> IntOrString \<Rightarrow> (string \<Rightarrow> string option) option
                            \<Rightarrow> 'w \<Rightarrow> (OperationResult \<times> go_error option) \<times> 'w"
  canaryGetCanaryInfo :: "handle \<Rightarrow> 'w \<Rightarrow> Info \<times> 'w"
  infoCheckPartitionReady :: "Info \<Rightarrow> int \<Rightarrow> bool"
  canaryDelete :: "handle \<Rightarrow> 'w \<Rightarrow> go_error option \<times> 'w"
  webhookDo :: "HookType \<Rightarrow> 'w ExecutorContext
                 \<Rightarrow> (bool \<times> Duration \<times> go_error option) \<times> 'w"

text \<open>A call leaves the world as the collaborator returned it and adds one event.\<close>

definition called :: "event \<Rightarrow> 'w \<Rightarrow> 'w ExecutorContext \<Rightarrow> 'w ExecutorContext" where
  "called ev w ctx = ctx\<lparr>world := w, trace := trace ctx @ [ev]\<rparr>"

definition Workloads_Get ::
  "'w Env \<Rightarrow> string \<Rightarrow> string \<Rightarrow> 'w ExecutorContext \<Rightarrow> handle option \<times> 'w ExecutorContext" where
  "Workloads_Get d c n ctx =
     (case workloadsGet d c n (world ctx) of
        (wi, w) \<Rightarrow> (wi, called (CallGet c n wi) w ctx))"

definition CanaryStrategy ::
  "'w Env \<Rightarrow> handle \<Rightarrow> 'w ExecutorContext \<Rightarrow> (handle \<times> go_error option) \<times> 'w ExecutorContext" where
  "CanaryStrategy d wi ctx =
     (case workloadCanaryStrategy d wi (world ctx) of
        ((cs, err), w) \<Rightarrow> ((cs, err), called (CallCanaryStrategy wi cs err) w ctx))"

definition Initialize ::
  "'w Env \<Rightarrow> handle \<Rightarrow> string \<Rightarrow> string \<Rightarrow> 'w ExecutorContext
     \<Rightarrow> go_error option \<times> 'w ExecutorContext" where
  "Initialize d cs rollout run ctx =
     (case canaryInitialize d cs rollout run (world ctx) of
        (err, w) \<Rightarrow> (err, called (CallInitialize cs rollout run err) w ctx))"

definition CreateOrUpdate ::
  "'w Env \<Rightarrow> handle \<Rightarrow> IntOrString \<Rightarrow> addr \<Rightarrow> 'w ExecutorContext
     \<Rightarrow> (OperationResult \<times> go_error option) \<times> 'w ExecutorContext" where
  "CreateOrUpdate d cs replicas patch ctx =
     (case canaryCreateOrUpdate d cs replicas (patchLabels (heap ctx) patch) (world ctx) of
        ((result, err), w) \<Rightarrow>
          ((result, err),
           called (CallCreateOrUpdate cs replicas patch (patchLabels (heap ctx) patch) result err)
             w ctx))"

definition GetCanaryInfo ::
  "'w Env \<Rightarrow> handle \<Rightarrow> 'w ExecutorContext \<Rightarrow> Info \<times> 'w ExecutorContext" where
  "GetCanaryInfo d cw ctx =
     (case canaryGetCanaryInfo d cw (world ctx) of
        (info, w) \<Rightarrow> (info, called (CallGetCanaryInfo cw info) w ctx))"

definition CheckPartitionReady ::
  "'w Env \<Rightarrow> Info \<Rightarrow> int \<Rightarrow> 'w ExecutorContext \<Rightarrow> bool \<times> 'w ExecutorContext" where
  "CheckPartitionReady d info n ctx =
     (let ready = infoCheckPartitionReady d info n
      in (ready, called (CallCheckPartitionReady info n ready) (world ctx) ctx))"

definition Delete ::
  "'w Env \<Rightarrow> handle \<Rightarrow> 'w ExecutorContext \<Rightarrow> go_error option \<times> 'w ExecutorContext" where
  "Delete d cs ctx =
     (case canaryDelete d cs (world ctx) of
        (err, w) \<Rightarrow> (err, called (CallDelete cs err) w ctx))"

text \<open>
  \<^verbatim>\<open>TrafficManager.CheckReady\<close>; the event also records the traffic step \<open>op\<close> of
  \<^verbatim>\<open>modifyTraffic\<close> that asked.
\<close>

definition CheckReady ::
  "'w Env \<Rightarrow> string \<Rightarrow> 'w ExecutorContext \<Rightarrow> bool \<times> 'w ExecutorContext" where
  "CheckReady d op ctx =
     (case trafficCheckReady d (world ctx) of
        (ready, w) \<Rightarrow> (ready, called (CallCheckReady op ready) w ctx))"

definition TrafficManager_With :: "'w Env \<Rightarrow> 'w ExecutorContext \<Rightarrow> 'w ExecutorContext" where
  "TrafficManager_With d ctx =
     called CallWith (trafficWith d (Targets ctx) (Traffic ctx) (world ctx)) ctx"

definition webhook_Do ::
  "'w Env \<Rightarrow> HookType \<Rightarrow> 'w ExecutorContext
     \<Rightarrow> (bool \<times> Duration \<times> go_error option) \<times> 'w ExecutorContext" where
  "webhook_Do d hook ctx =
     (case webhookDo d hook ctx of
        ((done, retry, err), w) \<Rightarrow>
          ((done, retry, err), called (CallWebhook hook done retry err) w ctx))"

text \<open>
  Modelled from the spec: \<^verbatim>\<open>ExecutorContext.Pause\<close> is not in the source at hand; the
  spec gives the context "a pause/continue signal", which the call sets.
\<close>

definition Pause :: "'w ExecutorContext \<Rightarrow> 'w ExecutorContext" where
  "Pause ctx = ctx\<lparr>paused := True, trace := trace ctx @ [CallPause]\<rparr>"

subsection \<open>The step handlers\<close>

text \<open>A step handler returns \<^verbatim>\<open>(bool, time.Duration, error)\<close> and the context as it left it.\<close>

type_synonym 'w stepLifecycleFunc =
  "'w ExecutorContext \<Rightarrow> (bool \<times> Duration \<times> go_error option) \<times> 'w ExecutorContext"

text \<open>
  The loop of \<^verbatim>\<open>doInit\<close> over the targets; \<open>None\<close> when the loop ran to its end, the
  error of the early return otherwise.
\<close>

fun initTargets ::
  "'w Env \<Rightarrow> RolloutRunStepTarget list \<Rightarrow> 'w ExecutorContext
     \<Rightarrow> go_error option \<times> 'w ExecutorContext" where
  "initTargets d [] ctx = (None, ctx)"
| "initTargets d (item # items) ctx =
     (case Workloads_Get d (Cluster item) (Name item) ctx of
        (None, c1) \<Rightarrow>
          (Some (newDoCanaryError (ReasonWorkloadInterfaceNotExist d)
                   (''the workload ('' @ formatRef d (Cluster item) (Name item)
                      @ '') does not exists'')), c1)
      | (Some wi, c1) \<Rightarrow>
          (case CanaryStrategy d wi c1 of
             ((canaryStrategy, Some err), c2) \<Rightarrow>
               (Some (newDoCanaryError ''InternalError''
                        (''failed to get canary strategy, err: '' @ formatErr d err)), c2)
           | ((canaryStrategy, None), c2) \<Rightarrow>
               (case Initialize d canaryStrategy (RolloutName c2) (RolloutRunName c2) c2 of
                  (Some err, c3) \<Rightarrow>
                    (Some (newDoCanaryError ''InitializeFailed''
                             (''failed to initialize canary strategy, err: ''
                                @ formatErr d err)), c3)
                | (None, c3) \<Rightarrow> initTargets d items c3)))"

definition doInit :: "'w Env \<Rightarrow> 'w stepLifecycleFunc" where
  "doInit d ctx =
     (case initTargets d (Targets ctx) ctx of
        (Some err, c) \<Rightarrow> ((False, retryStop d, Some err), c)
      | (None, c) \<Rightarrow> ((True, retryDefault d, None), c))"

definition doPreStepHook :: "'w Env \<Rightarrow> 'w stepLifecycleFunc" where
  "doPreStepHook d ctx = webhook_Do d PreCanaryStepHook ctx"

definition doPostStepHook :: "'w Env \<Rightarrow> 'w stepLifecycleFunc" where
  "doPostStepHook d ctx =
     (case webhook_Do d PostCanaryStepHook ctx of
        ((done, retry, err), c1) \<Rightarrow>
          ((done, retry, err), (if done then Pause c1 else c1)))"

text \<open>
  The \<^verbatim>\<open>switch op\<close> of \<^verbatim>\<open>modifyTraffic\<close>: an operation name outside the four cases
  calls nothing and leaves \<^verbatim>\<open>opResult\<close> and \<^verbatim>\<open>err\<close> as they were.
\<close>

definition trafficOp ::
  "'w Env \<Rightarrow> string \<Rightarrow> ('w \<Rightarrow> (OperationResult \<times> go_error option) \<times> 'w) option" where
  "trafficOp d op =
     (if op = ''forkStable'' then Some (trafficForkStable d)
      else if op = ''forkCanary'' then Some (trafficForkCanary d)
      else if op = ''revertStable'' then Some (trafficRevertStable d)
      else if op = ''revertCanary'' then Some (trafficRevertCanary d)
      else None)"

definition modifyTraffic ::
  "'w Env \<Rightarrow> 'w ExecutorContext \<Rightarrow> string \<Rightarrow> (bool \<times> Duration) \<times> 'w ExecutorContext" where
  "modifyTraffic d ctx op =
     (case (if Traffic ctx \<noteq> None then
              (case trafficOp d op of
                 None \<Rightarrow> ((OperationResultNone, None), ctx)
               | Some f \<Rightarrow>
                   (case f (world ctx) of
                      ((r, err), w) \<Rightarrow> ((r, err), called (CallTraffic op r err) w ctx)))
            else ((OperationResultNone, None), ctx)) of
        ((opResult, Some err), c1) \<Rightarrow> ((False, retryDefault d), c1)
      | ((opResult, None), c1) \<Rightarrow>
          if opResult \<noteq> OperationResultNone then ((False, retryDefault d), c1)
          else if Traffic ctx \<noteq> None then
            (case CheckReady d op c1 of
               (ready, c2) \<Rightarrow>
                 if \<not> ready then ((False, retryDefault d), c2)
                 else ((True, retryImmediately d), c2))
          else ((True, retryImmediately d), c1))"

text \<open>
  \<^verbatim>\<open>appendBuiltinPodTemplateMetadataPatch\<close>: a nil pointer gets a fresh patch, a nil
  \<^verbatim>\<open>Labels\<close> field a fresh map stored into the patch, and the two keys are written into
  the map the patch leads to.
\<close>

definition appendBuiltinPodTemplateMetadataPatch ::
  "'w Env \<Rightarrow> addr option \<Rightarrow> Heap \<Rightarrow> addr \<times> Heap" where
  "appendBuiltinPodTemplateMetadataPatch d patch h =
     (case (case patch of None \<Rightarrow> newMetadataPatch h | Some p \<Rightarrow> (p, h)) of
        (p, h1) \<Rightarrow>
          (case (case Labels (patches h1 p) of
                   None \<Rightarrow>
                     (case newLabelMap h1 of
                        (m, h2) \<Rightarrow>
                          (m, h2\<lparr>patches := (patches h2)(p := (patches h2 p)\<lparr>Labels := Some m\<rparr>)\<rparr>))
                 | Some m \<Rightarrow> (m, h1)) of
             (m, h3) \<Rightarrow>
               (let h4 = h3\<lparr>labelMaps :=
                             (labelMaps h3)(m := (labelMaps h3 m)(LabelCanary d \<mapsto> ''true''))\<rparr>;
                    h5 = h4\<lparr>labelMaps :=
                             (labelMaps h4)(m := (labelMaps h4 m)(LabelPodRevision d \<mapsto> ''canary''))\<rparr>
                in (p, h5))))"

text \<open>
  The first loop of \<^verbatim>\<open>doCanary\<close>, with the variables \<^verbatim>\<open>changed\<close> and
  \<^verbatim>\<open>canaryWorkloads\<close> it updates; \<open>Inl\<close> is the error of an early return.
\<close>

fun createCanaryResources ::
  "'w Env \<Rightarrow> addr \<Rightarrow> RolloutRunStepTarget list \<Rightarrow> bool \<Rightarrow> handle list \<Rightarrow> 'w ExecutorContext
     \<Rightarrow> (go_error + bool \<times> handle list) \<times> 'w ExecutorContext" where
  "createCanaryResources d patch [] changed canaryWorkloads ctx =
     (Inr (changed, canaryWorkloads), ctx)"
| "createCanaryResources d patch (item # items) changed canaryWorkloads ctx =
     (case Workloads_Get d (Cluster item) (Name item) ctx of
        (None, c1) \<Rightarrow>
          (Inl (newDoCanaryError (ReasonWorkloadInterfaceNotExist d)
                  (''the workload ('' @ formatRef d (Cluster item) (Name item)
                     @ '') does not exists'')), c1)
      | (Some wi, c1) \<Rightarrow>
          (case CanaryStrategy d wi c1 of
             ((canaryStrategy, Some err), c2) \<Rightarrow>
               (Inl (newDoCanaryError ''InternalError''
                       (''failed to get canary strategy, err: '' @ formatErr d err)), c2)
           | ((canaryStrategy, None), c2) \<Rightarrow>
               (case CreateOrUpdate d canaryStrategy (Replicas item) patch c2 of
                  ((result, Some err), c3) \<Rightarrow>
                    (Inl (newDoCanaryError ''CreateOrUpdateFailed''
                            (''failed to ensure canary resource for workload(''
                               @ formatRef d (Cluster item) (Name item) @ ''), err: ''
                               @ formatErr d err)), c3)
                | ((result, None), c3) \<Rightarrow>
                    createCanaryResources d patch items
                      (if result \<noteq> OperationResultNone then True else changed)
                      (canaryWorkloads @ [canaryStrategy]) c3)))"

text \<open>The second loop of \<^verbatim>\<open>doCanary\<close>: \<open>False\<close> at the first workload that is not ready.\<close>

fun waitCanaryReady ::
  "'w Env \<Rightarrow> handle list \<Rightarrow> 'w ExecutorContext \<Rightarrow> bool \<times> 'w ExecutorContext" where
  "waitCanaryReady d [] ctx = (True, ctx)"
| "waitCanaryReady d (cw # cws) ctx =
     (case GetCanaryInfo d cw ctx of
        (info, c1) \<Rightarrow>
          (case CheckPartitionReady d info (StatusReplicas info) c1 of
             (ready, c2) \<Rightarrow>
               if \<not> ready then (False, c2) else waitCanaryReady d cws c2))"

definition doCanary :: "'w Env \<Rightarrow> 'w stepLifecycleFunc" where
  "doCanary d ctx =
     (case modifyTraffic d ctx ''forkStable'' of
        ((prepareDone, retry), c1) \<Rightarrow>
          if \<not> prepareDone then ((False, retry, None), c1)
          else
            (case appendBuiltinPodTemplateMetadataPatch d (PodTemplateMetadataPatch c1) (heap c1) of
               (patch, h) \<Rightarrow>
                 (case createCanaryResources d patch (Targets c1) False [] (c1\<lparr>heap := h\<rparr>) of
                    (Inl err, c2) \<Rightarrow> ((False, retryStop d, Some err), c2)
                  | (Inr (changed, canaryWorkloads), c2) \<Rightarrow>
                      if changed then ((False, retryDefault d, None), c2)
                      else
                        (case waitCanaryReady d canaryWorkloads c2 of
                           (False, c3) \<Rightarrow> ((False, retryDefault d, None), c3)
                         | (True, c3) \<Rightarrow>
                             (case modifyTraffic d c3 ''forkCanary'' of
                                ((trafficCanaryDone, retry2), c4) \<Rightarrow>
                                  if \<not> trafficCanaryDone then ((False, retry2, None), c4)
                                  else ((True, retryImmediately d, None), c4))))))"

text \<open>The loop of \<^verbatim>\<open>doRecycle\<close> over the targets.\<close>

fun deleteTargets ::
  "'w Env \<Rightarrow> RolloutRunStepTarget list \<Rightarrow> 'w ExecutorContext
     \<Rightarrow> go_error option \<times> 'w ExecutorContext" where
  "deleteTargets d [] ctx = (None, ctx)"
| "deleteTargets d (item # items) ctx =
     (case Workloads_Get d (Cluster item) (Name item) ctx of
        (None, c1) \<Rightarrow>
          (Some (newDoCanaryError (ReasonWorkloadInterfaceNotExist d)
                   (''the workload ('' @ formatRef d (Cluster item) (Name item)
                      @ '') does not exists'')), c1)
      | (Some wi, c1) \<Rightarrow>
          (case CanaryStrategy d wi c1 of
             ((canaryStrategy, Some err), c2) \<Rightarrow>
               (Some (newDoCanaryError ''InternalError''
                        (''failed to get canary strategy, err: '' @ formatErr d err)), c2)
           | ((canaryStrategy, None), c2) \<Rightarrow>
               (case Delete d canaryStrategy c2 of
                  (Some err, c3) \<Rightarrow>
                    (Some (newDoCanaryError ''DeleteFailed''
                             (''failed to delete canary resource for workload(''
                                @ formatRef d (Cluster item) (Name item) @ ''), err: ''
                                @ formatErr d err)), c3)
                | (None, c3) \<Rightarrow> deleteTargets d items c3)))"

definition doRecycle :: "'w Env \<Rightarrow> 'w stepLifecycleFunc" where
  "doRecycle d ctx =
     (case modifyTraffic d ctx ''revertCanary'' of
        ((done, retry), c1) \<Rightarrow>
          if \<not> done then ((False, retry, None), c1)
          else
            (case deleteTargets d (Targets c1) c1 of
               (Some err, c2) \<Rightarrow> ((False, retryStop d, Some err), c2)
             | (None, c2) \<Rightarrow>
                 (case modifyTraffic d c2 ''revertStable'' of
                    ((done2, retry2), c3) \<Rightarrow>
                      if \<not> done2 then ((False, retry2, None), c3)
                      else ((True, retryDefault d, None), c3))))"

subsection \<open>The step state machine\<close>

text \<open>
  Modelled from the spec: the step state machine (\<^verbatim>\<open>newStepStateMachine\<close>, its methods
  \<^verbatim>\<open>add\<close> and \<^verbatim>\<open>do\<close>, and \<^verbatim>\<open>skipStep\<close>) is not in the source at hand. The spec:
  a transition is a tuple (fromState, toState, handler); \<^verbatim>\<open>add\<close> "registers exactly one
  handler per from state" and duplicates are rejected; the terminal state has "a no-op
  handler [...] that always reports done-immediately-with-empty-next-state".
\<close>

record 'w stepStateEntry =
  nextState :: RolloutStepState
  lifecycle :: "'w stepLifecycleFunc"

type_synonym 'w stepStateMachine = "RolloutStepState \<Rightarrow> 'w stepStateEntry option"

text \<open>What a call may do besides returning: fail fast on a programming error.\<close>

datatype 'a outcome = Panic | Returned 'a

text \<open>Modelled from the spec: a new machine has no transition registered.\<close>

definition newStepStateMachine :: "'w stepStateMachine" where
  "newStepStateMachine = Map.empty"

text \<open>
  Modelled from the spec: \<^verbatim>\<open>add(from, to, handler)\<close> "registers exactly one handler per
  from state; registering twice for the same from is a programming error", which
  "implementers must reject".
\<close>

definition stepStateMachine_add ::
  "'w stepStateMachine \<Rightarrow> RolloutStepState \<Rightarrow> RolloutStepState \<Rightarrow> 'w stepLifecycleFunc
     \<Rightarrow> 'w stepStateMachine outcome" where
  "stepStateMachine_add m curState next f =
     (case m curState of
        Some entry \<Rightarrow> Panic
      | None \<Rightarrow> Returned (m(curState \<mapsto> \<lparr>nextState = next, lifecycle = f\<rparr>)))"

text \<open>
  Modelled from the spec: the handler of the terminal state is "a no-op handler [...] that
  always reports done-immediately".
\<close>

definition skipStep :: "'w Env \<Rightarrow> 'w stepLifecycleFunc" where
  "skipStep d ctx = ((True, retryImmediately d, None), ctx)"

text \<open>
  Modelled from the spec: the terminal state "maps to an empty next state"; a state is
  terminal when the transition registered for it has the empty next state.
\<close>

definition terminalState :: "'w stepStateMachine \<Rightarrow> RolloutStepState \<Rightarrow> bool" where
  "terminalState m s = (case m s of None \<Rightarrow> False | Some entry \<Rightarrow> nextState entry = [])"

text \<open>
  Modelled from the spec: \<^verbatim>\<open>do(context, currentState)\<close> "looks up the handler registered
  for currentState. If none exists, fails fast". "error!=nil: stop the machine";
  "done=false: stay in fromState"; "on handler done=true: advance persisted state to
  toState; if the
  computed next requeue intent is immediate and toState is non-terminal, loop and invoke
  the handler registered for toState within the same call". The empty next state of the
  terminal transition is "signaling the step is fully done": the state is left as it is
  and the call reports done. The loop need not end for every machine, so the function is
  partial: \<open>None\<close> is a call that never returns.
\<close>

partial_function (option) stepStateMachine_do ::
  "'w Env \<Rightarrow> 'w stepStateMachine \<Rightarrow> 'w ExecutorContext \<Rightarrow> RolloutStepState
     \<Rightarrow> ((bool \<times> Result \<times> go_error option) \<times> 'w ExecutorContext) outcome option" where
  "stepStateMachine_do d m ctx curState =
     (case m curState of
        None \<Rightarrow> Some Panic
      | Some entry \<Rightarrow>
          (case lifecycle entry ctx of
             ((done, retry, Some err), c1) \<Rightarrow>
               Some (Returned ((False, requeueResult d retry, Some err), c1))
           | ((done, retry, None), c1) \<Rightarrow>
               if \<not> done then Some (Returned ((False, requeueResult d retry, None), c1))
               else if nextState entry = [] then
                 Some (Returned ((True, requeueResult d retry, None), c1))
               else if retry = retryImmediately d \<and> \<not> terminalState m (nextState entry) then
                 stepStateMachine_do d m (c1\<lparr>State := nextState entry\<rparr>) (nextState entry)
               else
                 Some (Returned ((False, requeueResult d retry, None),
                                 c1\<lparr>State := nextState entry\<rparr>))))"

subsection \<open>The canary executor\<close>

text \<open>
  Of \<^verbatim>\<open>canaryExecutor\<close> the state machine is kept; the logger is left out and the webhook
  executor is one of the collaborators.
\<close>

record 'w canaryExecutor =
  stateMachine :: "'w stepStateMachine"

definition outcome_bind :: "'a outcome \<Rightarrow> ('a \<Rightarrow> 'b outcome) \<Rightarrow> 'b outcome" where
  "outcome_bind x f = (case x of Panic \<Rightarrow> Panic | Returned a \<Rightarrow> f a)"

definition newCanaryExecutor :: "'w Env \<Rightarrow> 'w canaryExecutor outcome" where
  "newCanaryExecutor d =
     outcome_bind (stepStateMachine_add newStepStateMachine
                     StepPending StepPreCanaryStepHook (doInit d)) (\<lambda>m1.
     outcome_bind (stepStateMachine_add m1
                     StepPreCanaryStepHook StepRunning (doPreStepHook d)) (\<lambda>m2.
     outcome_bind (stepStateMachine_add m2
                     StepRunning StepPostCanaryStepHook (doCanary d)) (\<lambda>m3.
     outcome_bind (stepStateMachine_add m3
                     StepPostCanaryStepHook StepResourceRecycling (doPostStepHook d)) (\<lambda>m4.
     outcome_bind (stepStateMachine_add m4
                     StepResourceRecycling StepSucceeded (doRecycle d)) (\<lambda>m5.
     outcome_bind (stepStateMachine_add m5
                     StepSucceeded [] (skipStep d)) (\<lambda>m6.
     Returned \<lparr>stateMachine = m6\<rparr>))))))"

text \<open>
  \<^verbatim>\<open>Do\<close>: the entry guard, the binding of the traffic manager, and the state machine run
  from the step state of the new status. \<^verbatim>\<open>inCanary\<close> is a method of the context that is
  not in the source at hand; it may change the world and is not recorded in the trace.
\<close>

definition Do ::
  "'w Env \<Rightarrow> 'w canaryExecutor \<Rightarrow> 'w ExecutorContext
     \<Rightarrow> ((bool \<times> Result \<times> go_error option) \<times> 'w ExecutorContext) outcome option" where
  "Do d e ctx =
     (case inCanary d ctx of
        (b, w) \<Rightarrow>
          if \<not> b then
            Some (Returned ((True, \<lparr>Requeue = True, RequeueAfter = 0\<rparr>, None), ctx\<lparr>world := w\<rparr>))
          else
            (let c1 = TrafficManager_With d (ctx\<lparr>world := w\<rparr>)
             in stepStateMachine_do d (stateMachine e) c1 (State c1)))"

subsection \<open>Reading the trace\<close>

text \<open>The events a call added to the trace: those after the ones that were there before.\<close>

definition emitted :: "'w ExecutorContext \<Rightarrow> 'w ExecutorContext \<Rightarrow> event list" where
  "emitted ctx ctx' = drop (length (trace ctx)) (trace ctx')"

text \<open>Kinds of calls, and the answers that matter to the handlers.\<close>

fun isGetCall :: "event \<Rightarrow> bool" where
  "isGetCall (CallGet c n wi) = True"
| "isGetCall _ = False"

fun lookupKey :: "event \<Rightarrow> string \<times> string" where
  "lookupKey (CallGet c n wi) = (c, n)"
| "lookupKey _ = ([], [])"

fun failedLookup :: "event \<Rightarrow> bool" where
  "failedLookup (CallGet c n wi) = (wi = None)"
| "failedLookup _ = False"

fun isCanaryStrategyCall :: "event \<Rightarrow> bool" where
  "isCanaryStrategyCall (CallCanaryStrategy wi cs err) = True"
| "isCanaryStrategyCall _ = False"

fun isInitializeCall :: "event \<Rightarrow> bool" where
  "isInitializeCall (CallInitialize cs r rr err) = True"
| "isInitializeCall _ = False"

fun succeededInitialize :: "event \<Rightarrow> bool" where
  "succeededInitialize (CallInitialize cs r rr err) = (err = None)"
| "succeededInitialize _ = False"

fun isCreateOrUpdateCall :: "event \<Rightarrow> bool" where
  "isCreateOrUpdateCall (CallCreateOrUpdate cs n p labels r err) = True"
| "isCreateOrUpdateCall _ = False"

fun succeededCreateOrUpdate :: "event \<Rightarrow> bool" where
  "succeededCreateOrUpdate (CallCreateOrUpdate cs n p labels r err) = (err = None)"
| "succeededCreateOrUpdate _ = False"

fun changedCreateOrUpdate :: "event \<Rightarrow> bool" where
  "changedCreateOrUpdate (CallCreateOrUpdate cs n p labels r err) = (r \<noteq> OperationResultNone)"
| "changedCreateOrUpdate _ = False"

fun isReadinessCall :: "event \<Rightarrow> bool" where
  "isReadinessCall (CallGetCanaryInfo cw info) = True"
| "isReadinessCall (CallCheckPartitionReady info n ready) = True"
| "isReadinessCall _ = False"

fun readyPartition :: "event \<Rightarrow> bool" where
  "readyPartition (CallCheckPartitionReady info n ready) = ready"
| "readyPartition _ = False"

fun notReadyPartition :: "event \<Rightarrow> bool" where
  "notReadyPartition (CallCheckPartitionReady info n ready) = (\<not> ready)"
| "notReadyPartition _ = False"

fun isDeleteCall :: "event \<Rightarrow> bool" where
  "isDeleteCall (CallDelete cs err) = True"
| "isDeleteCall _ = False"

fun succeededDelete :: "event \<Rightarrow> bool" where
  "succeededDelete (CallDelete cs err) = (err = None)"
| "succeededDelete _ = False"

fun failedDelete :: "event \<Rightarrow> bool" where
  "failedDelete (CallDelete cs err) = (err \<noteq> None)"
| "failedDelete _ = False"

text \<open>A call to the traffic manager made by \<^verbatim>\<open>modifyTraffic\<close> for the operation \<open>op\<close>.\<close>

fun isTrafficCall :: "string \<Rightarrow> event \<Rightarrow> bool" where
  "isTrafficCall op (CallTraffic op' r err) = (op' = op)"
| "isTrafficCall op (CallCheckReady op' ready) = (op' = op)"
| "isTrafficCall op _ = False"

text \<open>
  The calls of a traffic step that is complete: none when the rollout-run has no traffic
  strategy; otherwise the operation answering "unchanged" without error, then a
  readiness check answering true.
\<close>

definition trafficDone :: "addr option \<Rightarrow> string \<Rightarrow> event list \<Rightarrow> bool" where
  "trafficDone traffic op evs =
     (if traffic = None then evs = []
      else evs = [CallTraffic op OperationResultNone None, CallCheckReady op True])"

text \<open>A call to the workload registry or to a workload's canary strategy.\<close>

fun isWorkloadCall :: "event \<Rightarrow> bool" where
  "isWorkloadCall (CallGet c n wi) = True"
| "isWorkloadCall (CallCanaryStrategy wi cs err) = True"
| "isWorkloadCall (CallInitialize cs r rr err) = True"
| "isWorkloadCall (CallCreateOrUpdate cs n p labels r err) = True"
| "isWorkloadCall (CallGetCanaryInfo cw info) = True"
| "isWorkloadCall (CallCheckPartitionReady info n ready) = True"
| "isWorkloadCall (CallDelete cs err) = True"
| "isWorkloadCall _ = False"

text \<open>A call of the first loop of \<^verbatim>\<open>doCanary\<close>.\<close>

fun isCreateCall :: "event \<Rightarrow> bool" where
  "isCreateCall (CallGet c n wi) = True"
| "isCreateCall (CallCanaryStrategy wi cs err) = True"
| "isCreateCall (CallCreateOrUpdate cs n p labels r err) = True"
| "isCreateCall _ = False"

text \<open>
  \<open>calls ctx evs ctx'\<close>: from \<open>ctx\<close> to \<open>ctx'\<close> only collaborators were called, and the
  calls were \<open>evs\<close>; everything but the world and the trace is as it was.
\<close>

definition calls :: "'w ExecutorContext \<Rightarrow> event list \<Rightarrow> 'w ExecutorContext \<Rightarrow> bool" where
  "calls ctx evs ctx' \<longleftrightarrow>
     trace ctx' = trace ctx @ evs \<and> RolloutName ctx' = RolloutName ctx \<and>
     RolloutRunName ctx' = RolloutRunName ctx \<and> Targets ctx' = Targets ctx \<and>
     Traffic ctx' = Traffic ctx \<and>
     PodTemplateMetadataPatch ctx' = PodTemplateMetadataPatch ctx \<and>
     State ctx' = State ctx \<and> paused ctx' = paused ctx \<and> heap ctx' = heap ctx"

text \<open>The labels that the patch of a \<^verbatim>\<open>CreateOrUpdate\<close> call led to.\<close>

fun passedLabels :: "event \<Rightarrow> (string \<Rightarrow> string option) option" where
  "passedLabels (CallCreateOrUpdate cs n p labels r err) = labels"
| "passedLabels _ = None"

text \<open>The place of a step state in the chain of the canary executor.\<close>

definition stepRank :: "RolloutStepState \<Rightarrow> nat" where
  "stepRank s =
     (if s = StepPending then 0
      else if s = StepPreCanaryStepHook then 1
      else if s = StepRunning then 2
      else if s = StepPostCanaryStepHook then 3
      else if s = StepResourceRecycling then 4
      else if s = StepSucceeded then 5
      else 6)"

text \<open>
  What the calls of the loop of \<^verbatim>\<open>doInit\<close> over the targets \<open>ts\<close> look like when the loop
  ended with \<open>r\<close>: lookups go through the targets in order; the loop ran to its end
  exactly when \<^verbatim>\<open>Initialize\<close> succeeded once for every target; a failed lookup is the
  last call, ends the loop with the structured error, and leaves one lookup more than
  calls of \<^verbatim>\<open>Initialize\<close>.
\<close>

definition initTrace ::
  "'w Env \<Rightarrow> RolloutRunStepTarget list \<Rightarrow> go_error option \<Rightarrow> event list \<Rightarrow> bool" where
  "initTrace d ts r evs \<longleftrightarrow>
     (\<forall>e \<in> set evs. isGetCall e \<or> isCanaryStrategyCall e \<or> isInitializeCall e) \<and>
     map lookupKey (filter isGetCall evs) =
       take (length (filter isGetCall evs)) (map (\<lambda>t. (Cluster t, Name t)) ts) \<and>
     (r = None \<longrightarrow> length (filter succeededInitialize evs) = length ts) \<and>
     (r \<noteq> None \<longrightarrow> length (filter succeededInitialize evs) < length ts) \<and>
     (list_ex failedLookup evs \<longrightarrow>
        (\<exists>msg. r = Some (CodeReasonMessage ''DoCanaryError''
                          (ReasonWorkloadInterfaceNotExist d) msg)) \<and>
        failedLookup (last evs) \<and>
        Suc (length (filter isInitializeCall evs)) = length (filter isGetCall evs))"

text \<open>The same for the loop of \<^verbatim>\<open>doRecycle\<close>.\<close>

definition deleteTrace ::
  "'w Env \<Rightarrow> RolloutRunStepTarget list \<Rightarrow> go_error option \<Rightarrow> event list \<Rightarrow> bool" where
  "deleteTrace d ts r evs \<longleftrightarrow>
     (\<forall>e \<in> set evs. isGetCall e \<or> isCanaryStrategyCall e \<or> isDeleteCall e) \<and>
     (r = None \<longrightarrow> length (filter succeededDelete evs) = length ts) \<and>
     (\<forall>err. r = Some err \<longrightarrow>
        length (filter succeededDelete evs) < length ts \<and>
        (\<exists>reason msg. err = CodeReasonMessage ''DoCanaryError'' reason msg \<and>
           (list_ex failedLookup evs \<longrightarrow> reason = ReasonWorkloadInterfaceNotExist d) \<and>
           (list_ex failedDelete evs \<longrightarrow> reason = ''DeleteFailed'')))"

text \<open>
  The same for the first loop of \<^verbatim>\<open>doCanary\<close>, started with \<open>changed0\<close> and \<open>cws0\<close> in
  its variables \<^verbatim>\<open>changed\<close> and \<^verbatim>\<open>canaryWorkloads\<close>: every \<^verbatim>\<open>CreateOrUpdate\<close> got the
  labels \<open>labels\<close>; the loop ran to its end exactly when \<^verbatim>\<open>CreateOrUpdate\<close> returned
  without error for every target, and then \<^verbatim>\<open>changed\<close> tells whether one of them
  answered something other than "unchanged".
\<close>

definition createTrace ::
  "(string \<Rightarrow> string option) option \<Rightarrow> RolloutRunStepTarget list \<Rightarrow> bool \<Rightarrow> handle list
     \<Rightarrow> go_error + bool \<times> handle list \<Rightarrow> event list \<Rightarrow> bool" where
  "createTrace labels ts changed0 cws0 r evs \<longleftrightarrow>
     (\<forall>e \<in> set evs. isCreateCall e) \<and>
     (\<forall>e \<in> set evs. isCreateOrUpdateCall e \<longrightarrow> passedLabels e = labels) \<and>
     (case r of
        Inl err \<Rightarrow>
          length (filter succeededCreateOrUpdate evs) < length ts \<and>
          (\<exists>reason msg. err = CodeReasonMessage ''DoCanaryError'' reason msg)
      | Inr (changed, cws) \<Rightarrow>
          length (filter succeededCreateOrUpdate evs) = length ts \<and>
          changed = (changed0 \<or> list_ex changedCreateOrUpdate evs) \<and>
          length cws = length cws0 + length ts)"

text \<open>
  The same for the second loop of \<^verbatim>\<open>doCanary\<close>: it answers true exactly when the
  partition of every workload was ready.
\<close>

definition readyTrace :: "handle list \<Rightarrow> bool \<Rightarrow> event list \<Rightarrow> bool" where
  "readyTrace cws r evs \<longleftrightarrow>
     (\<forall>e \<in> set evs. isReadinessCall e) \<and>
     (if r then length (filter readyPartition evs) = length cws \<and>
               \<not> list_ex notReadyPartition evs
      else length (filter readyPartition evs) < length cws \<and> list_ex notReadyPartition evs)"

text \<open>
  The transition graph as the spec lists it: "Pending\<rightarrow>PreCanaryStepHook: doInit,
  PreCanaryStepHook\<rightarrow>Running: doPreStepHook, Running\<rightarrow>PostCanaryStepHook: doCanary,
  PostCanaryStepHook\<rightarrow>ResourceRecycling: doPostStepHook, ResourceRecycling\<rightarrow>Succeeded:
  doRecycle, Succeeded\<rightarrow>(empty): no-op (always done)". It is compared below with the
  machine that \<^verbatim>\<open>newCanaryExecutor\<close> builds.
\<close>

definition specTransitions :: "'w Env \<Rightarrow> 'w stepStateMachine" where
  "specTransitions d =
     [StepPending \<mapsto> \<lparr>nextState = StepPreCanaryStepHook, lifecycle = doInit d\<rparr>,
      StepPreCanaryStepHook \<mapsto> \<lparr>nextState = StepRunning, lifecycle = doPreStepHook d\<rparr>,
      StepRunning \<mapsto> \<lparr>nextState = StepPostCanaryStepHook, lifecycle = doCanary d\<rparr>,
      StepPostCanaryStepHook \<mapsto>
        \<lparr>nextState = StepResourceRecycling, lifecycle = doPostStepHook d\<rparr>,
      StepResourceRecycling \<mapsto> \<lparr>nextState = StepSucceeded, lifecycle = doRecycle d\<rparr>,
      StepSucceeded \<mapsto> \<lparr>nextState = [], lifecycle = skipStep d\<rparr>]"

subsection \<open>What the collaborators answer\<close>

text \<open>
  The properties below speak of what the collaborators answer: a lookup that returns nil,
  a \<^verbatim>\<open>CreateOrUpdate\<close> that returns "unchanged", traffic that is converged. The
  following definitions say this of the collaborators themselves, independently of the
  handlers: whether a step goes through in a given world and, if so, which calls it takes
  and which world it leaves. The handlers are compared with them below.
\<close>

text \<open>
  A traffic step for the operation \<open>op\<close>, whose traffic-manager call is \<open>f\<close>, is converged
  in the world \<open>w\<close>: either the rollout-run has no traffic strategy (no call), or the call
  answers "unchanged" without error and \<^verbatim>\<open>CheckReady\<close> then answers true.
\<close>

definition trafficConverged ::
  "'w Env \<Rightarrow> addr option \<Rightarrow> string \<Rightarrow> ('w \<Rightarrow> (OperationResult \<times> go_error option) \<times> 'w) \<Rightarrow> 'w
     \<Rightarrow> (event list \<times> 'w) option" where
  "trafficConverged d traffic op f w =
     (if traffic = None then Some ([], w)
      else
        (case f w of
           ((r, Some err), w1) \<Rightarrow> None
         | ((r, None), w1) \<Rightarrow>
             if r \<noteq> OperationResultNone then None
             else
               (case trafficCheckReady d w1 of
                  (ready, w2) \<Rightarrow>
                    if ready then Some ([CallTraffic op r None, CallCheckReady op True], w2)
                    else None)))"

text \<open>
  The traffic-manager call \<open>f\<close> made in the world \<open>w\<close> fails, or answers something other
  than "unchanged", or \<^verbatim>\<open>CheckReady\<close> answers false after it.
\<close>

definition trafficUnsettled ::
  "'w Env \<Rightarrow> ('w \<Rightarrow> (OperationResult \<times> go_error option) \<times> 'w) \<Rightarrow> 'w \<Rightarrow> bool" where
  "trafficUnsettled d f w =
     (case f w of
        ((r, err), w1) \<Rightarrow>
          err \<noteq> None \<or> r \<noteq> OperationResultNone \<or> \<not> fst (trafficCheckReady d w1))"

text \<open>
  The target \<open>item\<close> resolves and is initialised in the world \<open>w\<close>: its lookup answers a
  workload, the workload has a canary strategy, and \<^verbatim>\<open>Initialize\<close> succeeds.
\<close>

definition initialized ::
  "'w Env \<Rightarrow> string \<Rightarrow> string \<Rightarrow> RolloutRunStepTarget \<Rightarrow> 'w \<Rightarrow> (event list \<times> 'w) option" where
  "initialized d rollout run item w =
     (case workloadsGet d (Cluster item) (Name item) w of
        (None, w1) \<Rightarrow> None
      | (Some wi, w1) \<Rightarrow>
          (case workloadCanaryStrategy d wi w1 of
             ((cs, Some err), w2) \<Rightarrow> None
           | ((cs, None), w2) \<Rightarrow>
               (case canaryInitialize d cs rollout run w2 of
                  (Some err, w3) \<Rightarrow> None
                | (None, w3) \<Rightarrow>
                    Some ([CallGet (Cluster item) (Name item) (Some wi),
                           CallCanaryStrategy wi cs None,
                           CallInitialize cs rollout run None], w3))))"

text \<open>
  The target \<open>item\<close> resolves in the world \<open>w\<close> and its \<^verbatim>\<open>CreateOrUpdate\<close>, called with the
  target's replicas and the patch \<open>p\<close> leading to \<open>labels\<close>, returns without error (with
  whatever result).
\<close>

definition createdOrUpdated ::
  "'w Env \<Rightarrow> addr \<Rightarrow> (string \<Rightarrow> string option) option \<Rightarrow> RolloutRunStepTarget \<Rightarrow> 'w
     \<Rightarrow> (event list \<times> 'w) option" where
  "createdOrUpdated d p labels item w =
     (case workloadsGet d (Cluster item) (Name item) w of
        (None, w1) \<Rightarrow> None
      | (Some wi, w1) \<Rightarrow>
          (case workloadCanaryStrategy d wi w1 of
             ((cs, Some err), w2) \<Rightarrow> None
           | ((cs, None), w2) \<Rightarrow>
               (case canaryCreateOrUpdate d cs (Replicas item) labels w2 of
                  ((r, Some err), w3) \<Rightarrow> None
                | ((r, None), w3) \<Rightarrow>
                    Some ([CallGet (Cluster item) (Name item) (Some wi),
                           CallCanaryStrategy wi cs None,
                           CallCreateOrUpdate cs (Replicas item) p labels r None], w3))))"

text \<open>The target \<open>item\<close> resolves in the world \<open>w\<close> and its \<^verbatim>\<open>Delete\<close> succeeds.\<close>

definition deleted ::
  "'w Env \<Rightarrow> RolloutRunStepTarget \<Rightarrow> 'w \<Rightarrow> (event list \<times> 'w) option" where
  "deleted d item w =
     (case workloadsGet d (Cluster item) (Name item) w of
        (None, w1) \<Rightarrow> None
      | (Some wi, w1) \<Rightarrow>
          (case workloadCanaryStrategy d wi w1 of
             ((cs, Some err), w2) \<Rightarrow> None
           | ((cs, None), w2) \<Rightarrow>
               (case canaryDelete d cs w2 of
                  (Some err, w3) \<Rightarrow> None
                | (None, w3) \<Rightarrow>
                    Some ([CallGet (Cluster item) (Name item) (Some wi),
                           CallCanaryStrategy wi cs None,
                           CallDelete cs None], w3))))"

text \<open>The partition of the canary workload \<open>cw\<close> is ready in the world \<open>w\<close>.\<close>

definition partitionReady :: "'w Env \<Rightarrow> handle \<Rightarrow> 'w \<Rightarrow> (event list \<times> 'w) option" where
  "partitionReady d cw w =
     (case canaryGetCanaryInfo d cw w of
        (info, w1) \<Rightarrow>
          if infoCheckPartitionReady d info (StatusReplicas info) then
            Some ([CallGetCanaryInfo cw info,
                   CallCheckPartitionReady info (StatusReplicas info) True], w1)
          else None)"

text \<open>
  Every element of the list goes through, each in the world the one before it left: the
  calls of all of them in order, and the world after the last.
\<close>

fun eachInTurn ::
  "('a \<Rightarrow> 'w \<Rightarrow> (event list \<times> 'w) option) \<Rightarrow> 'a list \<Rightarrow> 'w \<Rightarrow> (event list \<times> 'w) option" where
  "eachInTurn step [] w = Some ([], w)"
| "eachInTurn step (x # xs) w =
     (case step x w of
        None \<Rightarrow> None
      | Some (evs, w1) \<Rightarrow>
          (case eachInTurn step xs w1 of
             None \<Rightarrow> None
           | Some (evs', w') \<Rightarrow> Some (evs @ evs', w')))"

text \<open>The canary strategies that \<^verbatim>\<open>CreateOrUpdate\<close> was called on, in the order of the calls.\<close>

fun createdStrategies :: "event list \<Rightarrow> handle list" where
  "createdStrategies [] = []"
| "createdStrategies (CallCreateOrUpdate cs n p labels r err # evs) = cs # createdStrategies evs"
| "createdStrategies (e # evs) = createdStrategies evs"

subsection \<open>A world to run the model in\<close>

text \<open>
  A small world for running the handlers on concrete inputs: the world is the list of
  canary resources that exist. \<^verbatim>\<open>CreateOrUpdate\<close> creates a missing resource and answers
  "unchanged" for one that exists; the workload named \<open>missing\<close> is not registered; traffic
  is always converged and both hooks pass.
\<close>

definition sampleEnv :: "handle list Env" where
  "sampleEnv =
     \<lparr>retryStop = - 1,
      retryDefault = 5000000000,
      retryImmediately = 0,
      ReasonWorkloadInterfaceNotExist = ''WorkloadInterfaceNotExist'',
      LabelCanary = ''canary'',
      LabelPodRevision = ''pod-revision'',
      formatRef = (\<lambda>c n. c @ ''/'' @ n),
      formatErr = (\<lambda>e. case e of CodeReasonMessage c r m \<Rightarrow> m | ErrorString s \<Rightarrow> s),
      requeueResult = (\<lambda>r. \<lparr>Requeue = (r = 0), RequeueAfter = (if 0 < r then r else 0)\<rparr>),
      inCanary = (\<lambda>c. (True, world c)),
      trafficWith = (\<lambda>ts t w. w),
      trafficForkStable = (\<lambda>w. ((OperationResultNone, None), w)),
      trafficForkCanary = (\<lambda>w. ((OperationResultNone, None), w)),
      trafficRevertStable = (\<lambda>w. ((OperationResultNone, None), w)),
      trafficRevertCanary = (\<lambda>w. ((OperationResultNone, None), w)),
      trafficCheckReady = (\<lambda>w. (True, w)),
      workloadsGet = (\<lambda>c n w. (if n = ''missing'' then None else Some (length n), w)),
      workloadCanaryStrategy = (\<lambda>wi w. ((wi, None), w)),
      canaryInitialize = (\<lambda>cs r rr w. (None, w)),
      canaryCreateOrUpdate =
        (\<lambda>cs n labels w.
           ((if cs \<in> set w then OperationResultNone else ''created'', None), cs # w)),
      canaryGetCanaryInfo =
        (\<lambda>cs w. (\<lparr>InfoClusterName = ''c'', InfoName = ''n'', StatusReplicas = 1,
                    StatusUpdatedAvailableReplicas = 1\<rparr>, w)),
      infoCheckPartitionReady = (\<lambda>info n. n \<le> StatusUpdatedAvailableReplicas info),
      canaryDelete = (\<lambda>cs w. (None, removeAll cs w)),
      webhookDo = (\<lambda>hook c. ((True, 0, None), world c))\<rparr>"

definition emptyHeap :: Heap where
  "emptyHeap =
     \<lparr>patches = (\<lambda>a. \<lparr>Labels = None\<rparr>), labelMaps = (\<lambda>a. Map.empty),
      nextPatch = 0, nextMap = 0\<rparr>"

definition sampleContext :: "handle list ExecutorContext" where
  "sampleContext =
     \<lparr>RolloutName = ''rollout'', RolloutRunName = ''run'',
      Targets = [\<lparr>Cluster = ''c1'', Name = ''a'', Replicas = FromInt 1\<rparr>,
                 \<lparr>Cluster = ''c2'', Name = ''bb'', Replicas = FromInt 1\<rparr>],
      Traffic = Some 0, PodTemplateMetadataPatch = None, State = StepPending,
      paused = False, heap = emptyHeap, world = [], trace = []\<rparr>"

text \<open>The sample context with a second target whose workload is not registered.\<close>

definition missingContext :: "handle list ExecutorContext" where
  "missingContext =
     sampleContext\<lparr>Targets := [\<lparr>Cluster = ''c1'', Name = ''a'', Replicas = FromInt 1\<rparr>,
                               \<lparr>Cluster = ''c2'', Name = ''missing'', Replicas = FromInt 1\<rparr>]\<rparr>"

text \<open>A world whose traffic manager fails to fork stable traffic.\<close>

definition failingForkEnv :: "handle list Env" where
  "failingForkEnv =
     sampleEnv\<lparr>trafficForkStable := (\<lambda>w. ((OperationResultNone, Some (ErrorString ''timeout'')), w))\<rparr>"

text \<open>A world whose traffic manager reports a change when asked to revert canary traffic.\<close>

definition convergingRevertEnv :: "handle list Env" where
  "convergingRevertEnv =
     sampleEnv\<lparr>trafficRevertCanary := (\<lambda>w. ((''updated'', None), w))\<rparr>"

text \<open>
  The sample context with a metadata patch of the rollout-run spec whose labels already
  bind both canary keys, to other values.
\<close>

definition overrideContext :: "handle list ExecutorContext" where
  "overrideContext =
     sampleContext
       \<lparr>PodTemplateMetadataPatch := Some 0,
        heap := \<lparr>patches = (\<lambda>a. \<lparr>Labels = None\<rparr>)(0 := \<lparr>Labels = Some 0\<rparr>),
                 labelMaps = (\<lambda>a. Map.empty)
                   (0 := [''canary'' \<mapsto> ''false'', ''pod-revision'' \<mapsto> ''stable'', ''app'' \<mapsto> ''x'']),
                 nextPatch = 1, nextMap = 1\<rparr>\<rparr>"

text \<open>The sample context with a metadata patch of the rollout-run spec that has nil labels.\<close>

definition barePatchContext :: "handle list ExecutorContext" where
  "barePatchContext =
     sampleContext\<lparr>PodTemplateMetadataPatch := Some 0, heap := emptyHeap\<lparr>nextPatch := 1\<rparr>\<rparr>"

text \<open>The sample context in a world where the canary resources of both targets exist.\<close>

definition existingContext :: "handle list ExecutorContext" where
  "existingContext = sampleContext\<lparr>world := [1, 2]\<rparr>"

text \<open>A world whose canary strategies refuse to delete their resources.\<close>

definition failingDeleteEnv :: "handle list Env" where
  "failingDeleteEnv =
     sampleEnv\<lparr>canaryDelete := (\<lambda>cs w. (Some (ErrorString ''conflict''), w))\<rparr>"

text \<open>A world whose traffic manager reports a change when asked to revert stable traffic.\<close>

definition convergingRevertStableEnv :: "handle list Env" where
  "convergingRevertStableEnv =
     sampleEnv\<lparr>trafficRevertStable := (\<lambda>w. ((''updated'', None), w))\<rparr>"

text \<open>A world whose traffic manager reports a change when asked to fork canary traffic.\<close>

definition convergingForkCanaryEnv :: "handle list Env" where
  "convergingForkCanaryEnv =
     sampleEnv\<lparr>trafficForkCanary := (\<lambda>w. ((''updated'', None), w))\<rparr>"

text \<open>A world whose canary workloads have no updated replica available yet.\<close>

definition notReadyEnv :: "handle list Env" where
  "notReadyEnv =
     sampleEnv\<lparr>canaryGetCanaryInfo :=
        (\<lambda>cs w. (\<lparr>InfoClusterName = ''c'', InfoName = ''n'', StatusReplicas = 1,
                    StatusUpdatedAvailableReplicas = 0\<rparr>, w))\<rparr>"

section \<open>Properties\<close>

subsection \<open>Traces of calls\<close>

lemma calls_refl: "calls ctx [] ctx"
  by (simp add: calls_def)

lemma calls_called: "calls ctx [ev] (called ev w ctx)"
  by (simp add: calls_def called_def)

lemma calls_trans: "calls a xs b \<Longrightarrow> calls b ys c \<Longrightarrow> calls a (xs @ ys) c"
  by (simp add: calls_def)

lemma calls_emitted: "calls a xs b \<Longrightarrow> emitted a b = xs"
  by (simp add: calls_def emitted_def)

lemma emitted_trace: "trace b = trace a @ xs \<Longrightarrow> emitted a b = xs"
  by (simp add: emitted_def)

lemma trafficOp_known:
  assumes "op \<in> {''forkStable'', ''forkCanary'', ''revertStable'', ''revertCanary''}"
  shows "\<exists>f. trafficOp d op = Some f"
  using assms by (auto simp add: trafficOp_def)

lemma modifyTraffic_no_traffic:
  "Traffic ctx = None \<Longrightarrow> modifyTraffic d ctx op = ((True, retryImmediately d), ctx)"
  by (simp add: modifyTraffic_def)

lemma modifyTraffic_with_traffic:
  assumes "Traffic ctx \<noteq> None" and "trafficOp d op = Some f" and "f (world ctx) = ((r, err), w)"
  shows "modifyTraffic d ctx op =
           (if err \<noteq> None \<or> r \<noteq> OperationResultNone then
              ((False, retryDefault d), called (CallTraffic op r err) w ctx)
            else
              ((fst (trafficCheckReady d w),
                if fst (trafficCheckReady d w) then retryImmediately d else retryDefault d),
               called (CallCheckReady op (fst (trafficCheckReady d w))) (snd (trafficCheckReady d w))
                 (called (CallTraffic op r err) w ctx)))"
  using assms
  by (cases err; cases "trafficCheckReady d w")
     (simp_all add: modifyTraffic_def CheckReady_def called_def)

lemma modifyTraffic_trace:
  assumes op: "op \<in> {''forkStable'', ''forkCanary'', ''revertStable'', ''revertCanary''}"
    and run: "modifyTraffic d ctx op = ((done, retry), c')"
  shows "\<exists>evs. calls ctx evs c' \<and> (\<forall>e \<in> set evs. isTrafficCall op e) \<and>
           done = trafficDone (Traffic ctx) op evs \<and>
           retry = (if done then retryImmediately d else retryDefault d)"
proof (cases "Traffic ctx")
  case None
  with run have "done" "retry = retryImmediately d" "c' = ctx"
    by (simp_all add: modifyTraffic_no_traffic)
  with None show ?thesis
    by (intro exI [of _ "[]"]) (simp add: calls_refl trafficDone_def)
next
  case (Some t)
  obtain f where f: "trafficOp d op = Some f"
    using trafficOp_known [OF op] by blast
  obtain r err w where w: "f (world ctx) = ((r, err), w)"
    by (metis surj_pair)
  have T: "Traffic ctx \<noteq> None" using Some by simp
  note eq = modifyTraffic_with_traffic [OF T f w]
  show ?thesis
  proof (cases "err \<noteq> None \<or> r \<noteq> OperationResultNone")
    case True
    with eq run have res: "\<not> done" "retry = retryDefault d"
      "c' = called (CallTraffic op r err) w ctx"
      by auto
    show ?thesis
      using True res Some
      by (intro exI [of _ "[CallTraffic op r err]"])
         (auto simp add: calls_called trafficDone_def)
  next
    case False
    let ?ready = "fst (trafficCheckReady d w)"
    let ?c1 = "called (CallTraffic op r err) w ctx"
    from False eq run have res: "done = ?ready"
      "retry = (if ?ready then retryImmediately d else retryDefault d)"
      "c' = called (CallCheckReady op ?ready) (snd (trafficCheckReady d w)) ?c1"
      by auto
    have "calls ctx ([CallTraffic op r err] @ [CallCheckReady op ?ready]) c'"
      unfolding res(3) by (rule calls_trans [OF calls_called calls_called])
    then show ?thesis
      using False res Some
      by (intro exI [of _ "[CallTraffic op r err, CallCheckReady op ?ready]"])
         (auto simp add: trafficDone_def)
  qed
qed

lemmas model_defs =
  doInit_def doPostStepHook_def doPreStepHook_def doCanary_def doRecycle_def modifyTraffic_def
  trafficOp_def Workloads_Get_def CanaryStrategy_def Initialize_def CreateOrUpdate_def
  GetCanaryInfo_def CheckPartitionReady_def Delete_def CheckReady_def webhook_Do_def Pause_def
  called_def emitted_def newDoCanaryError_def OperationResultNone_def trafficDone_def
  appendBuiltinPodTemplateMetadataPatch_def newMetadataPatch_def newLabelMap_def patchLabels_def
  sampleEnv_def sampleContext_def missingContext_def failingForkEnv_def convergingRevertEnv_def
  emptyHeap_def overrideContext_def barePatchContext_def

subsection \<open>The post-step hook and the pause signal\<close>

text \<open>
  C8. When the webhook executor answers the post-canary-step hook with \<open>(done, retry, err)\<close>,
  \<^verbatim>\<open>doPostStepHook\<close> returns exactly that triple; if \<open>done\<close> holds it calls \<^verbatim>\<open>Pause\<close>
  exactly once, after the webhook and before returning, and the pause signal is set; if
  \<open>done\<close> does not hold it does not call \<^verbatim>\<open>Pause\<close> and the pause signal is as it was.
\<close>

theorem doPostStepHook_pauses_once:
  assumes "webhookDo d PostCanaryStepHook ctx = ((done, retry, err), w)"
  shows "fst (doPostStepHook d ctx) = (done, retry, err) \<and>
         emitted ctx (snd (doPostStepHook d ctx)) =
           CallWebhook PostCanaryStepHook done retry err # (if done then [CallPause] else []) \<and>
         count_list (emitted ctx (snd (doPostStepHook d ctx))) CallPause = (if done then 1 else 0) \<and>
         paused (snd (doPostStepHook d ctx)) = (done \<or> paused ctx)"
  using assms
  by (simp add: doPostStepHook_def webhook_Do_def called_def Pause_def emitted_def)

theorem doPostStepHook_pauses_once_witness:
  "webhookDo sampleEnv PostCanaryStepHook sampleContext = ((True, 0, None), []) \<and>
   fst (doPostStepHook sampleEnv sampleContext) = (True, 0, None) \<and>
   emitted sampleContext (snd (doPostStepHook sampleEnv sampleContext)) =
     [CallWebhook PostCanaryStepHook True 0 None, CallPause] \<and>
   count_list (emitted sampleContext (snd (doPostStepHook sampleEnv sampleContext))) CallPause = 1 \<and>
   paused (snd (doPostStepHook sampleEnv sampleContext))"
proof -
  have h: "webhookDo sampleEnv PostCanaryStepHook sampleContext = ((True, 0, None), [])"
    by (simp add: sampleEnv_def sampleContext_def)
  show ?thesis
    using h doPostStepHook_pauses_once [OF h] by simp
qed



subsection \<open>The entry guard\<close>

text \<open>
  C6. When \<^verbatim>\<open>inCanary\<close> answers false, \<^verbatim>\<open>Do\<close> returns done, \<^verbatim>\<open>Result{Requeue: true}\<close> and
  no error, whatever the executor's state machine is: the context is the one \<^verbatim>\<open>inCanary\<close>
  left, so the trace is as before (the traffic manager was not bound, no handler called a
  collaborator) and the step state, the pause signal and the store are untouched.
\<close>

theorem Do_not_in_canary:
  assumes "inCanary d ctx = (False, w)"
  shows "Do d e ctx =
           Some (Returned ((True, \<lparr>Requeue = True, RequeueAfter = 0\<rparr>, None), ctx\<lparr>world := w\<rparr>))"
  using assms by (simp add: Do_def)

theorem Do_not_in_canary_witness:
  "Do (sampleEnv\<lparr>inCanary := (\<lambda>c. (False, world c))\<rparr>) \<lparr>stateMachine = Map.empty\<rparr> sampleContext =
     Some (Returned ((True, \<lparr>Requeue = True, RequeueAfter = 0\<rparr>, None), sampleContext))"
proof -
  have h: "inCanary (sampleEnv\<lparr>inCanary := (\<lambda>c. (False, world c))\<rparr>) sampleContext = (False, [])"
    by (simp add: sampleContext_def)
  show ?thesis
    using Do_not_in_canary [OF h, of "\<lparr>stateMachine = Map.empty\<rparr>"]
    by (simp add: sampleContext_def)
qed

lemmas sample_defs =
  sampleEnv_def sampleContext_def missingContext_def existingContext_def failingDeleteEnv_def
  convergingRevertEnv_def convergingRevertStableEnv_def convergingForkCanaryEnv_def
  notReadyEnv_def failingForkEnv_def emptyHeap_def OperationResultNone_def

subsection \<open>Steps that go through\<close>

text \<open>
  The handlers compared with what the collaborators answer: a loop over targets that all go
  through makes exactly their calls and goes on in the world they left, and a loop stops
  at the first target that does not go through.
\<close>

lemma createdStrategies_append:
  "createdStrategies (xs @ ys) = createdStrategies xs @ createdStrategies ys"
  by (induction xs rule: createdStrategies.induct) simp_all

text \<open>When not every element goes through, there is a first one that does not.\<close>

lemma eachInTurn_first_failure:
  "eachInTurn step xs w = None \<Longrightarrow>
     \<exists>pre x post evs w1. xs = pre @ x # post \<and> eachInTurn step pre w = Some (evs, w1) \<and>
                         step x w1 = None"
proof (induction xs arbitrary: w)
  case Nil
  then show ?case by simp
next
  case (Cons a xs)
  show ?case
  proof (cases "step a w")
    case None
    then show ?thesis
      by (intro exI [of _ "[]"] exI [of _ a] exI [of _ xs]) simp
  next
    case (Some r)
    obtain ev w1 where r: "r = (ev, w1)" by (cases r)
    with Some Cons.prems have "eachInTurn step xs w1 = None"
      by (auto split: option.splits)
    from Cons.IH [OF this] obtain pre x post evs w2 where
      "xs = pre @ x # post" "eachInTurn step pre w1 = Some (evs, w2)" "step x w2 = None"
      by blast
    with Some r show ?thesis
      by (intro exI [of _ "a # pre"] exI [of _ x] exI [of _ post] exI [of _ "ev @ evs"]
            exI [of _ w2]) simp
  qed
qed

lemma modifyTraffic_converged:
  assumes "trafficOp d op = Some f"
    and "trafficConverged d (Traffic ctx) op f (world ctx) = Some (e, w')"
  shows "modifyTraffic d ctx op =
           ((True, retryImmediately d), ctx\<lparr>world := w', trace := trace ctx @ e\<rparr>)"
proof (cases "Traffic ctx")
  case None
  with assms(2) show ?thesis
    by (simp add: trafficConverged_def modifyTraffic_no_traffic)
next
  case (Some t)
  obtain r err w1 where f: "f (world ctx) = ((r, err), w1)"
    by (metis surj_pair)
  have T: "Traffic ctx \<noteq> None" using Some by simp
  from assms(2) Some f show ?thesis
    unfolding modifyTraffic_with_traffic [OF T assms(1) f]
    by (auto simp add: trafficConverged_def called_def split: option.splits prod.splits if_splits)
qed

lemma modifyTraffic_not_converged:
  assumes "trafficOp d op = Some f"
    and "trafficConverged d (Traffic ctx) op f (world ctx) = None"
  shows "fst (modifyTraffic d ctx op) = (False, retryDefault d)"
proof (cases "Traffic ctx")
  case None
  with assms(2) show ?thesis
    by (simp add: trafficConverged_def)
next
  case (Some t)
  obtain r err w1 where f: "f (world ctx) = ((r, err), w1)"
    by (metis surj_pair)
  have T: "Traffic ctx \<noteq> None" using Some by simp
  from assms(2) Some f show ?thesis
    unfolding modifyTraffic_with_traffic [OF T assms(1) f]
    by (auto simp add: trafficConverged_def split: option.splits prod.splits if_splits)
qed

lemma trafficUnsettled_not_converged:
  "traffic \<noteq> None \<Longrightarrow>
     (trafficConverged d traffic op f w = None) = trafficUnsettled d f w"
  by (auto simp add: trafficConverged_def trafficUnsettled_def
      split: option.splits prod.splits if_splits)

lemma trafficOps:
  "trafficOp d ''forkStable'' = Some (trafficForkStable d)"
  "trafficOp d ''forkCanary'' = Some (trafficForkCanary d)"
  "trafficOp d ''revertStable'' = Some (trafficRevertStable d)"
  "trafficOp d ''revertCanary'' = Some (trafficRevertCanary d)"
  by (simp_all add: trafficOp_def)

text \<open>The loop of \<^verbatim>\<open>doInit\<close> over targets that all go through.\<close>

lemma initTargets_through:
  assumes "RolloutName ctx = rn" and "RolloutRunName ctx = rrn"
    and "eachInTurn (initialized d rn rrn) pre (world ctx) = Some (e, w1)"
  shows "initTargets d (pre @ rest) ctx =
           initTargets d rest (ctx\<lparr>world := w1, trace := trace ctx @ e\<rparr>)"
  using assms
proof (induction pre arbitrary: ctx e)
  case Nil
  then show ?case by auto
next
  case (Cons item items)
  from Cons.prems(3) obtain ev w3 e' where
    st: "initialized d rn rrn item (world ctx) = Some (ev, w3)"
    and tl: "eachInTurn (initialized d rn rrn) items w3 = Some (e', w1)"
    and e: "e = ev @ e'"
    by (auto split: option.splits)
  let ?c3 = "ctx\<lparr>world := w3, trace := trace ctx @ ev\<rparr>"
  have step: "initTargets d ((item # items) @ rest) ctx = initTargets d (items @ rest) ?c3"
    using st Cons.prems(1,2)
    by (auto simp add: initialized_def Workloads_Get_def CanaryStrategy_def Initialize_def
          called_def split: option.splits prod.splits)
  have "initTargets d (items @ rest) ?c3 =
          initTargets d rest (?c3\<lparr>world := w1, trace := trace ?c3 @ e'\<rparr>)"
    using Cons.prems(1,2) tl by (intro Cons.IH) simp_all
  with step e show ?case by simp
qed

lemma deleteTargets_through:
  assumes "eachInTurn (deleted d) pre (world ctx) = Some (e, w1)"
  shows "deleteTargets d (pre @ rest) ctx =
           deleteTargets d rest (ctx\<lparr>world := w1, trace := trace ctx @ e\<rparr>)"
  using assms
proof (induction pre arbitrary: ctx e)
  case Nil
  then show ?case by auto
next
  case (Cons item items)
  from Cons.prems obtain ev w3 e' where
    st: "deleted d item (world ctx) = Some (ev, w3)"
    and tl: "eachInTurn (deleted d) items w3 = Some (e', w1)"
    and e: "e = ev @ e'"
    by (auto split: option.splits)
  let ?c3 = "ctx\<lparr>world := w3, trace := trace ctx @ ev\<rparr>"
  have step: "deleteTargets d ((item # items) @ rest) ctx = deleteTargets d (items @ rest) ?c3"
    using st
    by (auto simp add: deleted_def Workloads_Get_def CanaryStrategy_def Delete_def
          called_def split: option.splits prod.splits)
  have "deleteTargets d (items @ rest) ?c3 =
          deleteTargets d rest (?c3\<lparr>world := w1, trace := trace ?c3 @ e'\<rparr>)"
    using tl by (intro Cons.IH) simp_all
  with step e show ?case by simp
qed

lemma createCanaryResources_through:
  assumes "eachInTurn (createdOrUpdated d p (patchLabels (heap ctx) p)) pre (world ctx)
             = Some (e, w1)"
  shows "createCanaryResources d p (pre @ rest) changed cws ctx =
           createCanaryResources d p rest (changed \<or> list_ex changedCreateOrUpdate e)
             (cws @ createdStrategies e) (ctx\<lparr>world := w1, trace := trace ctx @ e\<rparr>)"
  using assms
proof (induction pre arbitrary: ctx e changed cws)
  case Nil
  then show ?case by auto
next
  case (Cons item items)
  let ?labels = "patchLabels (heap ctx) p"
  from Cons.prems obtain ev w3 e' where
    st: "createdOrUpdated d p ?labels item (world ctx) = Some (ev, w3)"
    and tl: "eachInTurn (createdOrUpdated d p ?labels) items w3 = Some (e', w1)"
    and e: "e = ev @ e'"
    by (auto split: option.splits)
  let ?c3 = "ctx\<lparr>world := w3, trace := trace ctx @ ev\<rparr>"
  have step: "createCanaryResources d p ((item # items) @ rest) changed cws ctx =
      createCanaryResources d p (items @ rest) (changed \<or> list_ex changedCreateOrUpdate ev)
        (cws @ createdStrategies ev) ?c3"
    using st
    by (auto simp add: createdOrUpdated_def Workloads_Get_def CanaryStrategy_def
          CreateOrUpdate_def called_def split: option.splits prod.splits)
  have "createCanaryResources d p (items @ rest) (changed \<or> list_ex changedCreateOrUpdate ev)
        (cws @ createdStrategies ev) ?c3 =
      createCanaryResources d p rest
        ((changed \<or> list_ex changedCreateOrUpdate ev) \<or> list_ex changedCreateOrUpdate e')
        ((cws @ createdStrategies ev) @ createdStrategies e')
        (?c3\<lparr>world := w1, trace := trace ?c3 @ e'\<rparr>)"
    using tl by (intro Cons.IH) simp_all
  with step e show ?case by (simp add: createdStrategies_append disj_assoc)
qed

lemma waitCanaryReady_through:
  assumes "eachInTurn (partitionReady d) pre (world ctx) = Some (e, w1)"
  shows "waitCanaryReady d (pre @ rest) ctx =
           waitCanaryReady d rest (ctx\<lparr>world := w1, trace := trace ctx @ e\<rparr>)"
  using assms
proof (induction pre arbitrary: ctx e)
  case Nil
  then show ?case by auto
next
  case (Cons cw cws)
  from Cons.prems obtain ev w3 e' where
    st: "partitionReady d cw (world ctx) = Some (ev, w3)"
    and tl: "eachInTurn (partitionReady d) cws w3 = Some (e', w1)"
    and e: "e = ev @ e'"
    by (auto split: option.splits)
  let ?c3 = "ctx\<lparr>world := w3, trace := trace ctx @ ev\<rparr>"
  have step: "waitCanaryReady d ((cw # cws) @ rest) ctx = waitCanaryReady d (cws @ rest) ?c3"
    using st
    by (auto simp add: partitionReady_def GetCanaryInfo_def CheckPartitionReady_def
          called_def Let_def split: option.splits prod.splits if_splits)
  have "waitCanaryReady d (cws @ rest) ?c3 =
          waitCanaryReady d rest (?c3\<lparr>world := w1, trace := trace ?c3 @ e'\<rparr>)"
    using tl by (intro Cons.IH) simp_all
  with step e show ?case by simp
qed

lemma trafficConverged_kind:
  "trafficConverged d traffic op f w = Some (e, w') \<Longrightarrow> \<forall>x \<in> set e. isTrafficCall op x"
  by (auto simp add: trafficConverged_def split: option.splits prod.splits if_splits)

lemma initialized_calls:
  "eachInTurn (initialized d rn rrn) ts w = Some (e, w') \<Longrightarrow>
     length (filter isInitializeCall e) = length ts \<and>
     list_all succeededInitialize (filter isInitializeCall e) \<and>
     map lookupKey (filter isGetCall e) = map (\<lambda>t. (Cluster t, Name t)) ts"
proof (induction ts arbitrary: w e)
  case Nil
  then show ?case by simp
next
  case (Cons a ts)
  from Cons.prems obtain ev w1 e' where
    st: "initialized d rn rrn a w = Some (ev, w1)"
    and tl: "eachInTurn (initialized d rn rrn) ts w1 = Some (e', w')" and e: "e = ev @ e'"
    by (auto split: option.splits)
  from st have "length (filter isInitializeCall ev) = 1"
    "list_all succeededInitialize (filter isInitializeCall ev)"
    "map lookupKey (filter isGetCall ev) = [(Cluster a, Name a)]"
    by (auto simp add: initialized_def split: option.splits prod.splits)
  with Cons.IH [OF tl] e show ?case by simp
qed

text \<open>A loop at a target that does not go through.\<close>

lemma initTargets_missing:
  assumes "workloadsGet d (Cluster item) (Name item) (world ctx) = (None, w2)"
  shows "initTargets d (item # post) ctx =
           (Some (CodeReasonMessage ''DoCanaryError'' (ReasonWorkloadInterfaceNotExist d)
                    (''the workload ('' @ formatRef d (Cluster item) (Name item)
                       @ '') does not exists'')),
            ctx\<lparr>world := w2, trace := trace ctx @ [CallGet (Cluster item) (Name item) None]\<rparr>)"
  using assms by (simp add: Workloads_Get_def called_def newDoCanaryError_def)

lemma deleteTargets_missing:
  assumes "workloadsGet d (Cluster item) (Name item) (world ctx) = (None, w2)"
  shows "deleteTargets d (item # post) ctx =
           (Some (CodeReasonMessage ''DoCanaryError'' (ReasonWorkloadInterfaceNotExist d)
                    (''the workload ('' @ formatRef d (Cluster item) (Name item)
                       @ '') does not exists'')),
            ctx\<lparr>world := w2, trace := trace ctx @ [CallGet (Cluster item) (Name item) None]\<rparr>)"
  using assms by (simp add: Workloads_Get_def called_def newDoCanaryError_def)

lemma deleteTargets_delete_failed:
  assumes "workloadsGet d (Cluster item) (Name item) (world ctx) = (Some wi, w3)"
    and "workloadCanaryStrategy d wi w3 = ((cs, None), w4)"
    and "canaryDelete d cs w4 = (Some err, w5)"
  shows "deleteTargets d (item # post) ctx =
           (Some (CodeReasonMessage ''DoCanaryError'' ''DeleteFailed''
                    (''failed to delete canary resource for workload(''
                       @ formatRef d (Cluster item) (Name item) @ ''), err: ''
                       @ formatErr d err)),
            ctx\<lparr>world := w5,
                trace := trace ctx @ [CallGet (Cluster item) (Name item) (Some wi),
                                      CallCanaryStrategy wi cs None, CallDelete cs (Some err)]\<rparr>)"
  using assms
  by (simp add: Workloads_Get_def CanaryStrategy_def Delete_def called_def newDoCanaryError_def)

lemma deleteTargets_not_deleted:
  assumes "deleted d item (world ctx) = None"
  shows "\<exists>err c'. deleteTargets d (item # post) ctx = (Some err, c')"
  using assms
  by (auto simp add: deleted_def Workloads_Get_def CanaryStrategy_def Delete_def called_def
      split: option.splits prod.splits)

lemma deleteTargets_fails:
  assumes "eachInTurn (deleted d) ts (world ctx) = None"
  shows "\<exists>err c'. deleteTargets d ts ctx = (Some err, c')"
proof -
  from eachInTurn_first_failure [OF assms] obtain pre x post evs w1 where
    ts: "ts = pre @ x # post" and pre: "eachInTurn (deleted d) pre (world ctx) = Some (evs, w1)"
    and x: "deleted d x w1 = None"
    by blast
  let ?c1 = "ctx\<lparr>world := w1, trace := trace ctx @ evs\<rparr>"
  have "deleteTargets d ts ctx = deleteTargets d (x # post) ?c1"
    unfolding ts by (rule deleteTargets_through [OF pre])
  moreover have "\<exists>err c'. deleteTargets d (x # post) ?c1 = (Some err, c')"
    by (rule deleteTargets_not_deleted) (simp add: x)
  ultimately show ?thesis by simp
qed

lemma createCanaryResources_not_created:
  assumes "createdOrUpdated d p (patchLabels (heap ctx) p) item (world ctx) = None"
  shows "\<exists>err c'. createCanaryResources d p (item # post) changed cws ctx = (Inl err, c')"
  using assms
  by (auto simp add: createdOrUpdated_def Workloads_Get_def CanaryStrategy_def
        CreateOrUpdate_def called_def split: option.splits prod.splits)

lemma createCanaryResources_fails:
  assumes "eachInTurn (createdOrUpdated d p (patchLabels (heap ctx) p)) ts (world ctx) = None"
  shows "\<exists>err c'. createCanaryResources d p ts changed cws ctx = (Inl err, c')"
proof -
  let ?step = "createdOrUpdated d p (patchLabels (heap ctx) p)"
  from eachInTurn_first_failure [OF assms] obtain pre x post evs w1 where
    ts: "ts = pre @ x # post" and pre: "eachInTurn ?step pre (world ctx) = Some (evs, w1)"
    and x: "?step x w1 = None"
    by blast
  let ?c1 = "ctx\<lparr>world := w1, trace := trace ctx @ evs\<rparr>"
  have "createCanaryResources d p ts changed cws ctx =
      createCanaryResources d p (x # post) (changed \<or> list_ex changedCreateOrUpdate evs)
        (cws @ createdStrategies evs) ?c1"
    unfolding ts by (rule createCanaryResources_through [OF pre])
  moreover have "\<exists>err c'. createCanaryResources d p (x # post)
        (changed \<or> list_ex changedCreateOrUpdate evs) (cws @ createdStrategies evs) ?c1
      = (Inl err, c')"
    by (rule createCanaryResources_not_created) (simp add: x)
  ultimately show ?thesis by simp
qed

lemma waitCanaryReady_not_ready:
  assumes "partitionReady d cw (world ctx) = None"
  shows "fst (waitCanaryReady d (cw # rest) ctx) = False"
  using assms
  by (auto simp add: partitionReady_def GetCanaryInfo_def CheckPartitionReady_def called_def
        Let_def split: option.splits prod.splits if_splits)

lemma waitCanaryReady_fails:
  assumes "eachInTurn (partitionReady d) cws (world ctx) = None"
  shows "fst (waitCanaryReady d cws ctx) = False"
proof -
  from eachInTurn_first_failure [OF assms] obtain pre x post evs w1 where
    ts: "cws = pre @ x # post"
    and pre: "eachInTurn (partitionReady d) pre (world ctx) = Some (evs, w1)"
    and x: "partitionReady d x w1 = None"
    by blast
  let ?c1 = "ctx\<lparr>world := w1, trace := trace ctx @ evs\<rparr>"
  have "waitCanaryReady d cws ctx = waitCanaryReady d (x # post) ?c1"
    unfolding ts by (rule waitCanaryReady_through [OF pre])
  moreover have "fst (waitCanaryReady d (x # post) ?c1) = False"
    by (rule waitCanaryReady_not_ready) (simp add: x)
  ultimately show ?thesis by simp
qed

lemma deleted_calls:
  "eachInTurn (deleted d) ts w = Some (e, w') \<Longrightarrow>
     length (filter isDeleteCall e) = length ts \<and>
     list_all succeededDelete (filter isDeleteCall e) \<and>
     map lookupKey (filter isGetCall e) = map (\<lambda>t. (Cluster t, Name t)) ts"
proof (induction ts arbitrary: w e)
  case Nil
  then show ?case by simp
next
  case (Cons a ts)
  from Cons.prems obtain ev w1 e' where
    st: "deleted d a w = Some (ev, w1)"
    and tl: "eachInTurn (deleted d) ts w1 = Some (e', w')" and e: "e = ev @ e'"
    by (auto split: option.splits)
  from st have "length (filter isDeleteCall ev) = 1"
    "list_all succeededDelete (filter isDeleteCall ev)"
    "map lookupKey (filter isGetCall ev) = [(Cluster a, Name a)]"
    by (auto simp add: deleted_def split: option.splits prod.splits)
  with Cons.IH [OF tl] e show ?case by simp
qed

lemma createdOrUpdated_calls:
  "eachInTurn (createdOrUpdated d p labels) ts w = Some (e, w') \<Longrightarrow>
     length (createdStrategies e) = length ts \<and>
     map lookupKey (filter isGetCall e) = map (\<lambda>t. (Cluster t, Name t)) ts"
proof (induction ts arbitrary: w e)
  case Nil
  then show ?case by simp
next
  case (Cons a ts)
  from Cons.prems obtain ev w1 e' where
    st: "createdOrUpdated d p labels a w = Some (ev, w1)"
    and tl: "eachInTurn (createdOrUpdated d p labels) ts w1 = Some (e', w')"
    and e: "e = ev @ e'"
    by (auto split: option.splits)
  from st have "length (createdStrategies ev) = 1"
    "map lookupKey (filter isGetCall ev) = [(Cluster a, Name a)]"
    by (auto simp add: createdOrUpdated_def split: option.splits prod.splits)
  with Cons.IH [OF tl] e show ?case by (simp add: createdStrategies_append)
qed

lemma createCanaryResources_missing:
  assumes "workloadsGet d (Cluster item) (Name item) (world ctx) = (None, w2)"
  shows "createCanaryResources d p (item # post) changed cws ctx =
           (Inl (CodeReasonMessage ''DoCanaryError'' (ReasonWorkloadInterfaceNotExist d)
                    (''the workload ('' @ formatRef d (Cluster item) (Name item)
                       @ '') does not exists'')),
            ctx\<lparr>world := w2, trace := trace ctx @ [CallGet (Cluster item) (Name item) None]\<rparr>)"
  using assms by (simp add: Workloads_Get_def called_def newDoCanaryError_def)

text \<open>The handlers at a traffic step that is not converged.\<close>

lemma handler_not_converged:
  assumes "trafficOp d op = Some f"
    and "trafficConverged d (Traffic c) op f (world c) = None"
  shows "fst (case modifyTraffic d c op of
                ((dn, retry), c') \<Rightarrow>
                  if \<not> dn then ((False, retry, None :: go_error option), c') else g c')
           = (False, retryDefault d, None)"
proof -
  obtain dn rt c' where m: "modifyTraffic d c op = ((dn, rt), c')"
    by (metis surj_pair)
  from modifyTraffic_not_converged [OF assms] m
  have "dn = False" "rt = retryDefault d" by simp_all
  with m show ?thesis by simp
qed

subsection \<open>Initialisation\<close>

lemma initTrace_step:
  assumes "initTrace d ts r evs"
  shows "initTrace d (t # ts) r
           ([CallGet (Cluster t) (Name t) (Some wi), CallCanaryStrategy wi cs None,
             CallInitialize cs a b None] @ evs)"
proof -
  have "list_ex failedLookup evs \<Longrightarrow> evs \<noteq> []" by auto
  then show ?thesis
    using assms by (auto simp add: initTrace_def)
qed

lemma initTargets_trace:
  "initTargets d ts ctx = (r, c') \<Longrightarrow> \<exists>evs. calls ctx evs c' \<and> initTrace d ts r evs"
proof (induction ts arbitrary: ctx)
  case Nil
  then show ?case
    by (intro exI [of _ "[]"]) (auto simp add: calls_refl initTrace_def)
next
  case (Cons item items)
  obtain wi w1 where g: "workloadsGet d (Cluster item) (Name item) (world ctx) = (wi, w1)"
    by (metis surj_pair)
  let ?c1 = "called (CallGet (Cluster item) (Name item) wi) w1 ctx"
  show ?case
  proof (cases wi)
    case None
    with g Cons.prems have "c' = ?c1"
      "r = Some (newDoCanaryError (ReasonWorkloadInterfaceNotExist d)
           (''the workload ('' @ formatRef d (Cluster item) (Name item) @ '') does not exists''))"
      by (auto simp add: Workloads_Get_def)
    with None show ?thesis
      by (intro exI [of _ "[CallGet (Cluster item) (Name item) None]"])
         (auto simp add: calls_called initTrace_def newDoCanaryError_def)
  next
    case (Some h)
    obtain cs err w2 where s: "workloadCanaryStrategy d h w1 = ((cs, err), w2)"
      by (metis surj_pair)
    let ?c2 = "called (CallCanaryStrategy h cs err) w2 ?c1"
    have c2: "calls ctx [CallGet (Cluster item) (Name item) wi, CallCanaryStrategy h cs err] ?c2"
      using calls_trans [OF calls_called calls_called] by fastforce
    have w1: "world ?c1 = w1" by (simp add: called_def)
    show ?thesis
    proof (cases err)
      case (Some e)
      with g s \<open>wi = Some h\<close> w1 Cons.prems have "c' = ?c2" "r \<noteq> None"
        by (auto simp add: Workloads_Get_def CanaryStrategy_def)
      with c2 Some \<open>wi = Some h\<close> show ?thesis
        by (intro exI [of _ "[CallGet (Cluster item) (Name item) wi, CallCanaryStrategy h cs err]"])
           (auto simp add: initTrace_def)
    next
      case None
      have w2: "world ?c2 = w2" by (simp add: called_def)
      have n2: "RolloutName ?c2 = RolloutName ctx" "RolloutRunName ?c2 = RolloutRunName ctx"
        by (simp_all add: called_def)
      obtain ierr w3 where i:
        "canaryInitialize d cs (RolloutName ctx) (RolloutRunName ctx) w2 = (ierr, w3)"
        by (metis surj_pair)
      let ?ev3 = "CallInitialize cs (RolloutName ctx) (RolloutRunName ctx) ierr"
      let ?c3 = "called ?ev3 w3 ?c2"
      have c3: "calls ctx ([CallGet (Cluster item) (Name item) wi,
                  CallCanaryStrategy h cs err] @ [?ev3]) ?c3"
        by (rule calls_trans [OF c2 calls_called])
      show ?thesis
      proof (cases ierr)
        case (Some e)
        with g s i None \<open>wi = Some h\<close> w1 w2 n2 Cons.prems have "c' = ?c3" "r \<noteq> None"
          by (auto simp add: Workloads_Get_def CanaryStrategy_def Initialize_def)
        with c3 Some None \<open>wi = Some h\<close> show ?thesis
          by (intro exI [of _ "[CallGet (Cluster item) (Name item) wi,
                  CallCanaryStrategy h cs err, ?ev3]"])
             (auto simp add: initTrace_def)
      next
        case ok: None
        with g s i None \<open>wi = Some h\<close> w1 w2 n2 Cons.prems
        have "initTargets d items ?c3 = (r, c')"
          by (auto simp add: Workloads_Get_def CanaryStrategy_def Initialize_def)
        from Cons.IH [OF this] obtain evs where
          evs: "calls ?c3 evs c'" "initTrace d items r evs" by blast
        have "calls ctx (([CallGet (Cluster item) (Name item) wi,
                  CallCanaryStrategy h cs err] @ [?ev3]) @ evs) c'"
          by (rule calls_trans [OF c3 evs(1)])
        moreover have "initTrace d (item # items) r
             ([CallGet (Cluster item) (Name item) (Some h), CallCanaryStrategy h cs None,
               CallInitialize cs (RolloutName ctx) (RolloutRunName ctx) None] @ evs)"
          by (rule initTrace_step [OF evs(2)])
        ultimately show ?thesis
          using ok None \<open>wi = Some h\<close> by auto
      qed
    qed
  qed
qed

text \<open>
  C3. \<^verbatim>\<open>doInit\<close> makes only lookups, \<^verbatim>\<open>CanaryStrategy\<close> calls and \<^verbatim>\<open>Initialize\<close>
  calls. If the targets before \<open>item\<close> all resolve and initialise, each in the world the
  one before it left, and the lookup of \<open>item\<close> then returns nil, \<^verbatim>\<open>doInit\<close> returns
  not done, stop and the structured error with code \<open>DoCanaryError\<close> and reason
  \<^verbatim>\<open>ReasonWorkloadInterfaceNotExist\<close>, and its calls are exactly those of the targets
  before \<open>item\<close>, one successful \<^verbatim>\<open>Initialize\<close> for each of them, followed by the lookup
  that failed: \<^verbatim>\<open>Initialize\<close> is called neither for \<open>item\<close> nor for a later target, and
  nothing is undone. If every target resolves and initialises, \<^verbatim>\<open>doInit\<close> returns done,
  default delay, no error, after exactly the calls of all targets, one successful
  \<^verbatim>\<open>Initialize\<close> for each.
\<close>

theorem doInit_fail_fast:
  "(\<forall>x \<in> set (emitted ctx (snd (doInit d ctx))).
      isGetCall x \<or> isCanaryStrategyCall x \<or> isInitializeCall x) \<and>
   (Targets ctx = pre @ item # post \<and>
    eachInTurn (initialized d (RolloutName ctx) (RolloutRunName ctx)) pre (world ctx)
      = Some (e, w1) \<and>
    workloadsGet d (Cluster item) (Name item) w1 = (None, w2) \<longrightarrow>
      doInit d ctx =
        ((False, retryStop d,
          Some (CodeReasonMessage ''DoCanaryError'' (ReasonWorkloadInterfaceNotExist d)
                  (''the workload ('' @ formatRef d (Cluster item) (Name item)
                     @ '') does not exists''))),
         ctx\<lparr>world := w2, trace := trace ctx @ e @ [CallGet (Cluster item) (Name item) None]\<rparr>) \<and>
      length (filter isInitializeCall e) = length pre \<and>
      list_all succeededInitialize (filter isInitializeCall e) \<and>
      map lookupKey (filter isGetCall e) = map (\<lambda>t. (Cluster t, Name t)) pre) \<and>
   (eachInTurn (initialized d (RolloutName ctx) (RolloutRunName ctx)) (Targets ctx) (world ctx)
      = Some (e', w') \<longrightarrow>
      doInit d ctx = ((True, retryDefault d, None), ctx\<lparr>world := w', trace := trace ctx @ e'\<rparr>) \<and>
      length (filter isInitializeCall e') = length (Targets ctx) \<and>
      list_all succeededInitialize (filter isInitializeCall e'))"
proof -
  have kinds: "\<forall>x \<in> set (emitted ctx (snd (doInit d ctx))).
      isGetCall x \<or> isCanaryStrategyCall x \<or> isInitializeCall x"
  proof -
    obtain r c' where run: "initTargets d (Targets ctx) ctx = (r, c')"
      by (metis surj_pair)
    from initTargets_trace [OF run] obtain evs where
      evs: "calls ctx evs c'" "initTrace d (Targets ctx) r evs" by blast
    have "snd (doInit d ctx) = c'"
      using run by (simp add: doInit_def split: option.splits)
    with calls_emitted [OF evs(1)] evs(2) show ?thesis
      by (simp add: initTrace_def)
  qed
  have missing: "Targets ctx = pre @ item # post \<and>
    eachInTurn (initialized d (RolloutName ctx) (RolloutRunName ctx)) pre (world ctx)
      = Some (e, w1) \<and>
    workloadsGet d (Cluster item) (Name item) w1 = (None, w2) \<longrightarrow>
      doInit d ctx =
        ((False, retryStop d,
          Some (CodeReasonMessage ''DoCanaryError'' (ReasonWorkloadInterfaceNotExist d)
                  (''the workload ('' @ formatRef d (Cluster item) (Name item)
                     @ '') does not exists''))),
         ctx\<lparr>world := w2, trace := trace ctx @ e @ [CallGet (Cluster item) (Name item) None]\<rparr>) \<and>
      length (filter isInitializeCall e) = length pre \<and>
      list_all succeededInitialize (filter isInitializeCall e) \<and>
      map lookupKey (filter isGetCall e) = map (\<lambda>t. (Cluster t, Name t)) pre"
  proof (intro impI, elim conjE)
    assume ts: "Targets ctx = pre @ item # post"
      and pre: "eachInTurn (initialized d (RolloutName ctx) (RolloutRunName ctx)) pre (world ctx)
                  = Some (e, w1)"
      and g: "workloadsGet d (Cluster item) (Name item) w1 = (None, w2)"
    let ?c1 = "ctx\<lparr>world := w1, trace := trace ctx @ e\<rparr>"
    have "initTargets d (Targets ctx) ctx = initTargets d (item # post) ?c1"
      unfolding ts by (rule initTargets_through [OF refl refl pre])
    also have "\<dots> = (Some (CodeReasonMessage ''DoCanaryError'' (ReasonWorkloadInterfaceNotExist d)
                    (''the workload ('' @ formatRef d (Cluster item) (Name item)
                       @ '') does not exists'')),
            ?c1\<lparr>world := w2, trace := trace ?c1 @ [CallGet (Cluster item) (Name item) None]\<rparr>)"
      by (rule initTargets_missing) (simp add: g)
    finally have "doInit d ctx =
        ((False, retryStop d,
          Some (CodeReasonMessage ''DoCanaryError'' (ReasonWorkloadInterfaceNotExist d)
                  (''the workload ('' @ formatRef d (Cluster item) (Name item)
                     @ '') does not exists''))),
         ctx\<lparr>world := w2, trace := trace ctx @ e @ [CallGet (Cluster item) (Name item) None]\<rparr>)"
      by (simp add: doInit_def)
    with initialized_calls [OF pre] show
      "doInit d ctx =
        ((False, retryStop d,
          Some (CodeReasonMessage ''DoCanaryError'' (ReasonWorkloadInterfaceNotExist d)
                  (''the workload ('' @ formatRef d (Cluster item) (Name item)
                     @ '') does not exists''))),
         ctx\<lparr>world := w2, trace := trace ctx @ e @ [CallGet (Cluster item) (Name item) None]\<rparr>) \<and>
      length (filter isInitializeCall e) = length pre \<and>
      list_all succeededInitialize (filter isInitializeCall e) \<and>
      map lookupKey (filter isGetCall e) = map (\<lambda>t. (Cluster t, Name t)) pre"
      by simp
  qed
  have through: "eachInTurn (initialized d (RolloutName ctx) (RolloutRunName ctx)) (Targets ctx)
        (world ctx) = Some (e', w') \<longrightarrow>
      doInit d ctx = ((True, retryDefault d, None), ctx\<lparr>world := w', trace := trace ctx @ e'\<rparr>) \<and>
      length (filter isInitializeCall e') = length (Targets ctx) \<and>
      list_all succeededInitialize (filter isInitializeCall e')"
  proof
    assume all: "eachInTurn (initialized d (RolloutName ctx) (RolloutRunName ctx)) (Targets ctx)
        (world ctx) = Some (e', w')"
    have "initTargets d (Targets ctx @ []) ctx =
        initTargets d [] (ctx\<lparr>world := w', trace := trace ctx @ e'\<rparr>)"
      by (rule initTargets_through [OF refl refl all])
    then have "doInit d ctx =
        ((True, retryDefault d, None), ctx\<lparr>world := w', trace := trace ctx @ e'\<rparr>)"
      by (simp add: doInit_def)
    with initialized_calls [OF all] show
      "doInit d ctx = ((True, retryDefault d, None), ctx\<lparr>world := w', trace := trace ctx @ e'\<rparr>) \<and>
      length (filter isInitializeCall e') = length (Targets ctx) \<and>
      list_all succeededInitialize (filter isInitializeCall e')"
      by simp
  qed
  show ?thesis
    using kinds missing through by blast
qed

theorem doInit_fail_fast_witness:
  "Targets missingContext =
     [\<lparr>Cluster = ''c1'', Name = ''a'', Replicas = FromInt 1\<rparr>] @
     \<lparr>Cluster = ''c2'', Name = ''missing'', Replicas = FromInt 1\<rparr> # [] \<and>
   eachInTurn (initialized sampleEnv (RolloutName missingContext) (RolloutRunName missingContext))
     [\<lparr>Cluster = ''c1'', Name = ''a'', Replicas = FromInt 1\<rparr>] (world missingContext) =
     Some ([CallGet ''c1'' ''a'' (Some 1), CallCanaryStrategy 1 1 None,
            CallInitialize 1 ''rollout'' ''run'' None], []) \<and>
   workloadsGet sampleEnv ''c2'' ''missing'' [] = (None, []) \<and>
   doInit sampleEnv missingContext =
     ((False, retryStop sampleEnv,
       Some (CodeReasonMessage ''DoCanaryError'' (ReasonWorkloadInterfaceNotExist sampleEnv)
               (''the workload ('' @ formatRef sampleEnv ''c2'' ''missing''
                  @ '') does not exists''))),
      missingContext
        \<lparr>world := [],
         trace := trace missingContext @
           [CallGet ''c1'' ''a'' (Some 1), CallCanaryStrategy 1 1 None,
            CallInitialize 1 ''rollout'' ''run'' None] @ [CallGet ''c2'' ''missing'' None]\<rparr>) \<and>
   eachInTurn (initialized sampleEnv (RolloutName sampleContext) (RolloutRunName sampleContext))
     (Targets sampleContext) (world sampleContext) =
     Some ([CallGet ''c1'' ''a'' (Some 1), CallCanaryStrategy 1 1 None,
            CallInitialize 1 ''rollout'' ''run'' None,
            CallGet ''c2'' ''bb'' (Some 2), CallCanaryStrategy 2 2 None,
            CallInitialize 2 ''rollout'' ''run'' None], []) \<and>
   fst (doInit sampleEnv sampleContext) = (True, retryDefault sampleEnv, None)"
proof -
  let ?a = "\<lparr>Cluster = ''c1'', Name = ''a'', Replicas = FromInt 1\<rparr>"
  let ?m = "\<lparr>Cluster = ''c2'', Name = ''missing'', Replicas = FromInt 1\<rparr>"
  let ?e = "[CallGet ''c1'' ''a'' (Some 1), CallCanaryStrategy 1 1 None,
            CallInitialize 1 ''rollout'' ''run'' None]"
  let ?e' = "[CallGet ''c1'' ''a'' (Some 1), CallCanaryStrategy 1 1 None,
            CallInitialize 1 ''rollout'' ''run'' None,
            CallGet ''c2'' ''bb'' (Some 2), CallCanaryStrategy 2 2 None,
            CallInitialize 2 ''rollout'' ''run'' None]"
  have h1: "Targets missingContext = [?a] @ ?m # []"
    by (simp add: missingContext_def)
  have h2: "eachInTurn (initialized sampleEnv (RolloutName missingContext)
                (RolloutRunName missingContext)) [?a] (world missingContext) = Some (?e, [])"
    by (simp add: initialized_def sampleEnv_def sampleContext_def missingContext_def)
  have h3: "workloadsGet sampleEnv (Cluster ?m) (Name ?m) [] = (None, [])"
    by (simp add: sampleEnv_def)
  have h4: "eachInTurn (initialized sampleEnv (RolloutName sampleContext)
                (RolloutRunName sampleContext)) (Targets sampleContext) (world sampleContext)
            = Some (?e', [])"
    by (simp add: initialized_def sampleEnv_def sampleContext_def)
  from doInit_fail_fast [of missingContext sampleEnv "[?a]" ?m "[]" ?e "[]" "[]"] h1 h2 h3
  have a: "doInit sampleEnv missingContext =
     ((False, retryStop sampleEnv,
       Some (CodeReasonMessage ''DoCanaryError'' (ReasonWorkloadInterfaceNotExist sampleEnv)
               (''the workload ('' @ formatRef sampleEnv (Cluster ?m) (Name ?m)
                  @ '') does not exists''))),
      missingContext
        \<lparr>world := [],
         trace := trace missingContext @ ?e @ [CallGet (Cluster ?m) (Name ?m) None]\<rparr>)"
    by blast
  from doInit_fail_fast [where ctx = sampleContext and d = sampleEnv and e' = ?e' and w' = "[]"] h4
  have b: "doInit sampleEnv sampleContext =
      ((True, retryDefault sampleEnv, None),
       sampleContext\<lparr>world := [], trace := trace sampleContext @ ?e'\<rparr>)"
    by blast
  show ?thesis
    using h1 h2 h3 h4 a b by simp
qed

subsection \<open>Recycling\<close>

lemma deleteTrace_step:
  assumes "deleteTrace d ts r evs"
  shows "deleteTrace d (t # ts) r
           ([CallGet (Cluster t) (Name t) (Some wi), CallCanaryStrategy wi cs None,
             CallDelete cs None] @ evs)"
  using assms by (auto simp add: deleteTrace_def)

lemma deleteTargets_trace:
  "deleteTargets d ts ctx = (r, c') \<Longrightarrow> \<exists>evs. calls ctx evs c' \<and> deleteTrace d ts r evs"
proof (induction ts arbitrary: ctx)
  case Nil
  then show ?case
    by (intro exI [of _ "[]"]) (auto simp add: calls_refl deleteTrace_def)
next
  case (Cons item items)
  obtain wi w1 where g: "workloadsGet d (Cluster item) (Name item) (world ctx) = (wi, w1)"
    by (metis surj_pair)
  let ?c1 = "called (CallGet (Cluster item) (Name item) wi) w1 ctx"
  show ?case
  proof (cases wi)
    case None
    with g Cons.prems have "c' = ?c1"
      "r = Some (newDoCanaryError (ReasonWorkloadInterfaceNotExist d)
           (''the workload ('' @ formatRef d (Cluster item) (Name item) @ '') does not exists''))"
      by (auto simp add: Workloads_Get_def)
    with None show ?thesis
      by (intro exI [of _ "[CallGet (Cluster item) (Name item) None]"])
         (auto simp add: calls_called deleteTrace_def newDoCanaryError_def)
  next
    case (Some h)
    obtain cs err w2 where s: "workloadCanaryStrategy d h w1 = ((cs, err), w2)"
      by (metis surj_pair)
    let ?c2 = "called (CallCanaryStrategy h cs err) w2 ?c1"
    have c2: "calls ctx [CallGet (Cluster item) (Name item) wi, CallCanaryStrategy h cs err] ?c2"
      using calls_trans [OF calls_called calls_called] by fastforce
    have w1: "world ?c1 = w1" by (simp add: called_def)
    show ?thesis
    proof (cases err)
      case (Some e)
      with g s \<open>wi = Some h\<close> w1 Cons.prems have "c' = ?c2"
        "r = Some (newDoCanaryError ''InternalError''
                        (''failed to get canary strategy, err: '' @ formatErr d e))"
        by (auto simp add: Workloads_Get_def CanaryStrategy_def)
      with c2 Some \<open>wi = Some h\<close> show ?thesis
        by (intro exI [of _ "[CallGet (Cluster item) (Name item) wi, CallCanaryStrategy h cs err]"])
           (auto simp add: deleteTrace_def newDoCanaryError_def)
    next
      case None
      have w2: "world ?c2 = w2" by (simp add: called_def)
      obtain derr w3 where i: "canaryDelete d cs w2 = (derr, w3)"
        by (metis surj_pair)
      let ?ev3 = "CallDelete cs derr"
      let ?c3 = "called ?ev3 w3 ?c2"
      have c3: "calls ctx ([CallGet (Cluster item) (Name item) wi,
                  CallCanaryStrategy h cs err] @ [?ev3]) ?c3"
        by (rule calls_trans [OF c2 calls_called])
      show ?thesis
      proof (cases derr)
        case (Some e)
        with g s i None \<open>wi = Some h\<close> w1 w2 Cons.prems have "c' = ?c3"
          "r = Some (newDoCanaryError ''DeleteFailed''
                             (''failed to delete canary resource for workload(''
                                @ formatRef d (Cluster item) (Name item) @ ''), err: ''
                                @ formatErr d e))"
          by (auto simp add: Workloads_Get_def CanaryStrategy_def Delete_def)
        with c3 Some None \<open>wi = Some h\<close> show ?thesis
          by (intro exI [of _ "[CallGet (Cluster item) (Name item) wi,
                  CallCanaryStrategy h cs err, ?ev3]"])
             (auto simp add: deleteTrace_def newDoCanaryError_def)
      next
        case ok: None
        with g s i None \<open>wi = Some h\<close> w1 w2 Cons.prems
        have "deleteTargets d items ?c3 = (r, c')"
          by (auto simp add: Workloads_Get_def CanaryStrategy_def Delete_def)
        from Cons.IH [OF this] obtain evs where
          evs: "calls ?c3 evs c'" "deleteTrace d items r evs" by blast
        have "calls ctx (([CallGet (Cluster item) (Name item) wi,
                  CallCanaryStrategy h cs err] @ [?ev3]) @ evs) c'"
          by (rule calls_trans [OF c3 evs(1)])
        moreover have "deleteTrace d (item # items) r
             ([CallGet (Cluster item) (Name item) (Some h), CallCanaryStrategy h cs None,
               CallDelete cs None] @ evs)"
          by (rule deleteTrace_step [OF evs(2)])
        ultimately show ?thesis
          using ok None \<open>wi = Some h\<close> by auto
      qed
    qed
  qed
qed

lemma traffic_other_op: "isTrafficCall op e \<Longrightarrow> op' \<noteq> op \<Longrightarrow> \<not> isTrafficCall op' e"
  by (cases e) auto

lemma delete_kind:
  "isGetCall e \<or> isCanaryStrategyCall e \<or> isDeleteCall e \<Longrightarrow>
     isWorkloadCall e \<and> \<not> isTrafficCall op e"
  by (cases e) simp_all

lemma other_traffic_empty:
  assumes "\<forall>x \<in> set e. isTrafficCall op x" and "op' \<noteq> op"
  shows "filter (isTrafficCall op') e = []"
  using assms traffic_other_op [of op _ op'] by (auto simp add: filter_empty_conv)

lemma delete_calls_no_traffic:
  assumes "\<forall>x \<in> set e. isGetCall x \<or> isCanaryStrategyCall x \<or> isDeleteCall x"
  shows "filter (isTrafficCall op) e = []"
  using assms delete_kind [of _ op] by (auto simp add: filter_empty_conv)

lemma doRecycle_canary_not_converged:
  assumes "trafficConverged d (Traffic ctx) ''revertCanary'' (trafficRevertCanary d) (world ctx)
             = None"
  shows "fst (doRecycle d ctx) = (False, retryDefault d, None)"
  unfolding doRecycle_def
  by (rule handler_not_converged [OF trafficOps(4) assms])

text \<open>\<^verbatim>\<open>doRecycle\<close> once canary traffic is reverted and every target is deleted.\<close>

lemma doRecycle_deleted:
  assumes s: "trafficConverged d (Traffic ctx) ''revertCanary'' (trafficRevertCanary d)
                (world ctx) = Some (e1, w1)"
    and dl: "eachInTurn (deleted d) (Targets ctx) w1 = Some (e2, w2)"
  shows "doRecycle d ctx =
     (case modifyTraffic d (ctx\<lparr>world := w2, trace := trace ctx @ e1 @ e2\<rparr>) ''revertStable'' of
        ((done2, retry2), c3) \<Rightarrow>
          if \<not> done2 then ((False, retry2, None), c3)
          else ((True, retryDefault d, None), c3))"
proof -
  let ?c1 = "ctx\<lparr>world := w1, trace := trace ctx @ e1\<rparr>"
  have m1: "modifyTraffic d ctx ''revertCanary'' = ((True, retryImmediately d), ?c1)"
    by (rule modifyTraffic_converged [OF trafficOps(4) s])
  have "deleteTargets d (Targets ctx @ []) ?c1 =
          deleteTargets d [] (?c1\<lparr>world := w2, trace := trace ?c1 @ e2\<rparr>)"
    by (rule deleteTargets_through) (simp add: dl)
  then have "deleteTargets d (Targets ctx) ?c1 =
               (None, ctx\<lparr>world := w2, trace := trace ctx @ e1 @ e2\<rparr>)"
    by simp
  then show ?thesis
    by (simp add: doRecycle_def m1)
qed

text \<open>
  C4. The three phases of \<^verbatim>\<open>doRecycle\<close> in terms of what the collaborators answer.
  While the revert of canary traffic is not converged (the call fails, reports a change,
  or \<^verbatim>\<open>CheckReady\<close> answers false), \<^verbatim>\<open>doRecycle\<close> returns not done, default delay, no
  error, and every call it made is a call of that revert: no \<^verbatim>\<open>Delete\<close>. Once it is
  converged the targets are deleted in turn, each in the world the one before it left.
  If some target does not go through, the result is not done, stop and a structured
  \<open>DoCanaryError\<close>, and stable traffic is not touched; for the target \<open>item\<close> after the
  deleted targets \<open>pre\<close>, a lookup that returns nil gives the reason
  \<^verbatim>\<open>ReasonWorkloadInterfaceNotExist\<close> and a \<^verbatim>\<open>Delete\<close> that fails gives the reason
  \<open>DeleteFailed\<close>, and the calls end with the call that failed. Once every target is
  deleted, one successful \<^verbatim>\<open>Delete\<close> per target, stable traffic is reverted: while
  that is not converged the result is not done, default delay, no error, and when it is
  converged the result is done, default delay, no error, after exactly the calls of the
  three phases in this order.
\<close>

theorem doRecycle_phases:
  "(trafficConverged d (Traffic ctx) ''revertCanary'' (trafficRevertCanary d) (world ctx) = None
      \<longrightarrow> fst (doRecycle d ctx) = (False, retryDefault d, None) \<and>
          (\<forall>x \<in> set (emitted ctx (snd (doRecycle d ctx))). isTrafficCall ''revertCanary'' x)) \<and>
   (trafficConverged d (Traffic ctx) ''revertCanary'' (trafficRevertCanary d) (world ctx)
      = Some (e1, w1) \<longrightarrow>
      (eachInTurn (deleted d) (Targets ctx) w1 = None \<longrightarrow>
         (\<exists>reason msg. fst (doRecycle d ctx) =
            (False, retryStop d, Some (CodeReasonMessage ''DoCanaryError'' reason msg))) \<and>
         (\<exists>evs2. emitted ctx (snd (doRecycle d ctx)) = e1 @ evs2 \<and>
            (\<forall>x \<in> set evs2. isGetCall x \<or> isCanaryStrategyCall x \<or> isDeleteCall x)) \<and>
         filter (isTrafficCall ''revertStable'') (emitted ctx (snd (doRecycle d ctx))) = []) \<and>
      (Targets ctx = pre @ item # post \<and> eachInTurn (deleted d) pre w1 = Some (e2, w2) \<longrightarrow>
         (workloadsGet d (Cluster item) (Name item) w2 = (None, w3) \<longrightarrow>
            doRecycle d ctx =
              ((False, retryStop d,
                Some (CodeReasonMessage ''DoCanaryError'' (ReasonWorkloadInterfaceNotExist d)
                        (''the workload ('' @ formatRef d (Cluster item) (Name item)
                           @ '') does not exists''))),
               ctx\<lparr>world := w3,
                   trace := trace ctx @ e1 @ e2 @ [CallGet (Cluster item) (Name item) None]\<rparr>)) \<and>
         (workloadsGet d (Cluster item) (Name item) w2 = (Some wi, w3) \<and>
          workloadCanaryStrategy d wi w3 = ((cs, None), w4) \<and>
          canaryDelete d cs w4 = (Some err, w5) \<longrightarrow>
            doRecycle d ctx =
              ((False, retryStop d,
                Some (CodeReasonMessage ''DoCanaryError'' ''DeleteFailed''
                        (''failed to delete canary resource for workload(''
                           @ formatRef d (Cluster item) (Name item) @ ''), err: ''
                           @ formatErr d err))),
               ctx\<lparr>world := w5,
                   trace := trace ctx @ e1 @ e2 @
                     [CallGet (Cluster item) (Name item) (Some wi),
                      CallCanaryStrategy wi cs None, CallDelete cs (Some err)]\<rparr>))) \<and>
      (eachInTurn (deleted d) (Targets ctx) w1 = Some (e2', w2') \<longrightarrow>
         length (filter isDeleteCall e2') = length (Targets ctx) \<and>
         list_all succeededDelete (filter isDeleteCall e2') \<and>
         map lookupKey (filter isGetCall e2') = map (\<lambda>t. (Cluster t, Name t)) (Targets ctx) \<and>
         (trafficConverged d (Traffic ctx) ''revertStable'' (trafficRevertStable d) w2' = None
            \<longrightarrow> fst (doRecycle d ctx) = (False, retryDefault d, None) \<and>
                (\<exists>evs3. emitted ctx (snd (doRecycle d ctx)) = e1 @ e2' @ evs3 \<and>
                   (\<forall>x \<in> set evs3. isTrafficCall ''revertStable'' x))) \<and>
         (trafficConverged d (Traffic ctx) ''revertStable'' (trafficRevertStable d) w2'
            = Some (e3, w3') \<longrightarrow>
            doRecycle d ctx =
              ((True, retryDefault d, None),
               ctx\<lparr>world := w3', trace := trace ctx @ e1 @ e2' @ e3\<rparr>))))"
proof -
  let ?rc = "trafficConverged d (Traffic ctx) ''revertCanary'' (trafficRevertCanary d) (world ctx)"
  have A: "?rc = None
      \<longrightarrow> fst (doRecycle d ctx) = (False, retryDefault d, None) \<and>
          (\<forall>x \<in> set (emitted ctx (snd (doRecycle d ctx))). isTrafficCall ''revertCanary'' x)"
  proof
    assume n: "?rc = None"
    obtain dn rt c1 where m: "modifyTraffic d ctx ''revertCanary'' = ((dn, rt), c1)"
      by (metis surj_pair)
    from modifyTraffic_not_converged [OF trafficOps(4) n] m
    have r: "dn = False" "rt = retryDefault d" by simp_all
    from modifyTraffic_trace [OF _ m] obtain evs1 where
      "calls ctx evs1 c1" "\<forall>e \<in> set evs1. isTrafficCall ''revertCanary'' e" by auto
    with m r calls_emitted [of ctx evs1 c1] show
      "fst (doRecycle d ctx) = (False, retryDefault d, None) \<and>
          (\<forall>x \<in> set (emitted ctx (snd (doRecycle d ctx))). isTrafficCall ''revertCanary'' x)"
      by (simp add: doRecycle_def)
  qed
  have B: "?rc = Some (e1, w1) \<longrightarrow>
      (eachInTurn (deleted d) (Targets ctx) w1 = None \<longrightarrow>
         (\<exists>reason msg. fst (doRecycle d ctx) =
            (False, retryStop d, Some (CodeReasonMessage ''DoCanaryError'' reason msg))) \<and>
         (\<exists>evs2. emitted ctx (snd (doRecycle d ctx)) = e1 @ evs2 \<and>
            (\<forall>x \<in> set evs2. isGetCall x \<or> isCanaryStrategyCall x \<or> isDeleteCall x)) \<and>
         filter (isTrafficCall ''revertStable'') (emitted ctx (snd (doRecycle d ctx))) = []) \<and>
      (Targets ctx = pre @ item # post \<and> eachInTurn (deleted d) pre w1 = Some (e2, w2) \<longrightarrow>
         (workloadsGet d (Cluster item) (Name item) w2 = (None, w3) \<longrightarrow>
            doRecycle d ctx =
              ((False, retryStop d,
                Some (CodeReasonMessage ''DoCanaryError'' (ReasonWorkloadInterfaceNotExist d)
                        (''the workload ('' @ formatRef d (Cluster item) (Name item)
                           @ '') does not exists''))),
               ctx\<lparr>world := w3,
                   trace := trace ctx @ e1 @ e2 @ [CallGet (Cluster item) (Name item) None]\<rparr>)) \<and>
         (workloadsGet d (Cluster item) (Name item) w2 = (Some wi, w3) \<and>
          workloadCanaryStrategy d wi w3 = ((cs, None), w4) \<and>
          canaryDelete d cs w4 = (Some err, w5) \<longrightarrow>
            doRecycle d ctx =
              ((False, retryStop d,
                Some (CodeReasonMessage ''DoCanaryError'' ''DeleteFailed''
                        (''failed to delete canary resource for workload(''
                           @ formatRef d (Cluster item) (Name item) @ ''), err: ''
                           @ formatErr d err))),
               ctx\<lparr>world := w5,
                   trace := trace ctx @ e1 @ e2 @
                     [CallGet (Cluster item) (Name item) (Some wi),
                      CallCanaryStrategy wi cs None, CallDelete cs (Some err)]\<rparr>))) \<and>
      (eachInTurn (deleted d) (Targets ctx) w1 = Some (e2', w2') \<longrightarrow>
         length (filter isDeleteCall e2') = length (Targets ctx) \<and>
         list_all succeededDelete (filter isDeleteCall e2') \<and>
         map lookupKey (filter isGetCall e2') = map (\<lambda>t. (Cluster t, Name t)) (Targets ctx) \<and>
         (trafficConverged d (Traffic ctx) ''revertStable'' (trafficRevertStable d) w2' = None
            \<longrightarrow> fst (doRecycle d ctx) = (False, retryDefault d, None) \<and>
                (\<exists>evs3. emitted ctx (snd (doRecycle d ctx)) = e1 @ e2' @ evs3 \<and>
                   (\<forall>x \<in> set evs3. isTrafficCall ''revertStable'' x))) \<and>
         (trafficConverged d (Traffic ctx) ''revertStable'' (trafficRevertStable d) w2'
            = Some (e3, w3') \<longrightarrow>
            doRecycle d ctx =
              ((True, retryDefault d, None),
               ctx\<lparr>world := w3', trace := trace ctx @ e1 @ e2' @ e3\<rparr>)))"
  proof
    assume s: "?rc = Some (e1, w1)"
    let ?c1 = "ctx\<lparr>world := w1, trace := trace ctx @ e1\<rparr>"
    have m1: "modifyTraffic d ctx ''revertCanary'' = ((True, retryImmediately d), ?c1)"
      by (rule modifyTraffic_converged [OF trafficOps(4) s])
    have k1: "\<forall>x \<in> set e1. isTrafficCall ''revertCanary'' x"
      by (rule trafficConverged_kind [OF s])
    have run: "doRecycle d ctx =
        (case deleteTargets d (Targets ctx) ?c1 of
           (Some err, c2) \<Rightarrow> ((False, retryStop d, Some err), c2)
         | (None, c2) \<Rightarrow>
             (case modifyTraffic d c2 ''revertStable'' of
                ((done2, retry2), c3) \<Rightarrow>
                  if \<not> done2 then ((False, retry2, None), c3)
                  else ((True, retryDefault d, None), c3)))"
      by (simp add: doRecycle_def m1)
    have B1: "eachInTurn (deleted d) (Targets ctx) w1 = None \<longrightarrow>
         (\<exists>reason msg. fst (doRecycle d ctx) =
            (False, retryStop d, Some (CodeReasonMessage ''DoCanaryError'' reason msg))) \<and>
         (\<exists>evs2. emitted ctx (snd (doRecycle d ctx)) = e1 @ evs2 \<and>
            (\<forall>x \<in> set evs2. isGetCall x \<or> isCanaryStrategyCall x \<or> isDeleteCall x)) \<and>
         filter (isTrafficCall ''revertStable'') (emitted ctx (snd (doRecycle d ctx))) = []"
    proof
      assume n: "eachInTurn (deleted d) (Targets ctx) w1 = None"
      have "\<exists>err c'. deleteTargets d (Targets ctx) ?c1 = (Some err, c')"
        by (rule deleteTargets_fails) (simp add: n)
      then obtain err c2 where dl: "deleteTargets d (Targets ctx) ?c1 = (Some err, c2)"
        by blast
      from deleteTargets_trace [OF dl] obtain evs2 where
        e2: "calls ?c1 evs2 c2" "deleteTrace d (Targets ctx) (Some err) evs2" by blast
      from e2(2) obtain reason msg where
        err: "err = CodeReasonMessage ''DoCanaryError'' reason msg"
        and k2: "\<forall>x \<in> set evs2. isGetCall x \<or> isCanaryStrategyCall x \<or> isDeleteCall x"
        unfolding deleteTrace_def by blast
      have res: "doRecycle d ctx = ((False, retryStop d, Some err), c2)"
        using run dl by simp
      have "trace c2 = trace ctx @ e1 @ evs2"
        using e2(1) by (simp add: calls_def)
      then have em: "emitted ctx (snd (doRecycle d ctx)) = e1 @ evs2"
        using res by (simp add: emitted_trace)
      have "filter (isTrafficCall ''revertStable'') (e1 @ evs2) = []"
        using other_traffic_empty [OF k1, of "''revertStable''"] delete_calls_no_traffic [OF k2]
        by simp
      with res err em k2 show
        "(\<exists>reason msg. fst (doRecycle d ctx) =
            (False, retryStop d, Some (CodeReasonMessage ''DoCanaryError'' reason msg))) \<and>
         (\<exists>evs2. emitted ctx (snd (doRecycle d ctx)) = e1 @ evs2 \<and>
            (\<forall>x \<in> set evs2. isGetCall x \<or> isCanaryStrategyCall x \<or> isDeleteCall x)) \<and>
         filter (isTrafficCall ''revertStable'') (emitted ctx (snd (doRecycle d ctx))) = []"
        by simp
    qed
    have B2: "Targets ctx = pre @ item # post \<and> eachInTurn (deleted d) pre w1 = Some (e2, w2) \<longrightarrow>
         (workloadsGet d (Cluster item) (Name item) w2 = (None, w3) \<longrightarrow>
            doRecycle d ctx =
              ((False, retryStop d,
                Some (CodeReasonMessage ''DoCanaryError'' (ReasonWorkloadInterfaceNotExist d)
                        (''the workload ('' @ formatRef d (Cluster item) (Name item)
                           @ '') does not exists''))),
               ctx\<lparr>world := w3,
                   trace := trace ctx @ e1 @ e2 @ [CallGet (Cluster item) (Name item) None]\<rparr>)) \<and>
         (workloadsGet d (Cluster item) (Name item) w2 = (Some wi, w3) \<and>
          workloadCanaryStrategy d wi w3 = ((cs, None), w4) \<and>
          canaryDelete d cs w4 = (Some err, w5) \<longrightarrow>
            doRecycle d ctx =
              ((False, retryStop d,
                Some (CodeReasonMessage ''DoCanaryError'' ''DeleteFailed''
                        (''failed to delete canary resource for workload(''
                           @ formatRef d (Cluster item) (Name item) @ ''), err: ''
                           @ formatErr d err))),
               ctx\<lparr>world := w5,
                   trace := trace ctx @ e1 @ e2 @
                     [CallGet (Cluster item) (Name item) (Some wi),
                      CallCanaryStrategy wi cs None, CallDelete cs (Some err)]\<rparr>))"
    proof (intro impI, elim conjE)
      assume ts: "Targets ctx = pre @ item # post"
        and pre: "eachInTurn (deleted d) pre w1 = Some (e2, w2)"
      let ?c2 = "?c1\<lparr>world := w2, trace := trace ?c1 @ e2\<rparr>"
      have thr: "deleteTargets d (Targets ctx) ?c1 = deleteTargets d (item # post) ?c2"
        unfolding ts by (rule deleteTargets_through) (simp add: pre)
      show "(workloadsGet d (Cluster item) (Name item) w2 = (None, w3) \<longrightarrow>
            doRecycle d ctx =
              ((False, retryStop d,
                Some (CodeReasonMessage ''DoCanaryError'' (ReasonWorkloadInterfaceNotExist d)
                        (''the workload ('' @ formatRef d (Cluster item) (Name item)
                           @ '') does not exists''))),
               ctx\<lparr>world := w3,
                   trace := trace ctx @ e1 @ e2 @ [CallGet (Cluster item) (Name item) None]\<rparr>)) \<and>
         (workloadsGet d (Cluster item) (Name item) w2 = (Some wi, w3) \<and>
          workloadCanaryStrategy d wi w3 = ((cs, None), w4) \<and>
          canaryDelete d cs w4 = (Some err, w5) \<longrightarrow>
            doRecycle d ctx =
              ((False, retryStop d,
                Some (CodeReasonMessage ''DoCanaryError'' ''DeleteFailed''
                        (''failed to delete canary resource for workload(''
                           @ formatRef d (Cluster item) (Name item) @ ''), err: ''
                           @ formatErr d err))),
               ctx\<lparr>world := w5,
                   trace := trace ctx @ e1 @ e2 @
                     [CallGet (Cluster item) (Name item) (Some wi),
                      CallCanaryStrategy wi cs None, CallDelete cs (Some err)]\<rparr>))"
      proof (intro conjI impI)
        assume g: "workloadsGet d (Cluster item) (Name item) w2 = (None, w3)"
        have "deleteTargets d (item # post) ?c2 =
           (Some (CodeReasonMessage ''DoCanaryError'' (ReasonWorkloadInterfaceNotExist d)
                    (''the workload ('' @ formatRef d (Cluster item) (Name item)
                       @ '') does not exists'')),
            ?c2\<lparr>world := w3, trace := trace ?c2 @ [CallGet (Cluster item) (Name item) None]\<rparr>)"
          by (rule deleteTargets_missing) (simp add: g)
        with run thr show "doRecycle d ctx =
              ((False, retryStop d,
                Some (CodeReasonMessage ''DoCanaryError'' (ReasonWorkloadInterfaceNotExist d)
                        (''the workload ('' @ formatRef d (Cluster item) (Name item)
                           @ '') does not exists''))),
               ctx\<lparr>world := w3,
                   trace := trace ctx @ e1 @ e2 @ [CallGet (Cluster item) (Name item) None]\<rparr>)"
          by simp
      next
        assume f: "workloadsGet d (Cluster item) (Name item) w2 = (Some wi, w3) \<and>
          workloadCanaryStrategy d wi w3 = ((cs, None), w4) \<and>
          canaryDelete d cs w4 = (Some err, w5)"
        have "deleteTargets d (item # post) ?c2 =
           (Some (CodeReasonMessage ''DoCanaryError'' ''DeleteFailed''
                    (''failed to delete canary resource for workload(''
                       @ formatRef d (Cluster item) (Name item) @ ''), err: ''
                       @ formatErr d err)),
            ?c2\<lparr>world := w5,
                trace := trace ?c2 @ [CallGet (Cluster item) (Name item) (Some wi),
                                      CallCanaryStrategy wi cs None, CallDelete cs (Some err)]\<rparr>)"
          by (rule deleteTargets_delete_failed [where ?w3.0 = w3 and ?w4.0 = w4])
             (simp_all add: f)
        with run thr show "doRecycle d ctx =
              ((False, retryStop d,
                Some (CodeReasonMessage ''DoCanaryError'' ''DeleteFailed''
                        (''failed to delete canary resource for workload(''
                           @ formatRef d (Cluster item) (Name item) @ ''), err: ''
                           @ formatErr d err))),
               ctx\<lparr>world := w5,
                   trace := trace ctx @ e1 @ e2 @
                     [CallGet (Cluster item) (Name item) (Some wi),
                      CallCanaryStrategy wi cs None, CallDelete cs (Some err)]\<rparr>)"
          by simp
      qed
    qed
    have B3: "eachInTurn (deleted d) (Targets ctx) w1 = Some (e2', w2') \<longrightarrow>
         length (filter isDeleteCall e2') = length (Targets ctx) \<and>
         list_all succeededDelete (filter isDeleteCall e2') \<and>
         map lookupKey (filter isGetCall e2') = map (\<lambda>t. (Cluster t, Name t)) (Targets ctx) \<and>
         (trafficConverged d (Traffic ctx) ''revertStable'' (trafficRevertStable d) w2' = None
            \<longrightarrow> fst (doRecycle d ctx) = (False, retryDefault d, None) \<and>
                (\<exists>evs3. emitted ctx (snd (doRecycle d ctx)) = e1 @ e2' @ evs3 \<and>
                   (\<forall>x \<in> set evs3. isTrafficCall ''revertStable'' x))) \<and>
         (trafficConverged d (Traffic ctx) ''revertStable'' (trafficRevertStable d) w2'
            = Some (e3, w3') \<longrightarrow>
            doRecycle d ctx =
              ((True, retryDefault d, None),
               ctx\<lparr>world := w3', trace := trace ctx @ e1 @ e2' @ e3\<rparr>))"
    proof
      assume all: "eachInTurn (deleted d) (Targets ctx) w1 = Some (e2', w2')"
      let ?c2 = "?c1\<lparr>world := w2', trace := trace ?c1 @ e2'\<rparr>"
      have "deleteTargets d (Targets ctx @ []) ?c1 = deleteTargets d [] ?c2"
        by (rule deleteTargets_through) (simp add: all)
      then have dl: "deleteTargets d (Targets ctx) ?c1 = (None, ?c2)" by simp
      have run2: "doRecycle d ctx =
             (case modifyTraffic d ?c2 ''revertStable'' of
                ((done2, retry2), c3) \<Rightarrow>
                  if \<not> done2 then ((False, retry2, None), c3)
                  else ((True, retryDefault d, None), c3))"
        using run dl by simp
      have C1: "trafficConverged d (Traffic ctx) ''revertStable'' (trafficRevertStable d) w2' = None
            \<longrightarrow> fst (doRecycle d ctx) = (False, retryDefault d, None) \<and>
                (\<exists>evs3. emitted ctx (snd (doRecycle d ctx)) = e1 @ e2' @ evs3 \<and>
                   (\<forall>x \<in> set evs3. isTrafficCall ''revertStable'' x))"
      proof
        assume n: "trafficConverged d (Traffic ctx) ''revertStable'' (trafficRevertStable d) w2'
                     = None"
        obtain dn rt c3 where m: "modifyTraffic d ?c2 ''revertStable'' = ((dn, rt), c3)"
          by (metis surj_pair)
        have "fst (modifyTraffic d ?c2 ''revertStable'') = (False, retryDefault d)"
          by (rule modifyTraffic_not_converged [OF trafficOps(3)]) (simp add: n)
        with m have r: "dn = False" "rt = retryDefault d" by simp_all
        from modifyTraffic_trace [OF _ m] obtain evs3 where
          e3: "calls ?c2 evs3 c3" "\<forall>e \<in> set evs3. isTrafficCall ''revertStable'' e" by auto
        have "trace c3 = trace ctx @ e1 @ e2' @ evs3"
          using e3(1) by (simp add: calls_def)
        with run2 m r e3(2) show
          "fst (doRecycle d ctx) = (False, retryDefault d, None) \<and>
                (\<exists>evs3. emitted ctx (snd (doRecycle d ctx)) = e1 @ e2' @ evs3 \<and>
                   (\<forall>x \<in> set evs3. isTrafficCall ''revertStable'' x))"
          by (simp add: emitted_trace)
      qed
      have C2: "trafficConverged d (Traffic ctx) ''revertStable'' (trafficRevertStable d) w2'
            = Some (e3, w3') \<longrightarrow>
            doRecycle d ctx =
              ((True, retryDefault d, None),
               ctx\<lparr>world := w3', trace := trace ctx @ e1 @ e2' @ e3\<rparr>)"
      proof
        assume s3: "trafficConverged d (Traffic ctx) ''revertStable'' (trafficRevertStable d) w2'
                     = Some (e3, w3')"
        have "modifyTraffic d ?c2 ''revertStable'' =
                ((True, retryImmediately d), ?c2\<lparr>world := w3', trace := trace ?c2 @ e3\<rparr>)"
          by (rule modifyTraffic_converged [OF trafficOps(3)]) (simp add: s3)
        with run2 show "doRecycle d ctx =
              ((True, retryDefault d, None),
               ctx\<lparr>world := w3', trace := trace ctx @ e1 @ e2' @ e3\<rparr>)"
          by simp
      qed
      show "length (filter isDeleteCall e2') = length (Targets ctx) \<and>
         list_all succeededDelete (filter isDeleteCall e2') \<and>
         map lookupKey (filter isGetCall e2') = map (\<lambda>t. (Cluster t, Name t)) (Targets ctx) \<and>
         (trafficConverged d (Traffic ctx) ''revertStable'' (trafficRevertStable d) w2' = None
            \<longrightarrow> fst (doRecycle d ctx) = (False, retryDefault d, None) \<and>
                (\<exists>evs3. emitted ctx (snd (doRecycle d ctx)) = e1 @ e2' @ evs3 \<and>
                   (\<forall>x \<in> set evs3. isTrafficCall ''revertStable'' x))) \<and>
         (trafficConverged d (Traffic ctx) ''revertStable'' (trafficRevertStable d) w2'
            = Some (e3, w3') \<longrightarrow>
            doRecycle d ctx =
              ((True, retryDefault d, None),
               ctx\<lparr>world := w3', trace := trace ctx @ e1 @ e2' @ e3\<rparr>))"
        using deleted_calls [OF all] C1 C2 by blast
    qed
    show "(eachInTurn (deleted d) (Targets ctx) w1 = None \<longrightarrow>
         (\<exists>reason msg. fst (doRecycle d ctx) =
            (False, retryStop d, Some (CodeReasonMessage ''DoCanaryError'' reason msg))) \<and>
         (\<exists>evs2. emitted ctx (snd (doRecycle d ctx)) = e1 @ evs2 \<and>
            (\<forall>x \<in> set evs2. isGetCall x \<or> isCanaryStrategyCall x \<or> isDeleteCall x)) \<and>
         filter (isTrafficCall ''revertStable'') (emitted ctx (snd (doRecycle d ctx))) = []) \<and>
      (Targets ctx = pre @ item # post \<and> eachInTurn (deleted d) pre w1 = Some (e2, w2) \<longrightarrow>
         (workloadsGet d (Cluster item) (Name item) w2 = (None, w3) \<longrightarrow>
            doRecycle d ctx =
              ((False, retryStop d,
                Some (CodeReasonMessage ''DoCanaryError'' (ReasonWorkloadInterfaceNotExist d)
                        (''the workload ('' @ formatRef d (Cluster item) (Name item)
                           @ '') does not exists''))),
               ctx\<lparr>world := w3,
                   trace := trace ctx @ e1 @ e2 @ [CallGet (Cluster item) (Name item) None]\<rparr>)) \<and>
         (workloadsGet d (Cluster item) (Name item) w2 = (Some wi, w3) \<and>
          workloadCanaryStrategy d wi w3 = ((cs, None), w4) \<and>
          canaryDelete d cs w4 = (Some err, w5) \<longrightarrow>
            doRecycle d ctx =
              ((False, retryStop d,
                Some (CodeReasonMessage ''DoCanaryError'' ''DeleteFailed''
                        (''failed to delete canary resource for workload(''
                           @ formatRef d (Cluster item) (Name item) @ ''), err: ''
                           @ formatErr d err))),
               ctx\<lparr>world := w5,
                   trace := trace ctx @ e1 @ e2 @
                     [CallGet (Cluster item) (Name item) (Some wi),
                      CallCanaryStrategy wi cs None, CallDelete cs (Some err)]\<rparr>))) \<and>
      (eachInTurn (deleted d) (Targets ctx) w1 = Some (e2', w2') \<longrightarrow>
         length (filter isDeleteCall e2') = length (Targets ctx) \<and>
         list_all succeededDelete (filter isDeleteCall e2') \<and>
         map lookupKey (filter isGetCall e2') = map (\<lambda>t. (Cluster t, Name t)) (Targets ctx) \<and>
         (trafficConverged d (Traffic ctx) ''revertStable'' (trafficRevertStable d) w2' = None
            \<longrightarrow> fst (doRecycle d ctx) = (False, retryDefault d, None) \<and>
                (\<exists>evs3. emitted ctx (snd (doRecycle d ctx)) = e1 @ e2' @ evs3 \<and>
                   (\<forall>x \<in> set evs3. isTrafficCall ''revertStable'' x))) \<and>
         (trafficConverged d (Traffic ctx) ''revertStable'' (trafficRevertStable d) w2'
            = Some (e3, w3') \<longrightarrow>
            doRecycle d ctx =
              ((True, retryDefault d, None),
               ctx\<lparr>world := w3', trace := trace ctx @ e1 @ e2' @ e3\<rparr>)))"
      using B1 B2 B3 by blast
  qed
  show ?thesis
    using A B by blast
qed

theorem doRecycle_phases_witness:
  "trafficConverged convergingRevertEnv (Traffic sampleContext) ''revertCanary''
     (trafficRevertCanary convergingRevertEnv) (world sampleContext) = None \<and>
   fst (doRecycle convergingRevertEnv sampleContext) =
     (False, retryDefault convergingRevertEnv, None) \<and>
   trafficConverged sampleEnv (Traffic missingContext) ''revertCanary''
     (trafficRevertCanary sampleEnv) (world missingContext) =
     Some ([CallTraffic ''revertCanary'' ''unchanged'' None,
            CallCheckReady ''revertCanary'' True], []) \<and>
   eachInTurn (deleted sampleEnv) (Targets missingContext) [] = None \<and>
   Targets missingContext =
     [\<lparr>Cluster = ''c1'', Name = ''a'', Replicas = FromInt 1\<rparr>] @
     \<lparr>Cluster = ''c2'', Name = ''missing'', Replicas = FromInt 1\<rparr> # [] \<and>
   eachInTurn (deleted sampleEnv)
     [\<lparr>Cluster = ''c1'', Name = ''a'', Replicas = FromInt 1\<rparr>] [] =
     Some ([CallGet ''c1'' ''a'' (Some 1), CallCanaryStrategy 1 1 None, CallDelete 1 None], []) \<and>
   workloadsGet sampleEnv ''c2'' ''missing'' [] = (None, []) \<and>
   doRecycle sampleEnv missingContext =
     ((False, retryStop sampleEnv,
       Some (CodeReasonMessage ''DoCanaryError'' (ReasonWorkloadInterfaceNotExist sampleEnv)
               (''the workload ('' @ formatRef sampleEnv ''c2'' ''missing''
                  @ '') does not exists''))),
      missingContext
        \<lparr>world := [],
         trace := trace missingContext @
           [CallTraffic ''revertCanary'' ''unchanged'' None,
            CallCheckReady ''revertCanary'' True] @
           [CallGet ''c1'' ''a'' (Some 1), CallCanaryStrategy 1 1 None, CallDelete 1 None] @
           [CallGet ''c2'' ''missing'' None]\<rparr>) \<and>
   filter (isTrafficCall ''revertStable'')
     (emitted missingContext (snd (doRecycle sampleEnv missingContext))) = [] \<and>
   canaryDelete failingDeleteEnv 1 [] = (Some (ErrorString ''conflict''), []) \<and>
   doRecycle failingDeleteEnv sampleContext =
     ((False, retryStop failingDeleteEnv,
       Some (CodeReasonMessage ''DoCanaryError'' ''DeleteFailed''
               (''failed to delete canary resource for workload(''
                  @ formatRef failingDeleteEnv ''c1'' ''a'' @ ''), err: ''
                  @ formatErr failingDeleteEnv (ErrorString ''conflict'')))),
      sampleContext
        \<lparr>world := [],
         trace := trace sampleContext @
           [CallTraffic ''revertCanary'' ''unchanged'' None,
            CallCheckReady ''revertCanary'' True] @ [] @
           [CallGet ''c1'' ''a'' (Some 1), CallCanaryStrategy 1 1 None,
            CallDelete 1 (Some (ErrorString ''conflict''))]\<rparr>) \<and>
   eachInTurn (deleted sampleEnv) (Targets existingContext) [1, 2] =
     Some ([CallGet ''c1'' ''a'' (Some 1), CallCanaryStrategy 1 1 None, CallDelete 1 None,
            CallGet ''c2'' ''bb'' (Some 2), CallCanaryStrategy 2 2 None, CallDelete 2 None],
           []) \<and>
   trafficConverged convergingRevertStableEnv (Traffic existingContext) ''revertStable''
     (trafficRevertStable convergingRevertStableEnv) [] = None \<and>
   fst (doRecycle convergingRevertStableEnv existingContext) =
     (False, retryDefault convergingRevertStableEnv, None) \<and>
   trafficConverged sampleEnv (Traffic existingContext) ''revertStable''
     (trafficRevertStable sampleEnv) [] =
     Some ([CallTraffic ''revertStable'' ''unchanged'' None,
            CallCheckReady ''revertStable'' True], []) \<and>
   doRecycle sampleEnv existingContext =
     ((True, retryDefault sampleEnv, None),
      existingContext
        \<lparr>world := [],
         trace := trace existingContext @
           [CallTraffic ''revertCanary'' ''unchanged'' None,
            CallCheckReady ''revertCanary'' True] @
           [CallGet ''c1'' ''a'' (Some 1), CallCanaryStrategy 1 1 None, CallDelete 1 None,
            CallGet ''c2'' ''bb'' (Some 2), CallCanaryStrategy 2 2 None, CallDelete 2 None] @
           [CallTraffic ''revertStable'' ''unchanged'' None,
            CallCheckReady ''revertStable'' True]\<rparr>)"
proof -
  let ?a = "\<lparr>Cluster = ''c1'', Name = ''a'', Replicas = FromInt 1\<rparr>"
  let ?m = "\<lparr>Cluster = ''c2'', Name = ''missing'', Replicas = FromInt 1\<rparr>"
  let ?rc = "[CallTraffic ''revertCanary'' ''unchanged'' None,
              CallCheckReady ''revertCanary'' True]"
  let ?rs = "[CallTraffic ''revertStable'' ''unchanged'' None,
              CallCheckReady ''revertStable'' True]"
  let ?da = "[CallGet ''c1'' ''a'' (Some 1), CallCanaryStrategy 1 1 None, CallDelete 1 None]"
  let ?dab = "[CallGet ''c1'' ''a'' (Some 1), CallCanaryStrategy 1 1 None, CallDelete 1 None,
            CallGet ''c2'' ''bb'' (Some 2), CallCanaryStrategy 2 2 None, CallDelete 2 None]"
  have h1: "trafficConverged convergingRevertEnv (Traffic sampleContext) ''revertCanary''
     (trafficRevertCanary convergingRevertEnv) (world sampleContext) = None"
    by (simp add: trafficConverged_def sample_defs)
  have h2: "trafficConverged sampleEnv (Traffic missingContext) ''revertCanary''
     (trafficRevertCanary sampleEnv) (world missingContext) = Some (?rc, [])"
    by (simp add: trafficConverged_def sample_defs)
  have h3: "eachInTurn (deleted sampleEnv) (Targets missingContext) [] = None"
    by (simp add: deleted_def sample_defs)
  have h4: "Targets missingContext = [?a] @ ?m # []"
    by (simp add: sample_defs)
  have h5: "eachInTurn (deleted sampleEnv) [?a] [] = Some (?da, [])"
    by (simp add: deleted_def sample_defs)
  have h6: "workloadsGet sampleEnv (Cluster ?m) (Name ?m) [] = (None, [])"
    by (simp add: sample_defs)
  have h7: "trafficConverged failingDeleteEnv (Traffic sampleContext) ''revertCanary''
     (trafficRevertCanary failingDeleteEnv) (world sampleContext) = Some (?rc, [])"
    by (simp add: trafficConverged_def sample_defs)
  have h8: "Targets sampleContext =
              [] @ ?a # [\<lparr>Cluster = ''c2'', Name = ''bb'', Replicas = FromInt 1\<rparr>]"
    "eachInTurn (deleted failingDeleteEnv) [] [] = Some ([], [])"
    "workloadsGet failingDeleteEnv (Cluster ?a) (Name ?a) [] = (Some 1, [])"
    "workloadCanaryStrategy failingDeleteEnv 1 [] = ((1, None), [])"
    "canaryDelete failingDeleteEnv 1 [] = (Some (ErrorString ''conflict''), [])"
    by (simp_all add: sample_defs)
  have h9: "trafficConverged convergingRevertStableEnv (Traffic existingContext) ''revertCanary''
     (trafficRevertCanary convergingRevertStableEnv) (world existingContext) = Some (?rc, [1, 2])"
    "trafficConverged sampleEnv (Traffic existingContext) ''revertCanary''
     (trafficRevertCanary sampleEnv) (world existingContext) = Some (?rc, [1, 2])"
    by (simp_all add: trafficConverged_def sample_defs)
  have h10: "eachInTurn (deleted convergingRevertStableEnv) (Targets existingContext) [1, 2] =
               Some (?dab, [])"
    "eachInTurn (deleted sampleEnv) (Targets existingContext) [1, 2] = Some (?dab, [])"
    by (simp_all add: deleted_def sample_defs)
  have h11: "trafficConverged convergingRevertStableEnv (Traffic existingContext) ''revertStable''
     (trafficRevertStable convergingRevertStableEnv) [] = None"
    by (simp add: trafficConverged_def sample_defs)
  have h12: "trafficConverged sampleEnv (Traffic existingContext) ''revertStable''
     (trafficRevertStable sampleEnv) [] = Some (?rs, [])"
    by (simp add: trafficConverged_def sample_defs)
  from doRecycle_phases [where d = convergingRevertEnv and ctx = sampleContext] h1
  have a: "fst (doRecycle convergingRevertEnv sampleContext) =
     (False, retryDefault convergingRevertEnv, None)"
    by blast
  from doRecycle_phases [where d = sampleEnv and ctx = missingContext and ?e1.0 = ?rc
         and ?w1.0 = "[]" and pre = "[?a]" and item = ?m and post = "[]" and ?e2.0 = ?da
         and ?w2.0 = "[]" and ?w3.0 = "[]"] h2 h3 h4 h5 h6
  have b: "doRecycle sampleEnv missingContext =
     ((False, retryStop sampleEnv,
       Some (CodeReasonMessage ''DoCanaryError'' (ReasonWorkloadInterfaceNotExist sampleEnv)
               (''the workload ('' @ formatRef sampleEnv (Cluster ?m) (Name ?m)
                  @ '') does not exists''))),
      missingContext
        \<lparr>world := [],
         trace := trace missingContext @ ?rc @ ?da @ [CallGet (Cluster ?m) (Name ?m) None]\<rparr>)"
    "filter (isTrafficCall ''revertStable'')
       (emitted missingContext (snd (doRecycle sampleEnv missingContext))) = []"
    by blast+
  from doRecycle_phases [where d = failingDeleteEnv and ctx = sampleContext and ?e1.0 = ?rc
         and ?w1.0 = "[]" and pre = "[]" and item = ?a
         and post = "[\<lparr>Cluster = ''c2'', Name = ''bb'', Replicas = FromInt 1\<rparr>]"
         and ?e2.0 = "[]" and ?w2.0 = "[]" and ?w3.0 = "[]" and wi = 1 and cs = 1
         and ?w4.0 = "[]" and err = "ErrorString ''conflict''" and ?w5.0 = "[]"] h7 h8
  have c: "doRecycle failingDeleteEnv sampleContext =
     ((False, retryStop failingDeleteEnv,
       Some (CodeReasonMessage ''DoCanaryError'' ''DeleteFailed''
               (''failed to delete canary resource for workload(''
                  @ formatRef failingDeleteEnv (Cluster ?a) (Name ?a) @ ''), err: ''
                  @ formatErr failingDeleteEnv (ErrorString ''conflict'')))),
      sampleContext
        \<lparr>world := [],
         trace := trace sampleContext @ ?rc @ [] @
           [CallGet (Cluster ?a) (Name ?a) (Some 1), CallCanaryStrategy 1 1 None,
            CallDelete 1 (Some (ErrorString ''conflict''))]\<rparr>)"
    by blast
  from doRecycle_phases [where d = convergingRevertStableEnv and ctx = existingContext
         and ?e1.0 = ?rc and ?w1.0 = "[1, 2]" and e2' = ?dab and w2' = "[]"] h9(1) h10(1) h11
  have e: "fst (doRecycle convergingRevertStableEnv existingContext) =
     (False, retryDefault convergingRevertStableEnv, None)"
    by blast
  from doRecycle_phases [where d = sampleEnv and ctx = existingContext
         and ?e1.0 = ?rc and ?w1.0 = "[1, 2]" and e2' = ?dab and w2' = "[]"
         and ?e3.0 = ?rs and w3' = "[]"] h9(2) h10(2) h12
  have f: "doRecycle sampleEnv existingContext =
     ((True, retryDefault sampleEnv, None),
      existingContext\<lparr>world := [], trace := trace existingContext @ ?rc @ ?dab @ ?rs\<rparr>)"
    by blast
  show ?thesis
    using h1 a h2 h3 h4 h5 h6 b c h8(5) h10(2) h11 e h12 f by simp
qed

subsection \<open>The canary step\<close>

lemma createTrace_step:
  assumes "createTrace labels ts (if res \<noteq> OperationResultNone then True else changed0)
             (cws0 @ [cs]) r evs"
  shows "createTrace labels (t # ts) changed0 cws0 r
           ([CallGet (Cluster t) (Name t) (Some wi), CallCanaryStrategy wi cs None,
             CallCreateOrUpdate cs n p labels res None] @ evs)"
  using assms by (auto simp add: createTrace_def split: sum.splits)

lemma createCanaryResources_trace:
  "createCanaryResources d p ts changed0 cws0 ctx = (r, c') \<Longrightarrow>
     \<exists>evs. calls ctx evs c' \<and> createTrace (patchLabels (heap ctx) p) ts changed0 cws0 r evs"
proof (induction ts arbitrary: ctx changed0 cws0)
  case Nil
  then show ?case
    by (intro exI [of _ "[]"]) (auto simp add: calls_refl createTrace_def)
next
  case (Cons item items)
  obtain wi w1 where g: "workloadsGet d (Cluster item) (Name item) (world ctx) = (wi, w1)"
    by (metis surj_pair)
  let ?c1 = "called (CallGet (Cluster item) (Name item) wi) w1 ctx"
  show ?case
  proof (cases wi)
    case None
    with g Cons.prems have "c' = ?c1"
      "r = Inl (newDoCanaryError (ReasonWorkloadInterfaceNotExist d)
           (''the workload ('' @ formatRef d (Cluster item) (Name item) @ '') does not exists''))"
      by (auto simp add: Workloads_Get_def)
    with None show ?thesis
      by (intro exI [of _ "[CallGet (Cluster item) (Name item) None]"])
         (auto simp add: calls_called createTrace_def newDoCanaryError_def)
  next
    case (Some h)
    obtain cs err w2 where s: "workloadCanaryStrategy d h w1 = ((cs, err), w2)"
      by (metis surj_pair)
    let ?c2 = "called (CallCanaryStrategy h cs err) w2 ?c1"
    have c2: "calls ctx [CallGet (Cluster item) (Name item) wi, CallCanaryStrategy h cs err] ?c2"
      using calls_trans [OF calls_called calls_called] by fastforce
    have w1: "world ?c1 = w1" by (simp add: called_def)
    show ?thesis
    proof (cases err)
      case (Some e)
      with g s \<open>wi = Some h\<close> w1 Cons.prems have "c' = ?c2"
        "r = Inl (newDoCanaryError ''InternalError''
                        (''failed to get canary strategy, err: '' @ formatErr d e))"
        by (auto simp add: Workloads_Get_def CanaryStrategy_def)
      with c2 Some \<open>wi = Some h\<close> show ?thesis
        by (intro exI [of _ "[CallGet (Cluster item) (Name item) wi, CallCanaryStrategy h cs err]"])
           (auto simp add: createTrace_def newDoCanaryError_def)
    next
      case None
      have w2: "world ?c2 = w2" "heap ?c2 = heap ctx" by (simp_all add: called_def)
      let ?labels = "patchLabels (heap ctx) p"
      obtain res cerr w3 where i:
        "canaryCreateOrUpdate d cs (Replicas item) ?labels w2 = ((res, cerr), w3)"
        by (metis surj_pair)
      let ?ev3 = "CallCreateOrUpdate cs (Replicas item) p ?labels res cerr"
      let ?c3 = "called ?ev3 w3 ?c2"
      have c3: "calls ctx ([CallGet (Cluster item) (Name item) wi,
                  CallCanaryStrategy h cs err] @ [?ev3]) ?c3"
        by (rule calls_trans [OF c2 calls_called])
      have h3: "heap ?c3 = heap ctx" by (simp add: called_def)
      show ?thesis
      proof (cases cerr)
        case (Some e)
        with g s i None \<open>wi = Some h\<close> w1 w2 Cons.prems have "c' = ?c3"
          "r = Inl (newDoCanaryError ''CreateOrUpdateFailed''
                            (''failed to ensure canary resource for workload(''
                               @ formatRef d (Cluster item) (Name item) @ ''), err: ''
                               @ formatErr d e))"
          by (auto simp add: Workloads_Get_def CanaryStrategy_def CreateOrUpdate_def)
        with c3 Some None \<open>wi = Some h\<close> show ?thesis
          by (intro exI [of _ "[CallGet (Cluster item) (Name item) wi,
                  CallCanaryStrategy h cs err, ?ev3]"])
             (auto simp add: createTrace_def newDoCanaryError_def)
      next
        case ok: None
        with g s i None \<open>wi = Some h\<close> w1 w2 Cons.prems
        have "createCanaryResources d p items
                 (if res \<noteq> OperationResultNone then True else changed0) (cws0 @ [cs]) ?c3
              = (r, c')"
          by (auto simp add: Workloads_Get_def CanaryStrategy_def CreateOrUpdate_def)
        from Cons.IH [OF this] obtain evs where
          evs: "calls ?c3 evs c'"
            "createTrace ?labels items
               (if res \<noteq> OperationResultNone then True else changed0) (cws0 @ [cs]) r evs"
          unfolding h3 by blast
        have "calls ctx (([CallGet (Cluster item) (Name item) wi,
                  CallCanaryStrategy h cs err] @ [?ev3]) @ evs) c'"
          by (rule calls_trans [OF c3 evs(1)])
        moreover have "createTrace ?labels (item # items) changed0 cws0 r
             ([CallGet (Cluster item) (Name item) (Some h), CallCanaryStrategy h cs None,
               CallCreateOrUpdate cs (Replicas item) p ?labels res None] @ evs)"
          by (rule createTrace_step [OF evs(2)])
        ultimately show ?thesis
          using ok None \<open>wi = Some h\<close> by auto
      qed
    qed
  qed
qed

lemma waitCanaryReady_trace:
  "waitCanaryReady d cws ctx = (r, c') \<Longrightarrow> \<exists>evs. calls ctx evs c' \<and> readyTrace cws r evs"
proof (induction cws arbitrary: ctx)
  case Nil
  then show ?case
    by (intro exI [of _ "[]"]) (auto simp add: calls_refl readyTrace_def)
next
  case (Cons cw cws)
  obtain info w1 where g: "canaryGetCanaryInfo d cw (world ctx) = (info, w1)"
    by (metis surj_pair)
  let ?ready = "infoCheckPartitionReady d info (StatusReplicas info)"
  let ?c1 = "called (CallGetCanaryInfo cw info) w1 ctx"
  let ?ev2 = "CallCheckPartitionReady info (StatusReplicas info) ?ready"
  let ?c2 = "called ?ev2 (world ?c1) ?c1"
  have c2: "calls ctx ([CallGetCanaryInfo cw info] @ [?ev2]) ?c2"
    by (rule calls_trans [OF calls_called calls_called])
  show ?case
  proof (cases ?ready)
    case False
    with g Cons.prems have "c' = ?c2" "\<not> r"
      by (auto simp add: GetCanaryInfo_def CheckPartitionReady_def Let_def)
    with c2 False show ?thesis
      by (intro exI [of _ "[CallGetCanaryInfo cw info, ?ev2]"])
         (auto simp add: readyTrace_def)
  next
    case True
    with g Cons.prems have "waitCanaryReady d cws ?c2 = (r, c')"
      by (auto simp add: GetCanaryInfo_def CheckPartitionReady_def Let_def)
    from Cons.IH [OF this] obtain evs where
      evs: "calls ?c2 evs c'" "readyTrace cws r evs" by blast
    have "calls ctx (([CallGetCanaryInfo cw info] @ [?ev2]) @ evs) c'"
      by (rule calls_trans [OF c2 evs(1)])
    moreover have "readyTrace (cw # cws) r ([CallGetCanaryInfo cw info, ?ev2] @ evs)"
      using evs(2) True by (auto simp add: readyTrace_def)
    ultimately show ?thesis by auto
  qed
qed

lemma appendBuiltin_labels:
  assumes "appendBuiltinPodTemplateMetadataPatch d patch h0 = (p, h)"
  shows "\<exists>m. patchLabels h p = Some m \<and> m (LabelPodRevision d) = Some ''canary'' \<and>
           (LabelCanary d \<noteq> LabelPodRevision d \<longrightarrow> m (LabelCanary d) = Some ''true'')"
  using assms
  by (auto simp add: appendBuiltinPodTemplateMetadataPatch_def newMetadataPatch_def
        newLabelMap_def patchLabels_def Let_def split: option.splits prod.splits)

lemma doCanary_run:
  "\<exists>evs1 evs2 evs3 evs4.
     emitted ctx (snd (doCanary d ctx)) = evs1 @ evs2 @ evs3 @ evs4 \<and>
     evs1 = emitted ctx (snd (modifyTraffic d ctx ''forkStable'')) \<and>
     fst (fst (modifyTraffic d ctx ''forkStable'')) = trafficDone (Traffic ctx) ''forkStable'' evs1 \<and>
     (\<forall>e \<in> set evs1. isTrafficCall ''forkStable'' e) \<and>
     (\<forall>e \<in> set evs2. isCreateCall e) \<and>
     (\<forall>e \<in> set evs3. isReadinessCall e) \<and>
     (\<forall>e \<in> set evs4. isTrafficCall ''forkCanary'' e) \<and>
     PodTemplateMetadataPatch (snd (doCanary d ctx)) = PodTemplateMetadataPatch ctx \<and>
     State (snd (doCanary d ctx)) = State ctx \<and>
     (\<forall>e \<in> set evs2. isCreateOrUpdateCall e \<longrightarrow>
        passedLabels e =
          patchLabels
            (snd (appendBuiltinPodTemplateMetadataPatch d (PodTemplateMetadataPatch ctx) (heap ctx)))
            (fst (appendBuiltinPodTemplateMetadataPatch d (PodTemplateMetadataPatch ctx) (heap ctx)))) \<and>
     (if \<not> trafficDone (Traffic ctx) ''forkStable'' evs1 then
        evs2 = [] \<and> evs3 = [] \<and> evs4 = [] \<and>
        fst (doCanary d ctx) = (False, retryDefault d, None) \<and>
        heap (snd (doCanary d ctx)) = heap ctx
      else
        heap (snd (doCanary d ctx)) =
          snd (appendBuiltinPodTemplateMetadataPatch d (PodTemplateMetadataPatch ctx) (heap ctx)) \<and>
        (if length (filter succeededCreateOrUpdate evs2) \<noteq> length (Targets ctx) then
           evs3 = [] \<and> evs4 = [] \<and>
           (\<exists>reason msg. fst (doCanary d ctx) =
              (False, retryStop d, Some (CodeReasonMessage ''DoCanaryError'' reason msg)))
         else if list_ex changedCreateOrUpdate evs2 then
           evs3 = [] \<and> evs4 = [] \<and> fst (doCanary d ctx) = (False, retryDefault d, None)
         else if length (filter readyPartition evs3) \<noteq> length (Targets ctx) then
           evs4 = [] \<and> list_ex notReadyPartition evs3 \<and>
           fst (doCanary d ctx) = (False, retryDefault d, None)
         else
           \<not> list_ex notReadyPartition evs3 \<and>
           (if \<not> trafficDone (Traffic ctx) ''forkCanary'' evs4 then
              fst (doCanary d ctx) = (False, retryDefault d, None)
            else fst (doCanary d ctx) = (True, retryImmediately d, None))))"
proof -
  obtain done1 r1 c1 where m1: "modifyTraffic d ctx ''forkStable'' = ((done1, r1), c1)"
    by (metis surj_pair)
  from modifyTraffic_trace [OF _ m1] obtain evs1 where
    e1: "calls ctx evs1 c1" "\<forall>e \<in> set evs1. isTrafficCall ''forkStable'' e"
      "done1 = trafficDone (Traffic ctx) ''forkStable'' evs1"
      "r1 = (if done1 then retryImmediately d else retryDefault d)"
    by auto
  have em1: "emitted ctx (snd (modifyTraffic d ctx ''forkStable'')) = evs1"
    using m1 calls_emitted [OF e1(1)] by simp
  have d1: "fst (fst (modifyTraffic d ctx ''forkStable'')) = done1"
    using m1 by simp
  have f1: "Targets c1 = Targets ctx" "Traffic c1 = Traffic ctx" "heap c1 = heap ctx"
    "PodTemplateMetadataPatch c1 = PodTemplateMetadataPatch ctx" "trace c1 = trace ctx @ evs1"
    "State c1 = State ctx"
    using e1(1) by (simp_all add: calls_def)
  show ?thesis
  proof (cases done1)
    case False
    with m1 e1 have res: "doCanary d ctx = ((False, retryDefault d, None), c1)"
      by (simp add: doCanary_def)
    show ?thesis
      unfolding em1 d1 res
      using False e1(2,3) f1
      by (intro exI [of _ evs1] exI [of _ "[]"]) (simp add: emitted_trace)
  next
    case True
    obtain p h where ap:
      "appendBuiltinPodTemplateMetadataPatch d (PodTemplateMetadataPatch ctx) (heap ctx) = (p, h)"
      by (metis surj_pair)
    let ?c1h = "c1\<lparr>heap := h\<rparr>"
    obtain r c2 where cr:
      "createCanaryResources d p (Targets ctx) False [] ?c1h = (r, c2)"
      by (metis surj_pair)
    from createCanaryResources_trace [OF cr] obtain evs2 where
      e2: "calls ?c1h evs2 c2" "createTrace (patchLabels h p) (Targets ctx) False [] r evs2"
      by auto
    have f2: "Targets c2 = Targets ctx" "Traffic c2 = Traffic ctx" "heap c2 = h"
      "PodTemplateMetadataPatch c2 = PodTemplateMetadataPatch ctx"
      "trace c2 = trace ctx @ evs1 @ evs2" "State c2 = State ctx"
      using e2(1) f1 by (simp_all add: calls_def)
    have k2: "\<forall>e \<in> set evs2. isCreateCall e"
      "\<forall>e \<in> set evs2. isCreateOrUpdateCall e \<longrightarrow> passedLabels e = patchLabels h p"
      using e2(2) unfolding createTrace_def by blast+
    show ?thesis
    proof (cases r)
      case (Inl err)
      with m1 True ap cr f1 have res: "doCanary d ctx = ((False, retryStop d, Some err), c2)"
        by (simp add: doCanary_def)
      from e2(2) Inl have "length (filter succeededCreateOrUpdate evs2) < length (Targets ctx)"
        "\<exists>reason msg. err = CodeReasonMessage ''DoCanaryError'' reason msg"
        unfolding createTrace_def by auto
      then show ?thesis
        unfolding em1 d1 res ap
        using True e1(2,3) f2 k2
        by (intro exI [of _ evs1] exI [of _ evs2] exI [of _ "[]"]) (simp add: emitted_trace)
    next
      case (Inr b)
      obtain changed cws where b: "b = (changed, cws)" by (cases b)
      from e2(2) Inr b have cnt: "length (filter succeededCreateOrUpdate evs2) = length (Targets ctx)"
        "changed = list_ex changedCreateOrUpdate evs2" "length cws = length (Targets ctx)"
        unfolding createTrace_def by auto
      show ?thesis
      proof (cases changed)
        case True
        with m1 \<open>done1\<close> ap cr f1 Inr b
        have res: "doCanary d ctx = ((False, retryDefault d, None), c2)"
          by (simp add: doCanary_def)
        show ?thesis
          unfolding em1 d1 res ap
          using True \<open>done1\<close> e1(2,3) f2 k2 cnt
          by (intro exI [of _ evs1] exI [of _ evs2] exI [of _ "[]"]) (simp add: emitted_trace)
      next
        case False
        obtain rd c3 where wt: "waitCanaryReady d cws c2 = (rd, c3)"
          by (metis surj_pair)
        from waitCanaryReady_trace [OF wt] obtain evs3 where
          e3: "calls c2 evs3 c3" "readyTrace cws rd evs3" by blast
        have f3: "Targets c3 = Targets ctx" "Traffic c3 = Traffic ctx" "heap c3 = h"
          "PodTemplateMetadataPatch c3 = PodTemplateMetadataPatch ctx"
          "trace c3 = trace ctx @ evs1 @ evs2 @ evs3" "State c3 = State ctx"
          using e3(1) f2 by (simp_all add: calls_def)
        have k3: "\<forall>e \<in> set evs3. isReadinessCall e"
          using e3(2) unfolding readyTrace_def by blast
        show ?thesis
        proof (cases rd)
          case nr: False
          with m1 \<open>done1\<close> ap cr f1 Inr b False wt
          have res: "doCanary d ctx = ((False, retryDefault d, None), c3)"
            by (simp add: doCanary_def)
          from e3(2) nr cnt(3) have "length (filter readyPartition evs3) < length (Targets ctx)"
            "list_ex notReadyPartition evs3"
            unfolding readyTrace_def by auto
          then show ?thesis
            unfolding em1 d1 res ap
            using False \<open>done1\<close> e1(2,3) f3 k2 k3 cnt
            by (intro exI [of _ evs1] exI [of _ evs2] exI [of _ evs3] exI [of _ "[]"])
               (simp add: emitted_trace)
        next
          case rdy: True
          obtain done4 r4 c4 where m4: "modifyTraffic d c3 ''forkCanary'' = ((done4, r4), c4)"
            by (metis surj_pair)
          from modifyTraffic_trace [OF _ m4] obtain evs4 where
            e4: "calls c3 evs4 c4" "\<forall>e \<in> set evs4. isTrafficCall ''forkCanary'' e"
              "done4 = trafficDone (Traffic ctx) ''forkCanary'' evs4"
              "r4 = (if done4 then retryImmediately d else retryDefault d)"
            unfolding f3 by auto
          have f4: "heap c4 = h"
            "PodTemplateMetadataPatch c4 = PodTemplateMetadataPatch ctx"
            "trace c4 = trace ctx @ evs1 @ evs2 @ evs3 @ evs4" "State c4 = State ctx"
            using e4(1) f3 by (simp_all add: calls_def)
          from m1 \<open>done1\<close> ap cr f1 Inr b False wt rdy m4 e4(4)
          have res: "doCanary d ctx =
             ((done4, if done4 then retryImmediately d else retryDefault d, None), c4)"
            by (simp add: doCanary_def)
          from e3(2) rdy cnt(3) have "length (filter readyPartition evs3) = length (Targets ctx)"
            "\<not> list_ex notReadyPartition evs3"
            unfolding readyTrace_def by auto
          then show ?thesis
            unfolding em1 d1 res ap
            using False \<open>done1\<close> e1(2,3) e4(2,3) f4 k2 k3 cnt
            by (intro exI [of _ evs1] exI [of _ evs2] exI [of _ evs3] exI [of _ evs4])
               (simp add: emitted_trace)
        qed
      qed
    qed
  qed
qed

lemma traffic_kind: "isTrafficCall op e \<Longrightarrow> \<not> isCreateCall e \<and> \<not> isReadinessCall e"
  by (cases e) simp_all

lemma readiness_kind: "isReadinessCall e \<Longrightarrow> \<not> isTrafficCall op e \<and> \<not> isCreateCall e"
  by (cases e) simp_all

lemma createOrUpdate_is_create: "isCreateOrUpdateCall e \<Longrightarrow> isCreateCall e"
  by (cases e) simp_all

text \<open>\<^verbatim>\<open>doCanary\<close> once the stable traffic fork is complete.\<close>

lemma doCanary_forked:
  assumes p: "appendBuiltinPodTemplateMetadataPatch d (PodTemplateMetadataPatch ctx) (heap ctx)
                = (p, h)"
    and s: "trafficConverged d (Traffic ctx) ''forkStable'' (trafficForkStable d) (world ctx)
                = Some (e1, w1)"
  shows "doCanary d ctx =
     (case createCanaryResources d p (Targets ctx) False []
             (ctx\<lparr>heap := h, world := w1, trace := trace ctx @ e1\<rparr>) of
        (Inl err, c2) \<Rightarrow> ((False, retryStop d, Some err), c2)
      | (Inr (changed, canaryWorkloads), c2) \<Rightarrow>
          if changed then ((False, retryDefault d, None), c2)
          else
            (case waitCanaryReady d canaryWorkloads c2 of
               (False, c3) \<Rightarrow> ((False, retryDefault d, None), c3)
             | (True, c3) \<Rightarrow>
                 (case modifyTraffic d c3 ''forkCanary'' of
                    ((trafficCanaryDone, retry2), c4) \<Rightarrow>
                      if \<not> trafficCanaryDone then ((False, retry2, None), c4)
                      else ((True, retryImmediately d, None), c4))))"
proof -
  have m1: "modifyTraffic d ctx ''forkStable'' =
      ((True, retryImmediately d), ctx\<lparr>world := w1, trace := trace ctx @ e1\<rparr>)"
    by (rule modifyTraffic_converged [OF trafficOps(1) s])
  have ceq: "ctx\<lparr>world := w1, trace := trace ctx @ e1, heap := h\<rparr> =
             ctx\<lparr>heap := h, world := w1, trace := trace ctx @ e1\<rparr>"
    by simp
  show ?thesis
    by (simp add: doCanary_def m1 p) (simp only: ceq)
qed

text \<open>\<^verbatim>\<open>doCanary\<close> once every target is created or updated and nothing changed.\<close>

lemma doCanary_created:
  assumes p: "appendBuiltinPodTemplateMetadataPatch d (PodTemplateMetadataPatch ctx) (heap ctx)
                = (p, h)"
    and s: "trafficConverged d (Traffic ctx) ''forkStable'' (trafficForkStable d) (world ctx)
                = Some (e1, w1)"
    and c: "eachInTurn (createdOrUpdated d p (patchLabels h p)) (Targets ctx) w1 = Some (e2, w2)"
  shows "doCanary d ctx =
     (if list_ex changedCreateOrUpdate e2 then
        ((False, retryDefault d, None),
         ctx\<lparr>heap := h, world := w2, trace := trace ctx @ e1 @ e2\<rparr>)
      else
        (case waitCanaryReady d (createdStrategies e2)
                (ctx\<lparr>heap := h, world := w2, trace := trace ctx @ e1 @ e2\<rparr>) of
           (False, c3) \<Rightarrow> ((False, retryDefault d, None), c3)
         | (True, c3) \<Rightarrow>
             (case modifyTraffic d c3 ''forkCanary'' of
                ((trafficCanaryDone, retry2), c4) \<Rightarrow>
                  if \<not> trafficCanaryDone then ((False, retry2, None), c4)
                  else ((True, retryImmediately d, None), c4))))"
proof -
  let ?c1 = "ctx\<lparr>heap := h, world := w1, trace := trace ctx @ e1\<rparr>"
  have "createCanaryResources d p (Targets ctx @ []) False [] ?c1 =
          createCanaryResources d p [] (False \<or> list_ex changedCreateOrUpdate e2)
            ([] @ createdStrategies e2) (?c1\<lparr>world := w2, trace := trace ?c1 @ e2\<rparr>)"
    by (rule createCanaryResources_through) (simp add: c)
  then have cr: "createCanaryResources d p (Targets ctx) False [] ?c1 =
      (Inr (list_ex changedCreateOrUpdate e2, createdStrategies e2),
       ctx\<lparr>heap := h, world := w2, trace := trace ctx @ e1 @ e2\<rparr>)"
    by simp
  show ?thesis
    unfolding doCanary_forked [OF p s] cr by simp
qed

lemma doCanary_stable_not_converged:
  assumes "trafficConverged d (Traffic ctx) ''forkStable'' (trafficForkStable d) (world ctx)
             = None"
  shows "fst (doCanary d ctx) = (False, retryDefault d, None)"
  unfolding doCanary_def
  by (rule handler_not_converged [OF trafficOps(1) assms])

text \<open>\<^verbatim>\<open>doCanary\<close> once every canary workload is created, unchanged and ready.\<close>

lemma doCanary_ready:
  assumes p: "appendBuiltinPodTemplateMetadataPatch d (PodTemplateMetadataPatch ctx) (heap ctx)
                = (p, h)"
    and s: "trafficConverged d (Traffic ctx) ''forkStable'' (trafficForkStable d) (world ctx)
                = Some (e1, w1)"
    and c: "eachInTurn (createdOrUpdated d p (patchLabels h p)) (Targets ctx) w1 = Some (e2, w2)"
    and nc: "\<not> list_ex changedCreateOrUpdate e2"
    and rd: "eachInTurn (partitionReady d) (createdStrategies e2) w2 = Some (e3, w3)"
  shows "doCanary d ctx =
     (case modifyTraffic d (ctx\<lparr>heap := h, world := w3, trace := trace ctx @ e1 @ e2 @ e3\<rparr>)
             ''forkCanary'' of
        ((trafficCanaryDone, retry2), c4) \<Rightarrow>
          if \<not> trafficCanaryDone then ((False, retry2, None), c4)
          else ((True, retryImmediately d, None), c4))"
proof -
  let ?c2 = "ctx\<lparr>heap := h, world := w2, trace := trace ctx @ e1 @ e2\<rparr>"
  have "waitCanaryReady d (createdStrategies e2 @ []) ?c2 =
          waitCanaryReady d [] (?c2\<lparr>world := w3, trace := trace ?c2 @ e3\<rparr>)"
    by (rule waitCanaryReady_through) (simp add: rd)
  then have wt: "waitCanaryReady d (createdStrategies e2) ?c2 =
      (True, ctx\<lparr>heap := h, world := w3, trace := trace ctx @ e1 @ e2 @ e3\<rparr>)"
    by simp
  show ?thesis
    using doCanary_created [OF p s c] nc wt by simp
qed

text \<open>
  C1 (amended). The phases of \<^verbatim>\<open>doCanary\<close> in terms of what the collaborators answer,
  \<open>p\<close> being the patch that \<^verbatim>\<open>appendBuiltinPodTemplateMetadataPatch\<close> returns and \<open>h\<close>
  the store it leaves. While the fork of stable traffic is not converged, \<^verbatim>\<open>doCanary\<close>
  returns not done, default delay, no error, and every call it made is a call of that
  fork: no workload is touched. Once it is converged the canary resource of every target
  is created or updated in turn, each in the world the one before it left. If some
  target does not go through (workload missing, capability error or \<^verbatim>\<open>CreateOrUpdate\<close>
  error), the result is not done, stop and a structured \<open>DoCanaryError\<close>, whatever the
  targets before it answered, and neither the readiness check nor the canary fork is
  made; for a lookup that returns nil the reason is \<^verbatim>\<open>ReasonWorkloadInterfaceNotExist\<close>
  and the calls end with that lookup. If every target goes through and some
  \<^verbatim>\<open>CreateOrUpdate\<close> answered something other than "unchanged", the result is not done,
  default delay, no error, after exactly the calls of the fork and of the targets:
  neither the readiness check nor the canary fork is made. If all answered "unchanged",
  the partitions of the canary workloads, one per target, are checked in turn: a
  partition that is not ready gives not done, default delay, no error, without the
  canary fork; when all are ready canary traffic is forked, and the result is not done,
  default delay, no error while that fork is not converged, and done, immediate, no
  error when it is, after exactly the calls of the four phases in this order.
\<close>

theorem doCanary_phases:
  "appendBuiltinPodTemplateMetadataPatch d (PodTemplateMetadataPatch ctx) (heap ctx) = (p, h)
   \<longrightarrow>
   (trafficConverged d (Traffic ctx) ''forkStable'' (trafficForkStable d) (world ctx) = None
      \<longrightarrow> fst (doCanary d ctx) = (False, retryDefault d, None) \<and>
          (\<forall>x \<in> set (emitted ctx (snd (doCanary d ctx))). isTrafficCall ''forkStable'' x)) \<and>
   (trafficConverged d (Traffic ctx) ''forkStable'' (trafficForkStable d) (world ctx)
      = Some (e1, w1) \<longrightarrow>
      (eachInTurn (createdOrUpdated d p (patchLabels h p)) (Targets ctx) w1 = None \<longrightarrow>
         (\<exists>reason msg. fst (doCanary d ctx) =
            (False, retryStop d, Some (CodeReasonMessage ''DoCanaryError'' reason msg))) \<and>
         (\<exists>evs2. emitted ctx (snd (doCanary d ctx)) = e1 @ evs2 \<and>
            (\<forall>x \<in> set evs2. isCreateCall x))) \<and>
      (Targets ctx = pre @ item # post \<and>
       eachInTurn (createdOrUpdated d p (patchLabels h p)) pre w1 = Some (e2, w2) \<and>
       workloadsGet d (Cluster item) (Name item) w2 = (None, w3) \<longrightarrow>
         doCanary d ctx =
           ((False, retryStop d,
             Some (CodeReasonMessage ''DoCanaryError'' (ReasonWorkloadInterfaceNotExist d)
                     (''the workload ('' @ formatRef d (Cluster item) (Name item)
                        @ '') does not exists''))),
            ctx\<lparr>heap := h, world := w3,
                trace := trace ctx @ e1 @ e2 @ [CallGet (Cluster item) (Name item) None]\<rparr>)) \<and>
      (eachInTurn (createdOrUpdated d p (patchLabels h p)) (Targets ctx) w1 = Some (e2', w2')
         \<longrightarrow>
         length (createdStrategies e2') = length (Targets ctx) \<and>
         map lookupKey (filter isGetCall e2') = map (\<lambda>t. (Cluster t, Name t)) (Targets ctx) \<and>
         (list_ex changedCreateOrUpdate e2' \<longrightarrow>
            doCanary d ctx =
              ((False, retryDefault d, None),
               ctx\<lparr>heap := h, world := w2', trace := trace ctx @ e1 @ e2'\<rparr>)) \<and>
         (\<not> list_ex changedCreateOrUpdate e2' \<longrightarrow>
            (eachInTurn (partitionReady d) (createdStrategies e2') w2' = None \<longrightarrow>
               fst (doCanary d ctx) = (False, retryDefault d, None) \<and>
               (\<exists>evs3. emitted ctx (snd (doCanary d ctx)) = e1 @ e2' @ evs3 \<and>
                  (\<forall>x \<in> set evs3. isReadinessCall x))) \<and>
            (eachInTurn (partitionReady d) (createdStrategies e2') w2' = Some (e3, w3') \<longrightarrow>
               (trafficConverged d (Traffic ctx) ''forkCanary'' (trafficForkCanary d) w3' = None
                  \<longrightarrow> fst (doCanary d ctx) = (False, retryDefault d, None) \<and>
                      (\<exists>evs4. emitted ctx (snd (doCanary d ctx)) = e1 @ e2' @ e3 @ evs4 \<and>
                         (\<forall>x \<in> set evs4. isTrafficCall ''forkCanary'' x))) \<and>
               (trafficConverged d (Traffic ctx) ''forkCanary'' (trafficForkCanary d) w3'
                  = Some (e4, w4) \<longrightarrow>
                  doCanary d ctx =
                    ((True, retryImmediately d, None),
                     ctx\<lparr>heap := h, world := w4,
                         trace := trace ctx @ e1 @ e2' @ e3 @ e4\<rparr>))))))"
proof
  assume p: "appendBuiltinPodTemplateMetadataPatch d (PodTemplateMetadataPatch ctx) (heap ctx)
               = (p, h)"
  let ?fs = "trafficConverged d (Traffic ctx) ''forkStable'' (trafficForkStable d) (world ctx)"
  let ?step = "createdOrUpdated d p (patchLabels h p)"
  have A: "?fs = None
      \<longrightarrow> fst (doCanary d ctx) = (False, retryDefault d, None) \<and>
          (\<forall>x \<in> set (emitted ctx (snd (doCanary d ctx))). isTrafficCall ''forkStable'' x)"
  proof
    assume n: "?fs = None"
    obtain dn rt c1 where m: "modifyTraffic d ctx ''forkStable'' = ((dn, rt), c1)"
      by (metis surj_pair)
    from modifyTraffic_not_converged [OF trafficOps(1) n] m
    have r: "dn = False" "rt = retryDefault d" by simp_all
    from modifyTraffic_trace [OF _ m] obtain evs1 where
      "calls ctx evs1 c1" "\<forall>e \<in> set evs1. isTrafficCall ''forkStable'' e" by auto
    with m r calls_emitted [of ctx evs1 c1] show
      "fst (doCanary d ctx) = (False, retryDefault d, None) \<and>
          (\<forall>x \<in> set (emitted ctx (snd (doCanary d ctx))). isTrafficCall ''forkStable'' x)"
      by (simp add: doCanary_def)
  qed
  have B1: "?fs = Some (e1, w1) \<longrightarrow> eachInTurn ?step (Targets ctx) w1 = None \<longrightarrow>
         (\<exists>reason msg. fst (doCanary d ctx) =
            (False, retryStop d, Some (CodeReasonMessage ''DoCanaryError'' reason msg))) \<and>
         (\<exists>evs2. emitted ctx (snd (doCanary d ctx)) = e1 @ evs2 \<and>
            (\<forall>x \<in> set evs2. isCreateCall x))"
  proof (intro impI)
    assume s: "?fs = Some (e1, w1)" and n: "eachInTurn ?step (Targets ctx) w1 = None"
    let ?c1 = "ctx\<lparr>heap := h, world := w1, trace := trace ctx @ e1\<rparr>"
    have "\<exists>err c'. createCanaryResources d p (Targets ctx) False [] ?c1 = (Inl err, c')"
      by (rule createCanaryResources_fails) (simp add: n)
    then obtain err c2 where
      cr: "createCanaryResources d p (Targets ctx) False [] ?c1 = (Inl err, c2)"
      by blast
    from createCanaryResources_trace [OF cr] obtain evs2 where
      e2: "calls ?c1 evs2 c2"
        "createTrace (patchLabels (heap ?c1) p) (Targets ctx) False [] (Inl err) evs2"
      by blast
    from e2(2) obtain reason msg where
      err: "err = CodeReasonMessage ''DoCanaryError'' reason msg"
      and k2: "\<forall>x \<in> set evs2. isCreateCall x"
      unfolding createTrace_def by auto
    have res: "doCanary d ctx = ((False, retryStop d, Some err), c2)"
      unfolding doCanary_forked [OF p s] cr by simp
    have "trace c2 = trace ctx @ e1 @ evs2"
      using e2(1) by (simp add: calls_def)
    then have "emitted ctx (snd (doCanary d ctx)) = e1 @ evs2"
      using res by (simp add: emitted_trace)
    with res err k2 show
      "(\<exists>reason msg. fst (doCanary d ctx) =
            (False, retryStop d, Some (CodeReasonMessage ''DoCanaryError'' reason msg))) \<and>
         (\<exists>evs2. emitted ctx (snd (doCanary d ctx)) = e1 @ evs2 \<and>
            (\<forall>x \<in> set evs2. isCreateCall x))"
      by simp
  qed
  have B2: "?fs = Some (e1, w1) \<longrightarrow>
       Targets ctx = pre @ item # post \<and> eachInTurn ?step pre w1 = Some (e2, w2) \<and>
       workloadsGet d (Cluster item) (Name item) w2 = (None, w3) \<longrightarrow>
         doCanary d ctx =
           ((False, retryStop d,
             Some (CodeReasonMessage ''DoCanaryError'' (ReasonWorkloadInterfaceNotExist d)
                     (''the workload ('' @ formatRef d (Cluster item) (Name item)
                        @ '') does not exists''))),
            ctx\<lparr>heap := h, world := w3,
                trace := trace ctx @ e1 @ e2 @ [CallGet (Cluster item) (Name item) None]\<rparr>)"
  proof (intro impI, elim conjE)
    assume s: "?fs = Some (e1, w1)" and ts: "Targets ctx = pre @ item # post"
      and pre: "eachInTurn ?step pre w1 = Some (e2, w2)"
      and g: "workloadsGet d (Cluster item) (Name item) w2 = (None, w3)"
    let ?c1 = "ctx\<lparr>heap := h, world := w1, trace := trace ctx @ e1\<rparr>"
    let ?c2 = "?c1\<lparr>world := w2, trace := trace ?c1 @ e2\<rparr>"
    have thr: "createCanaryResources d p (Targets ctx) False [] ?c1 =
        createCanaryResources d p (item # post) (False \<or> list_ex changedCreateOrUpdate e2)
          ([] @ createdStrategies e2) ?c2"
      unfolding ts by (rule createCanaryResources_through) (simp add: pre)
    have "createCanaryResources d p (item # post) (False \<or> list_ex changedCreateOrUpdate e2)
          ([] @ createdStrategies e2) ?c2 =
        (Inl (CodeReasonMessage ''DoCanaryError'' (ReasonWorkloadInterfaceNotExist d)
                    (''the workload ('' @ formatRef d (Cluster item) (Name item)
                       @ '') does not exists'')),
         ?c2\<lparr>world := w3, trace := trace ?c2 @ [CallGet (Cluster item) (Name item) None]\<rparr>)"
      by (rule createCanaryResources_missing) (simp add: g)
    with thr have cr: "createCanaryResources d p (Targets ctx) False [] ?c1 =
        (Inl (CodeReasonMessage ''DoCanaryError'' (ReasonWorkloadInterfaceNotExist d)
                    (''the workload ('' @ formatRef d (Cluster item) (Name item)
                       @ '') does not exists'')),
         ctx\<lparr>heap := h, world := w3,
             trace := trace ctx @ e1 @ e2 @ [CallGet (Cluster item) (Name item) None]\<rparr>)"
      by simp
    show "doCanary d ctx =
           ((False, retryStop d,
             Some (CodeReasonMessage ''DoCanaryError'' (ReasonWorkloadInterfaceNotExist d)
                     (''the workload ('' @ formatRef d (Cluster item) (Name item)
                        @ '') does not exists''))),
            ctx\<lparr>heap := h, world := w3,
                trace := trace ctx @ e1 @ e2 @ [CallGet (Cluster item) (Name item) None]\<rparr>)"
      unfolding doCanary_forked [OF p s] cr by simp
  qed
  have B3: "?fs = Some (e1, w1) \<longrightarrow> eachInTurn ?step (Targets ctx) w1 = Some (e2', w2')
         \<longrightarrow>
         length (createdStrategies e2') = length (Targets ctx) \<and>
         map lookupKey (filter isGetCall e2') = map (\<lambda>t. (Cluster t, Name t)) (Targets ctx) \<and>
         (list_ex changedCreateOrUpdate e2' \<longrightarrow>
            doCanary d ctx =
              ((False, retryDefault d, None),
               ctx\<lparr>heap := h, world := w2', trace := trace ctx @ e1 @ e2'\<rparr>)) \<and>
         (\<not> list_ex changedCreateOrUpdate e2' \<longrightarrow>
            (eachInTurn (partitionReady d) (createdStrategies e2') w2' = None \<longrightarrow>
               fst (doCanary d ctx) = (False, retryDefault d, None) \<and>
               (\<exists>evs3. emitted ctx (snd (doCanary d ctx)) = e1 @ e2' @ evs3 \<and>
                  (\<forall>x \<in> set evs3. isReadinessCall x))) \<and>
            (eachInTurn (partitionReady d) (createdStrategies e2') w2' = Some (e3, w3') \<longrightarrow>
               (trafficConverged d (Traffic ctx) ''forkCanary'' (trafficForkCanary d) w3' = None
                  \<longrightarrow> fst (doCanary d ctx) = (False, retryDefault d, None) \<and>
                      (\<exists>evs4. emitted ctx (snd (doCanary d ctx)) = e1 @ e2' @ e3 @ evs4 \<and>
                         (\<forall>x \<in> set evs4. isTrafficCall ''forkCanary'' x))) \<and>
               (trafficConverged d (Traffic ctx) ''forkCanary'' (trafficForkCanary d) w3'
                  = Some (e4, w4) \<longrightarrow>
                  doCanary d ctx =
                    ((True, retryImmediately d, None),
                     ctx\<lparr>heap := h, world := w4,
                         trace := trace ctx @ e1 @ e2' @ e3 @ e4\<rparr>))))"
  proof (intro impI)
    assume s: "?fs = Some (e1, w1)"
      and c: "eachInTurn ?step (Targets ctx) w1 = Some (e2', w2')"
    let ?c2 = "ctx\<lparr>heap := h, world := w2', trace := trace ctx @ e1 @ e2'\<rparr>"
    note run = doCanary_created [OF p s c]
    note cnt = createdOrUpdated_calls [OF c]
    have D1: "list_ex changedCreateOrUpdate e2' \<longrightarrow>
            doCanary d ctx = ((False, retryDefault d, None), ?c2)"
      using run by simp
    have D2: "\<not> list_ex changedCreateOrUpdate e2' \<longrightarrow>
            eachInTurn (partitionReady d) (createdStrategies e2') w2' = None \<longrightarrow>
               fst (doCanary d ctx) = (False, retryDefault d, None) \<and>
               (\<exists>evs3. emitted ctx (snd (doCanary d ctx)) = e1 @ e2' @ evs3 \<and>
                  (\<forall>x \<in> set evs3. isReadinessCall x))"
    proof (intro impI)
      assume nc: "\<not> list_ex changedCreateOrUpdate e2'"
        and n: "eachInTurn (partitionReady d) (createdStrategies e2') w2' = None"
      obtain r c3 where wt: "waitCanaryReady d (createdStrategies e2') ?c2 = (r, c3)"
        by (metis surj_pair)
      have "fst (waitCanaryReady d (createdStrategies e2') ?c2) = False"
        by (rule waitCanaryReady_fails) (simp add: n)
      with wt have r: "r = False" by simp
      from waitCanaryReady_trace [OF wt] obtain evs3 where
        e3: "calls ?c2 evs3 c3" "readyTrace (createdStrategies e2') r evs3" by blast
      have k3: "\<forall>x \<in> set evs3. isReadinessCall x"
        using e3(2) unfolding readyTrace_def by blast
      have res: "doCanary d ctx = ((False, retryDefault d, None), c3)"
        using run nc wt r by simp
      have "trace c3 = trace ctx @ e1 @ e2' @ evs3"
        using e3(1) by (simp add: calls_def)
      then have "emitted ctx (snd (doCanary d ctx)) = e1 @ e2' @ evs3"
        using res by (simp add: emitted_trace)
      with res k3 show "fst (doCanary d ctx) = (False, retryDefault d, None) \<and>
               (\<exists>evs3. emitted ctx (snd (doCanary d ctx)) = e1 @ e2' @ evs3 \<and>
                  (\<forall>x \<in> set evs3. isReadinessCall x))"
        by simp
    qed
    have D3: "\<not> list_ex changedCreateOrUpdate e2' \<longrightarrow>
            eachInTurn (partitionReady d) (createdStrategies e2') w2' = Some (e3, w3') \<longrightarrow>
               (trafficConverged d (Traffic ctx) ''forkCanary'' (trafficForkCanary d) w3' = None
                  \<longrightarrow> fst (doCanary d ctx) = (False, retryDefault d, None) \<and>
                      (\<exists>evs4. emitted ctx (snd (doCanary d ctx)) = e1 @ e2' @ e3 @ evs4 \<and>
                         (\<forall>x \<in> set evs4. isTrafficCall ''forkCanary'' x))) \<and>
               (trafficConverged d (Traffic ctx) ''forkCanary'' (trafficForkCanary d) w3'
                  = Some (e4, w4) \<longrightarrow>
                  doCanary d ctx =
                    ((True, retryImmediately d, None),
                     ctx\<lparr>heap := h, world := w4,
                         trace := trace ctx @ e1 @ e2' @ e3 @ e4\<rparr>))"
    proof (intro impI)
      assume nc: "\<not> list_ex changedCreateOrUpdate e2'"
        and rd: "eachInTurn (partitionReady d) (createdStrategies e2') w2' = Some (e3, w3')"
      let ?c3 = "ctx\<lparr>heap := h, world := w3', trace := trace ctx @ e1 @ e2' @ e3\<rparr>"
      have "waitCanaryReady d (createdStrategies e2' @ []) ?c2 =
              waitCanaryReady d [] (?c2\<lparr>world := w3', trace := trace ?c2 @ e3\<rparr>)"
        by (rule waitCanaryReady_through) (simp add: rd)
      then have wt: "waitCanaryReady d (createdStrategies e2') ?c2 = (True, ?c3)"
        by simp
      have run3: "doCanary d ctx =
             (case modifyTraffic d ?c3 ''forkCanary'' of
                ((trafficCanaryDone, retry2), c4) \<Rightarrow>
                  if \<not> trafficCanaryDone then ((False, retry2, None), c4)
                  else ((True, retryImmediately d, None), c4))"
        using run nc wt by simp
      have E1: "trafficConverged d (Traffic ctx) ''forkCanary'' (trafficForkCanary d) w3' = None
                  \<longrightarrow> fst (doCanary d ctx) = (False, retryDefault d, None) \<and>
                      (\<exists>evs4. emitted ctx (snd (doCanary d ctx)) = e1 @ e2' @ e3 @ evs4 \<and>
                         (\<forall>x \<in> set evs4. isTrafficCall ''forkCanary'' x))"
      proof
        assume n: "trafficConverged d (Traffic ctx) ''forkCanary'' (trafficForkCanary d) w3'
                     = None"
        obtain dn rt c4 where m: "modifyTraffic d ?c3 ''forkCanary'' = ((dn, rt), c4)"
          by (metis surj_pair)
        have "fst (modifyTraffic d ?c3 ''forkCanary'') = (False, retryDefault d)"
          by (rule modifyTraffic_not_converged [OF trafficOps(2)]) (simp add: n)
        with m have r: "dn = False" "rt = retryDefault d" by simp_all
        from modifyTraffic_trace [OF _ m] obtain evs4 where
          e4: "calls ?c3 evs4 c4" "\<forall>e \<in> set evs4. isTrafficCall ''forkCanary'' e" by auto
        have "trace c4 = trace ctx @ e1 @ e2' @ e3 @ evs4"
          using e4(1) by (simp add: calls_def)
        with run3 m r e4(2) show
          "fst (doCanary d ctx) = (False, retryDefault d, None) \<and>
                      (\<exists>evs4. emitted ctx (snd (doCanary d ctx)) = e1 @ e2' @ e3 @ evs4 \<and>
                         (\<forall>x \<in> set evs4. isTrafficCall ''forkCanary'' x))"
          by (simp add: emitted_trace)
      qed
      have E2: "trafficConverged d (Traffic ctx) ''forkCanary'' (trafficForkCanary d) w3'
                  = Some (e4, w4) \<longrightarrow>
                  doCanary d ctx =
                    ((True, retryImmediately d, None),
                     ctx\<lparr>heap := h, world := w4,
                         trace := trace ctx @ e1 @ e2' @ e3 @ e4\<rparr>)"
      proof
        assume s4: "trafficConverged d (Traffic ctx) ''forkCanary'' (trafficForkCanary d) w3'
                  = Some (e4, w4)"
        have "modifyTraffic d ?c3 ''forkCanary'' =
                ((True, retryImmediately d), ?c3\<lparr>world := w4, trace := trace ?c3 @ e4\<rparr>)"
          by (rule modifyTraffic_converged [OF trafficOps(2)]) (simp add: s4)
        with run3 show "doCanary d ctx =
                    ((True, retryImmediately d, None),
                     ctx\<lparr>heap := h, world := w4,
                         trace := trace ctx @ e1 @ e2' @ e3 @ e4\<rparr>)"
          by simp
      qed
      show "(trafficConverged d (Traffic ctx) ''forkCanary'' (trafficForkCanary d) w3' = None
                  \<longrightarrow> fst (doCanary d ctx) = (False, retryDefault d, None) \<and>
                      (\<exists>evs4. emitted ctx (snd (doCanary d ctx)) = e1 @ e2' @ e3 @ evs4 \<and>
                         (\<forall>x \<in> set evs4. isTrafficCall ''forkCanary'' x))) \<and>
               (trafficConverged d (Traffic ctx) ''forkCanary'' (trafficForkCanary d) w3'
                  = Some (e4, w4) \<longrightarrow>
                  doCanary d ctx =
                    ((True, retryImmediately d, None),
                     ctx\<lparr>heap := h, world := w4,
                         trace := trace ctx @ e1 @ e2' @ e3 @ e4\<rparr>))"
        using E1 E2 by (rule conjI)
    qed
    show "length (createdStrategies e2') = length (Targets ctx) \<and>
         map lookupKey (filter isGetCall e2') = map (\<lambda>t. (Cluster t, Name t)) (Targets ctx) \<and>
         (list_ex changedCreateOrUpdate e2' \<longrightarrow>
            doCanary d ctx =
              ((False, retryDefault d, None),
               ctx\<lparr>heap := h, world := w2', trace := trace ctx @ e1 @ e2'\<rparr>)) \<and>
         (\<not> list_ex changedCreateOrUpdate e2' \<longrightarrow>
            (eachInTurn (partitionReady d) (createdStrategies e2') w2' = None \<longrightarrow>
               fst (doCanary d ctx) = (False, retryDefault d, None) \<and>
               (\<exists>evs3. emitted ctx (snd (doCanary d ctx)) = e1 @ e2' @ evs3 \<and>
                  (\<forall>x \<in> set evs3. isReadinessCall x))) \<and>
            (eachInTurn (partitionReady d) (createdStrategies e2') w2' = Some (e3, w3') \<longrightarrow>
               (trafficConverged d (Traffic ctx) ''forkCanary'' (trafficForkCanary d) w3' = None
                  \<longrightarrow> fst (doCanary d ctx) = (False, retryDefault d, None) \<and>
                      (\<exists>evs4. emitted ctx (snd (doCanary d ctx)) = e1 @ e2' @ e3 @ evs4 \<and>
                         (\<forall>x \<in> set evs4. isTrafficCall ''forkCanary'' x))) \<and>
               (trafficConverged d (Traffic ctx) ''forkCanary'' (trafficForkCanary d) w3'
                  = Some (e4, w4) \<longrightarrow>
                  doCanary d ctx =
                    ((True, retryImmediately d, None),
                     ctx\<lparr>heap := h, world := w4,
                         trace := trace ctx @ e1 @ e2' @ e3 @ e4\<rparr>))))"
      using cnt D1 D2 D3 by blast
  qed
  show "(trafficConverged d (Traffic ctx) ''forkStable'' (trafficForkStable d) (world ctx) = None
      \<longrightarrow> fst (doCanary d ctx) = (False, retryDefault d, None) \<and>
          (\<forall>x \<in> set (emitted ctx (snd (doCanary d ctx))). isTrafficCall ''forkStable'' x)) \<and>
   (trafficConverged d (Traffic ctx) ''forkStable'' (trafficForkStable d) (world ctx)
      = Some (e1, w1) \<longrightarrow>
      (eachInTurn (createdOrUpdated d p (patchLabels h p)) (Targets ctx) w1 = None \<longrightarrow>
         (\<exists>reason msg. fst (doCanary d ctx) =
            (False, retryStop d, Some (CodeReasonMessage ''DoCanaryError'' reason msg))) \<and>
         (\<exists>evs2. emitted ctx (snd (doCanary d ctx)) = e1 @ evs2 \<and>
            (\<forall>x \<in> set evs2. isCreateCall x))) \<and>
      (Targets ctx = pre @ item # post \<and>
       eachInTurn (createdOrUpdated d p (patchLabels h p)) pre w1 = Some (e2, w2) \<and>
       workloadsGet d (Cluster item) (Name item) w2 = (None, w3) \<longrightarrow>
         doCanary d ctx =
           ((False, retryStop d,
             Some (CodeReasonMessage ''DoCanaryError'' (ReasonWorkloadInterfaceNotExist d)
                     (''the workload ('' @ formatRef d (Cluster item) (Name item)
                        @ '') does not exists''))),
            ctx\<lparr>heap := h, world := w3,
                trace := trace ctx @ e1 @ e2 @ [CallGet (Cluster item) (Name item) None]\<rparr>)) \<and>
      (eachInTurn (createdOrUpdated d p (patchLabels h p)) (Targets ctx) w1 = Some (e2', w2')
         \<longrightarrow>
         length (createdStrategies e2') = length (Targets ctx) \<and>
         map lookupKey (filter isGetCall e2') = map (\<lambda>t. (Cluster t, Name t)) (Targets ctx) \<and>
         (list_ex changedCreateOrUpdate e2' \<longrightarrow>
            doCanary d ctx =
              ((False, retryDefault d, None),
               ctx\<lparr>heap := h, world := w2', trace := trace ctx @ e1 @ e2'\<rparr>)) \<and>
         (\<not> list_ex changedCreateOrUpdate e2' \<longrightarrow>
            (eachInTurn (partitionReady d) (createdStrategies e2') w2' = None \<longrightarrow>
               fst (doCanary d ctx) = (False, retryDefault d, None) \<and>
               (\<exists>evs3. emitted ctx (snd (doCanary d ctx)) = e1 @ e2' @ evs3 \<and>
                  (\<forall>x \<in> set evs3. isReadinessCall x))) \<and>
            (eachInTurn (partitionReady d) (createdStrategies e2') w2' = Some (e3, w3') \<longrightarrow>
               (trafficConverged d (Traffic ctx) ''forkCanary'' (trafficForkCanary d) w3' = None
                  \<longrightarrow> fst (doCanary d ctx) = (False, retryDefault d, None) \<and>
                      (\<exists>evs4. emitted ctx (snd (doCanary d ctx)) = e1 @ e2' @ e3 @ evs4 \<and>
                         (\<forall>x \<in> set evs4. isTrafficCall ''forkCanary'' x))) \<and>
               (trafficConverged d (Traffic ctx) ''forkCanary'' (trafficForkCanary d) w3'
                  = Some (e4, w4) \<longrightarrow>
                  doCanary d ctx =
                    ((True, retryImmediately d, None),
                     ctx\<lparr>heap := h, world := w4,
                         trace := trace ctx @ e1 @ e2' @ e3 @ e4\<rparr>))))))"
    using A B1 B2 B3 by blast
qed

theorem doCanary_phases_witness:
  "trafficConverged failingForkEnv (Traffic sampleContext) ''forkStable''
     (trafficForkStable failingForkEnv) (world sampleContext) = None \<and>
   fst (doCanary failingForkEnv sampleContext) = (False, retryDefault failingForkEnv, None) \<and>
   trafficConverged sampleEnv (Traffic sampleContext) ''forkStable''
     (trafficForkStable sampleEnv) (world sampleContext) =
     Some ([CallTraffic ''forkStable'' ''unchanged'' None, CallCheckReady ''forkStable'' True], []) \<and>
   Targets missingContext = [\<lparr>Cluster = ''c1'', Name = ''a'', Replicas = FromInt 1\<rparr>] @ \<lparr>Cluster = ''c2'', Name = ''missing'', Replicas = FromInt 1\<rparr> # [] \<and>
   eachInTurn (createdOrUpdated sampleEnv
        (fst (appendBuiltinPodTemplateMetadataPatch sampleEnv None emptyHeap))
        (patchLabels (snd (appendBuiltinPodTemplateMetadataPatch sampleEnv None emptyHeap)) (fst (appendBuiltinPodTemplateMetadataPatch sampleEnv None emptyHeap))))
     [\<lparr>Cluster = ''c1'', Name = ''a'', Replicas = FromInt 1\<rparr>] [] =
     Some ([CallGet ''c1'' ''a'' (Some 1), CallCanaryStrategy 1 1 None,
            CallCreateOrUpdate 1 (FromInt 1)
              (fst (appendBuiltinPodTemplateMetadataPatch sampleEnv None emptyHeap))
              (patchLabels (snd (appendBuiltinPodTemplateMetadataPatch sampleEnv None emptyHeap))
                 (fst (appendBuiltinPodTemplateMetadataPatch sampleEnv None emptyHeap)))
              ''created'' None], [1]) \<and>
   workloadsGet sampleEnv ''c2'' ''missing'' [1] = (None, [1]) \<and>
   doCanary sampleEnv missingContext =
     ((False, retryStop sampleEnv,
       Some (CodeReasonMessage ''DoCanaryError'' (ReasonWorkloadInterfaceNotExist sampleEnv)
               (''the workload ('' @ formatRef sampleEnv ''c2'' ''missing''
                  @ '') does not exists''))),
      missingContext
        \<lparr>heap := snd (appendBuiltinPodTemplateMetadataPatch sampleEnv None emptyHeap),
         world := [1],
         trace := trace missingContext @ [CallTraffic ''forkStable'' ''unchanged'' None, CallCheckReady ''forkStable'' True] @
           [CallGet ''c1'' ''a'' (Some 1), CallCanaryStrategy 1 1 None,
            CallCreateOrUpdate 1 (FromInt 1)
              (fst (appendBuiltinPodTemplateMetadataPatch sampleEnv None emptyHeap))
              (patchLabels (snd (appendBuiltinPodTemplateMetadataPatch sampleEnv None emptyHeap))
                 (fst (appendBuiltinPodTemplateMetadataPatch sampleEnv None emptyHeap)))
              ''created'' None] @
           [CallGet ''c2'' ''missing'' None]\<rparr>) \<and>
   eachInTurn (createdOrUpdated sampleEnv
        (fst (appendBuiltinPodTemplateMetadataPatch sampleEnv None emptyHeap))
        (patchLabels (snd (appendBuiltinPodTemplateMetadataPatch sampleEnv None emptyHeap)) (fst (appendBuiltinPodTemplateMetadataPatch sampleEnv None emptyHeap))))
     (Targets sampleContext) [] =
     Some ([CallGet ''c1'' ''a'' (Some 1), CallCanaryStrategy 1 1 None,
            CallCreateOrUpdate 1 (FromInt 1)
              (fst (appendBuiltinPodTemplateMetadataPatch sampleEnv None emptyHeap))
              (patchLabels (snd (appendBuiltinPodTemplateMetadataPatch sampleEnv None emptyHeap))
                 (fst (appendBuiltinPodTemplateMetadataPatch sampleEnv None emptyHeap)))
              ''created'' None,
            CallGet ''c2'' ''bb'' (Some 2), CallCanaryStrategy 2 2 None,
            CallCreateOrUpdate 2 (FromInt 1)
              (fst (appendBuiltinPodTemplateMetadataPatch sampleEnv None emptyHeap))
              (patchLabels (snd (appendBuiltinPodTemplateMetadataPatch sampleEnv None emptyHeap))
                 (fst (appendBuiltinPodTemplateMetadataPatch sampleEnv None emptyHeap)))
              ''created'' None], [2, 1]) \<and>
   doCanary sampleEnv sampleContext =
     ((False, retryDefault sampleEnv, None),
      sampleContext
        \<lparr>heap := snd (appendBuiltinPodTemplateMetadataPatch sampleEnv None emptyHeap),
         world := [2, 1],
         trace := trace sampleContext @ [CallTraffic ''forkStable'' ''unchanged'' None, CallCheckReady ''forkStable'' True] @
           [CallGet ''c1'' ''a'' (Some 1), CallCanaryStrategy 1 1 None,
            CallCreateOrUpdate 1 (FromInt 1)
              (fst (appendBuiltinPodTemplateMetadataPatch sampleEnv None emptyHeap))
              (patchLabels (snd (appendBuiltinPodTemplateMetadataPatch sampleEnv None emptyHeap))
                 (fst (appendBuiltinPodTemplateMetadataPatch sampleEnv None emptyHeap)))
              ''created'' None,
            CallGet ''c2'' ''bb'' (Some 2), CallCanaryStrategy 2 2 None,
            CallCreateOrUpdate 2 (FromInt 1)
              (fst (appendBuiltinPodTemplateMetadataPatch sampleEnv None emptyHeap))
              (patchLabels (snd (appendBuiltinPodTemplateMetadataPatch sampleEnv None emptyHeap))
                 (fst (appendBuiltinPodTemplateMetadataPatch sampleEnv None emptyHeap)))
              ''created'' None]\<rparr>) \<and>
   eachInTurn (createdOrUpdated sampleEnv
        (fst (appendBuiltinPodTemplateMetadataPatch sampleEnv None emptyHeap))
        (patchLabels (snd (appendBuiltinPodTemplateMetadataPatch sampleEnv None emptyHeap)) (fst (appendBuiltinPodTemplateMetadataPatch sampleEnv None emptyHeap))))
     (Targets existingContext) [1, 2] =
     Some ([CallGet ''c1'' ''a'' (Some 1), CallCanaryStrategy 1 1 None,
            CallCreateOrUpdate 1 (FromInt 1)
              (fst (appendBuiltinPodTemplateMetadataPatch sampleEnv None emptyHeap))
              (patchLabels (snd (appendBuiltinPodTemplateMetadataPatch sampleEnv None emptyHeap))
                 (fst (appendBuiltinPodTemplateMetadataPatch sampleEnv None emptyHeap)))
              ''unchanged'' None,
            CallGet ''c2'' ''bb'' (Some 2), CallCanaryStrategy 2 2 None,
            CallCreateOrUpdate 2 (FromInt 1)
              (fst (appendBuiltinPodTemplateMetadataPatch sampleEnv None emptyHeap))
              (patchLabels (snd (appendBuiltinPodTemplateMetadataPatch sampleEnv None emptyHeap))
                 (fst (appendBuiltinPodTemplateMetadataPatch sampleEnv None emptyHeap)))
              ''unchanged'' None], [2, 1, 1, 2]) \<and>
   eachInTurn (partitionReady notReadyEnv) [1, 2] [2, 1, 1, 2] = None \<and>
   fst (doCanary notReadyEnv existingContext) = (False, retryDefault notReadyEnv, None) \<and>
   eachInTurn (partitionReady sampleEnv) [1, 2] [2, 1, 1, 2] =
     Some ([CallGetCanaryInfo 1
              \<lparr>InfoClusterName = ''c'', InfoName = ''n'', StatusReplicas = 1,
                StatusUpdatedAvailableReplicas = 1\<rparr>,
            CallCheckPartitionReady
              \<lparr>InfoClusterName = ''c'', InfoName = ''n'', StatusReplicas = 1,
                StatusUpdatedAvailableReplicas = 1\<rparr> 1 True,
            CallGetCanaryInfo 2
              \<lparr>InfoClusterName = ''c'', InfoName = ''n'', StatusReplicas = 1,
                StatusUpdatedAvailableReplicas = 1\<rparr>,
            CallCheckPartitionReady
              \<lparr>InfoClusterName = ''c'', InfoName = ''n'', StatusReplicas = 1,
                StatusUpdatedAvailableReplicas = 1\<rparr> 1 True], [2, 1, 1, 2]) \<and>
   trafficConverged convergingForkCanaryEnv (Traffic existingContext) ''forkCanary''
     (trafficForkCanary convergingForkCanaryEnv) [2, 1, 1, 2] = None \<and>
   fst (doCanary convergingForkCanaryEnv existingContext) =
     (False, retryDefault convergingForkCanaryEnv, None) \<and>
   trafficConverged sampleEnv (Traffic existingContext) ''forkCanary''
     (trafficForkCanary sampleEnv) [2, 1, 1, 2] =
     Some ([CallTraffic ''forkCanary'' ''unchanged'' None, CallCheckReady ''forkCanary'' True], [2, 1, 1, 2]) \<and>
   doCanary sampleEnv existingContext =
     ((True, retryImmediately sampleEnv, None),
      existingContext
        \<lparr>heap := snd (appendBuiltinPodTemplateMetadataPatch sampleEnv None emptyHeap),
         world := [2, 1, 1, 2],
         trace := trace existingContext @ [CallTraffic ''forkStable'' ''unchanged'' None, CallCheckReady ''forkStable'' True] @
           [CallGet ''c1'' ''a'' (Some 1), CallCanaryStrategy 1 1 None,
            CallCreateOrUpdate 1 (FromInt 1)
              (fst (appendBuiltinPodTemplateMetadataPatch sampleEnv None emptyHeap))
              (patchLabels (snd (appendBuiltinPodTemplateMetadataPatch sampleEnv None emptyHeap))
                 (fst (appendBuiltinPodTemplateMetadataPatch sampleEnv None emptyHeap)))
              ''unchanged'' None,
            CallGet ''c2'' ''bb'' (Some 2), CallCanaryStrategy 2 2 None,
            CallCreateOrUpdate 2 (FromInt 1)
              (fst (appendBuiltinPodTemplateMetadataPatch sampleEnv None emptyHeap))
              (patchLabels (snd (appendBuiltinPodTemplateMetadataPatch sampleEnv None emptyHeap))
                 (fst (appendBuiltinPodTemplateMetadataPatch sampleEnv None emptyHeap)))
              ''unchanged'' None] @
           [CallGetCanaryInfo 1
              \<lparr>InfoClusterName = ''c'', InfoName = ''n'', StatusReplicas = 1,
                StatusUpdatedAvailableReplicas = 1\<rparr>,
            CallCheckPartitionReady
              \<lparr>InfoClusterName = ''c'', InfoName = ''n'', StatusReplicas = 1,
                StatusUpdatedAvailableReplicas = 1\<rparr> 1 True,
            CallGetCanaryInfo 2
              \<lparr>InfoClusterName = ''c'', InfoName = ''n'', StatusReplicas = 1,
                StatusUpdatedAvailableReplicas = 1\<rparr>,
            CallCheckPartitionReady
              \<lparr>InfoClusterName = ''c'', InfoName = ''n'', StatusReplicas = 1,
                StatusUpdatedAvailableReplicas = 1\<rparr> 1 True] @
           [CallTraffic ''forkCanary'' ''unchanged'' None, CallCheckReady ''forkCanary'' True]\<rparr>)"
proof -
  let ?P = "fst (appendBuiltinPodTemplateMetadataPatch sampleEnv None emptyHeap)"
  let ?H = "snd (appendBuiltinPodTemplateMetadataPatch sampleEnv None emptyHeap)"
  let ?a = "\<lparr>Cluster = ''c1'', Name = ''a'', Replicas = FromInt 1\<rparr>"
  let ?m = "\<lparr>Cluster = ''c2'', Name = ''missing'', Replicas = FromInt 1\<rparr>"
  let ?fs = "[CallTraffic ''forkStable'' ''unchanged'' None, CallCheckReady ''forkStable'' True]"
  let ?fc = "[CallTraffic ''forkCanary'' ''unchanged'' None, CallCheckReady ''forkCanary'' True]"
  let ?ca = "[CallGet ''c1'' ''a'' (Some 1), CallCanaryStrategy 1 1 None,
              CallCreateOrUpdate 1 (FromInt 1) ?P (patchLabels ?H ?P) ''created'' None]"
  let ?cab = "[CallGet ''c1'' ''a'' (Some 1), CallCanaryStrategy 1 1 None,
              CallCreateOrUpdate 1 (FromInt 1) ?P (patchLabels ?H ?P) ''created'' None,
              CallGet ''c2'' ''bb'' (Some 2), CallCanaryStrategy 2 2 None,
              CallCreateOrUpdate 2 (FromInt 1) ?P (patchLabels ?H ?P) ''created'' None]"
  let ?uab = "[CallGet ''c1'' ''a'' (Some 1), CallCanaryStrategy 1 1 None,
              CallCreateOrUpdate 1 (FromInt 1) ?P (patchLabels ?H ?P) ''unchanged'' None,
              CallGet ''c2'' ''bb'' (Some 2), CallCanaryStrategy 2 2 None,
              CallCreateOrUpdate 2 (FromInt 1) ?P (patchLabels ?H ?P) ''unchanged'' None]"
  let ?info = "\<lparr>InfoClusterName = ''c'', InfoName = ''n'', StatusReplicas = 1,
                StatusUpdatedAvailableReplicas = 1\<rparr>"
  let ?rd = "[CallGetCanaryInfo 1 ?info, CallCheckPartitionReady ?info 1 True,
              CallGetCanaryInfo 2 ?info, CallCheckPartitionReady ?info 1 True]"
  have envs: "appendBuiltinPodTemplateMetadataPatch failingForkEnv None emptyHeap = (?P, ?H)"
    "appendBuiltinPodTemplateMetadataPatch notReadyEnv None emptyHeap = (?P, ?H)"
    "appendBuiltinPodTemplateMetadataPatch convergingForkCanaryEnv None emptyHeap = (?P, ?H)"
    "appendBuiltinPodTemplateMetadataPatch sampleEnv None emptyHeap = (?P, ?H)"
    by (simp_all add: appendBuiltinPodTemplateMetadataPatch_def failingForkEnv_def
          notReadyEnv_def convergingForkCanaryEnv_def)
  have ctxs: "PodTemplateMetadataPatch sampleContext = None" "heap sampleContext = emptyHeap"
    "PodTemplateMetadataPatch missingContext = None" "heap missingContext = emptyHeap"
    "PodTemplateMetadataPatch existingContext = None" "heap existingContext = emptyHeap"
    by (simp_all add: sampleContext_def missingContext_def existingContext_def)
  have p1: "appendBuiltinPodTemplateMetadataPatch failingForkEnv
              (PodTemplateMetadataPatch sampleContext) (heap sampleContext) = (?P, ?H)"
    and p2: "appendBuiltinPodTemplateMetadataPatch sampleEnv
              (PodTemplateMetadataPatch missingContext) (heap missingContext) = (?P, ?H)"
    and p3: "appendBuiltinPodTemplateMetadataPatch sampleEnv
              (PodTemplateMetadataPatch sampleContext) (heap sampleContext) = (?P, ?H)"
    and p4: "appendBuiltinPodTemplateMetadataPatch notReadyEnv
              (PodTemplateMetadataPatch existingContext) (heap existingContext) = (?P, ?H)"
    and p5: "appendBuiltinPodTemplateMetadataPatch convergingForkCanaryEnv
              (PodTemplateMetadataPatch existingContext) (heap existingContext) = (?P, ?H)"
    and p6: "appendBuiltinPodTemplateMetadataPatch sampleEnv
              (PodTemplateMetadataPatch existingContext) (heap existingContext) = (?P, ?H)"
    unfolding ctxs by (rule envs)+
  have h1: "trafficConverged failingForkEnv (Traffic sampleContext) ''forkStable''
     (trafficForkStable failingForkEnv) (world sampleContext) = None"
    by (simp add: trafficConverged_def sample_defs)
  have h2: "trafficConverged sampleEnv (Traffic missingContext) ''forkStable''
     (trafficForkStable sampleEnv) (world missingContext) = Some (?fs, [])"
    "trafficConverged sampleEnv (Traffic sampleContext) ''forkStable''
     (trafficForkStable sampleEnv) (world sampleContext) = Some (?fs, [])"
    by (simp_all add: trafficConverged_def sample_defs)
  have h3: "Targets missingContext = [?a] @ ?m # []"
    by (simp add: sample_defs)
  have h4: "eachInTurn (createdOrUpdated sampleEnv ?P (patchLabels ?H ?P)) [?a] [] =
              Some (?ca, [1])"
    by (simp add: createdOrUpdated_def sampleEnv_def OperationResultNone_def)
  have h5: "workloadsGet sampleEnv (Cluster ?m) (Name ?m) [1] = (None, [1])"
    by (simp add: sampleEnv_def)
  have h6: "eachInTurn (createdOrUpdated sampleEnv ?P (patchLabels ?H ?P))
              (Targets sampleContext) [] = Some (?cab, [2, 1])"
    by (simp add: createdOrUpdated_def sampleEnv_def sampleContext_def OperationResultNone_def)
  have h7: "list_ex changedCreateOrUpdate ?cab"
    by (simp add: OperationResultNone_def)
  have h8: "trafficConverged notReadyEnv (Traffic existingContext) ''forkStable''
     (trafficForkStable notReadyEnv) (world existingContext) = Some (?fs, [1, 2])"
    "trafficConverged convergingForkCanaryEnv (Traffic existingContext) ''forkStable''
     (trafficForkStable convergingForkCanaryEnv) (world existingContext) = Some (?fs, [1, 2])"
    "trafficConverged sampleEnv (Traffic existingContext) ''forkStable''
     (trafficForkStable sampleEnv) (world existingContext) = Some (?fs, [1, 2])"
    by (simp_all add: trafficConverged_def sample_defs)
  have h9: "eachInTurn (createdOrUpdated notReadyEnv ?P (patchLabels ?H ?P))
              (Targets existingContext) [1, 2] = Some (?uab, [2, 1, 1, 2])"
    "eachInTurn (createdOrUpdated convergingForkCanaryEnv ?P (patchLabels ?H ?P))
              (Targets existingContext) [1, 2] = Some (?uab, [2, 1, 1, 2])"
    "eachInTurn (createdOrUpdated sampleEnv ?P (patchLabels ?H ?P))
              (Targets existingContext) [1, 2] = Some (?uab, [2, 1, 1, 2])"
    by (simp_all add: createdOrUpdated_def sampleEnv_def sampleContext_def existingContext_def
          notReadyEnv_def convergingForkCanaryEnv_def OperationResultNone_def)
  have h10: "\<not> list_ex changedCreateOrUpdate ?uab" "createdStrategies ?uab = [1, 2]"
    by (simp_all add: OperationResultNone_def)
  have h11: "eachInTurn (partitionReady notReadyEnv) [1, 2] [2, 1, 1, 2] = None"
    by (simp add: partitionReady_def sampleEnv_def notReadyEnv_def)
  have h12: "eachInTurn (partitionReady convergingForkCanaryEnv) [1, 2] [2, 1, 1, 2] =
               Some (?rd, [2, 1, 1, 2])"
    "eachInTurn (partitionReady sampleEnv) [1, 2] [2, 1, 1, 2] = Some (?rd, [2, 1, 1, 2])"
    by (simp_all add: partitionReady_def sampleEnv_def convergingForkCanaryEnv_def)
  have h13: "trafficConverged convergingForkCanaryEnv (Traffic existingContext) ''forkCanary''
     (trafficForkCanary convergingForkCanaryEnv) [2, 1, 1, 2] = None"
    by (simp add: trafficConverged_def sample_defs)
  have h14: "trafficConverged sampleEnv (Traffic existingContext) ''forkCanary''
     (trafficForkCanary sampleEnv) [2, 1, 1, 2] = Some (?fc, [2, 1, 1, 2])"
    by (simp add: trafficConverged_def sample_defs)
  from doCanary_phases [where d = failingForkEnv and ctx = sampleContext and p = ?P
         and h = ?H] p1 h1
  have a: "fst (doCanary failingForkEnv sampleContext) =
             (False, retryDefault failingForkEnv, None)"
    by blast
  from doCanary_phases [where d = sampleEnv and ctx = missingContext and p = ?P and h = ?H
         and ?e1.0 = ?fs and ?w1.0 = "[]" and pre = "[?a]" and item = ?m and post = "[]"
         and ?e2.0 = ?ca and ?w2.0 = "[1]" and ?w3.0 = "[1]"] p2 h2(1) h3 h4 h5
  have b: "doCanary sampleEnv missingContext =
     ((False, retryStop sampleEnv,
       Some (CodeReasonMessage ''DoCanaryError'' (ReasonWorkloadInterfaceNotExist sampleEnv)
               (''the workload ('' @ formatRef sampleEnv (Cluster ?m) (Name ?m)
                  @ '') does not exists''))),
      missingContext
        \<lparr>heap := ?H, world := [1],
         trace := trace missingContext @ ?fs @ ?ca @ [CallGet (Cluster ?m) (Name ?m) None]\<rparr>)"
    by blast
  from doCanary_phases [where d = sampleEnv and ctx = sampleContext and p = ?P and h = ?H
         and ?e1.0 = ?fs and ?w1.0 = "[]" and e2' = ?cab and w2' = "[2, 1]"] p3 h2(2) h6 h7
  have c: "doCanary sampleEnv sampleContext =
     ((False, retryDefault sampleEnv, None),
      sampleContext\<lparr>heap := ?H, world := [2, 1], trace := trace sampleContext @ ?fs @ ?cab\<rparr>)"
    by blast
  from doCanary_phases [where d = notReadyEnv and ctx = existingContext and p = ?P and h = ?H
         and ?e1.0 = ?fs and ?w1.0 = "[1, 2]" and e2' = ?uab and w2' = "[2, 1, 1, 2]"]
       p4 h8(1) h9(1) h10 h11
  have e: "fst (doCanary notReadyEnv existingContext) = (False, retryDefault notReadyEnv, None)"
    by simp
  from doCanary_phases [where d = convergingForkCanaryEnv and ctx = existingContext
         and p = ?P and h = ?H and ?e1.0 = ?fs and ?w1.0 = "[1, 2]" and e2' = ?uab
         and w2' = "[2, 1, 1, 2]" and ?e3.0 = ?rd and w3' = "[2, 1, 1, 2]"]
       p5 h8(2) h9(2) h10 h12(1) h13
  have f: "fst (doCanary convergingForkCanaryEnv existingContext) =
     (False, retryDefault convergingForkCanaryEnv, None)"
    by simp
  from doCanary_phases [where d = sampleEnv and ctx = existingContext
         and p = ?P and h = ?H and ?e1.0 = ?fs and ?w1.0 = "[1, 2]" and e2' = ?uab
         and w2' = "[2, 1, 1, 2]" and ?e3.0 = ?rd and w3' = "[2, 1, 1, 2]"
         and ?e4.0 = ?fc and ?w4.0 = "[2, 1, 1, 2]"]
       p6 h8(3) h9(3) h10 h12(2) h14
  have g: "doCanary sampleEnv existingContext =
     ((True, retryImmediately sampleEnv, None),
      existingContext
        \<lparr>heap := ?H, world := [2, 1, 1, 2],
         trace := trace existingContext @ ?fs @ ?uab @ ?rd @ ?fc\<rparr>)"
    by simp
  show ?thesis
    using h1 a h2(2) h3 h4 h5 b h6 c h9(3) h11 e h12(2) h13 f h14 g by simp
qed

text \<open>
  The claim as first stated fails: with two targets, the first created and the second
  not registered, a \<^verbatim>\<open>CreateOrUpdate\<close> answered "created" and yet the result is stop with
  an error, not the default delay without error.
\<close>

theorem doCanary_changed_then_missing_counterexample:
  "list_ex changedCreateOrUpdate
     (emitted missingContext (snd (doCanary sampleEnv missingContext))) \<and>
   fst (doCanary sampleEnv missingContext) =
     (False, - 1,
      Some (CodeReasonMessage ''DoCanaryError'' ''WorkloadInterfaceNotExist''
              ''the workload (c2/missing) does not exists'')) \<and>
   fst (doCanary sampleEnv missingContext) \<noteq> (False, retryDefault sampleEnv, None)"
  by (simp add: model_defs)

subsection \<open>Traffic steps\<close>

text \<open>
  C5. For each of the four traffic steps and the traffic-manager call \<open>f\<close> it makes: when
  the rollout-run has a traffic strategy and the call fails, or answers something other
  than "unchanged", or \<^verbatim>\<open>CheckReady\<close> answers false, \<^verbatim>\<open>modifyTraffic\<close> reports not done
  with the default delay (it has no error result); when the rollout-run has no traffic
  strategy it reports done with immediate requeue and leaves the context as it was: no
  call is made. The handlers return a nil error with it, at each of the four steps:
  \<^verbatim>\<open>doCanary\<close> returns not done, default delay, no error when the fork of stable
  traffic is unsettled in the world it starts in, and when the fork of canary traffic is
  unsettled in the world that the stable fork, the create-or-update of every target and
  the readiness check of every canary workload left; \<^verbatim>\<open>doRecycle\<close> returns not done,
  default delay, no error when the revert of canary traffic is unsettled in the world it
  starts in, and when the revert of stable traffic is unsettled in the world that the
  canary revert and the deletion of every target left.
\<close>

theorem modifyTraffic_transient:
  "((op, f) \<in> {(''forkStable'', trafficForkStable d), (''forkCanary'', trafficForkCanary d),
               (''revertStable'', trafficRevertStable d),
               (''revertCanary'', trafficRevertCanary d)} \<and>
    f (world ctx) = ((r, err), w) \<longrightarrow>
      (Traffic ctx \<noteq> None \<and>
       (err \<noteq> None \<or> r \<noteq> OperationResultNone \<or> \<not> fst (trafficCheckReady d w))
         \<longrightarrow> fst (modifyTraffic d ctx op) = (False, retryDefault d) \<and>
             CallTraffic op r err \<in> set (emitted ctx (snd (modifyTraffic d ctx op)))) \<and>
      (Traffic ctx = None \<longrightarrow> modifyTraffic d ctx op = ((True, retryImmediately d), ctx))) \<and>
   (Traffic ctx \<noteq> None \<and> trafficUnsettled d (trafficForkStable d) (world ctx)
      \<longrightarrow> fst (doCanary d ctx) = (False, retryDefault d, None)) \<and>
   (Traffic ctx \<noteq> None \<and>
    appendBuiltinPodTemplateMetadataPatch d (PodTemplateMetadataPatch ctx) (heap ctx) = (p, h) \<and>
    trafficConverged d (Traffic ctx) ''forkStable'' (trafficForkStable d) (world ctx)
      = Some (e1, w1) \<and>
    eachInTurn (createdOrUpdated d p (patchLabels h p)) (Targets ctx) w1 = Some (e2, w2) \<and>
    \<not> list_ex changedCreateOrUpdate e2 \<and>
    eachInTurn (partitionReady d) (createdStrategies e2) w2 = Some (e3, w3) \<and>
    trafficUnsettled d (trafficForkCanary d) w3
      \<longrightarrow> fst (doCanary d ctx) = (False, retryDefault d, None)) \<and>
   (Traffic ctx \<noteq> None \<and> trafficUnsettled d (trafficRevertCanary d) (world ctx)
      \<longrightarrow> fst (doRecycle d ctx) = (False, retryDefault d, None)) \<and>
   (Traffic ctx \<noteq> None \<and>
    trafficConverged d (Traffic ctx) ''revertCanary'' (trafficRevertCanary d) (world ctx)
      = Some (e1', w1') \<and>
    eachInTurn (deleted d) (Targets ctx) w1' = Some (e2', w2') \<and>
    trafficUnsettled d (trafficRevertStable d) w2'
      \<longrightarrow> fst (doRecycle d ctx) = (False, retryDefault d, None)) \<and>
   (\<not> fst (fst (modifyTraffic d ctx ''forkStable''))
      \<longrightarrow> fst (doCanary d ctx) = (False, retryDefault d, None)) \<and>
   (\<not> fst (fst (modifyTraffic d ctx ''revertCanary''))
      \<longrightarrow> fst (doRecycle d ctx) = (False, retryDefault d, None))"
proof -
  have a: "(op, f) \<in> {(''forkStable'', trafficForkStable d), (''forkCanary'', trafficForkCanary d),
               (''revertStable'', trafficRevertStable d),
               (''revertCanary'', trafficRevertCanary d)} \<and>
    f (world ctx) = ((r, err), w) \<longrightarrow>
      (Traffic ctx \<noteq> None \<and>
       (err \<noteq> None \<or> r \<noteq> OperationResultNone \<or> \<not> fst (trafficCheckReady d w))
         \<longrightarrow> fst (modifyTraffic d ctx op) = (False, retryDefault d) \<and>
             CallTraffic op r err \<in> set (emitted ctx (snd (modifyTraffic d ctx op)))) \<and>
      (Traffic ctx = None \<longrightarrow> modifyTraffic d ctx op = ((True, retryImmediately d), ctx))"
  proof (intro impI, elim conjE)
    assume m: "(op, f) \<in> {(''forkStable'', trafficForkStable d),
                 (''forkCanary'', trafficForkCanary d),
                 (''revertStable'', trafficRevertStable d),
                 (''revertCanary'', trafficRevertCanary d)}"
      and fw: "f (world ctx) = ((r, err), w)"
    have f: "trafficOp d op = Some f"
      using m by (auto simp add: trafficOp_def)
    have "Traffic ctx \<noteq> None \<and>
            (err \<noteq> None \<or> r \<noteq> OperationResultNone \<or> \<not> fst (trafficCheckReady d w))
            \<longrightarrow> fst (modifyTraffic d ctx op) = (False, retryDefault d) \<and>
                CallTraffic op r err \<in> set (emitted ctx (snd (modifyTraffic d ctx op)))"
      using modifyTraffic_with_traffic [OF _ f fw]
      by (auto simp add: called_def emitted_def)
    then show "(Traffic ctx \<noteq> None \<and>
       (err \<noteq> None \<or> r \<noteq> OperationResultNone \<or> \<not> fst (trafficCheckReady d w))
         \<longrightarrow> fst (modifyTraffic d ctx op) = (False, retryDefault d) \<and>
             CallTraffic op r err \<in> set (emitted ctx (snd (modifyTraffic d ctx op)))) \<and>
      (Traffic ctx = None \<longrightarrow> modifyTraffic d ctx op = ((True, retryImmediately d), ctx))"
      by (simp add: modifyTraffic_no_traffic)
  qed
  have h1: "Traffic ctx \<noteq> None \<and> trafficUnsettled d (trafficForkStable d) (world ctx)
      \<longrightarrow> fst (doCanary d ctx) = (False, retryDefault d, None)"
    using doCanary_stable_not_converged [of d ctx]
      trafficUnsettled_not_converged [of "Traffic ctx" d "''forkStable''"
        "trafficForkStable d" "world ctx"]
    by auto
  have h3: "Traffic ctx \<noteq> None \<and> trafficUnsettled d (trafficRevertCanary d) (world ctx)
      \<longrightarrow> fst (doRecycle d ctx) = (False, retryDefault d, None)"
    using doRecycle_canary_not_converged [of d ctx]
      trafficUnsettled_not_converged [of "Traffic ctx" d "''revertCanary''"
        "trafficRevertCanary d" "world ctx"]
    by auto
  have h2: "Traffic ctx \<noteq> None \<and>
    appendBuiltinPodTemplateMetadataPatch d (PodTemplateMetadataPatch ctx) (heap ctx) = (p, h) \<and>
    trafficConverged d (Traffic ctx) ''forkStable'' (trafficForkStable d) (world ctx)
      = Some (e1, w1) \<and>
    eachInTurn (createdOrUpdated d p (patchLabels h p)) (Targets ctx) w1 = Some (e2, w2) \<and>
    \<not> list_ex changedCreateOrUpdate e2 \<and>
    eachInTurn (partitionReady d) (createdStrategies e2) w2 = Some (e3, w3) \<and>
    trafficUnsettled d (trafficForkCanary d) w3
      \<longrightarrow> fst (doCanary d ctx) = (False, retryDefault d, None)"
  proof (intro impI, elim conjE)
    assume t: "Traffic ctx \<noteq> None"
      and p: "appendBuiltinPodTemplateMetadataPatch d (PodTemplateMetadataPatch ctx) (heap ctx)
                = (p, h)"
      and s: "trafficConverged d (Traffic ctx) ''forkStable'' (trafficForkStable d) (world ctx)
                = Some (e1, w1)"
      and c: "eachInTurn (createdOrUpdated d p (patchLabels h p)) (Targets ctx) w1
                = Some (e2, w2)"
      and nc: "\<not> list_ex changedCreateOrUpdate e2"
      and rd: "eachInTurn (partitionReady d) (createdStrategies e2) w2 = Some (e3, w3)"
      and u: "trafficUnsettled d (trafficForkCanary d) w3"
    let ?c3 = "ctx\<lparr>heap := h, world := w3, trace := trace ctx @ e1 @ e2 @ e3\<rparr>"
    have n: "trafficConverged d (Traffic ?c3) ''forkCanary'' (trafficForkCanary d) (world ?c3)
               = None"
      using trafficUnsettled_not_converged [OF t, of d "''forkCanary''" "trafficForkCanary d" w3]
        u by simp
    show "fst (doCanary d ctx) = (False, retryDefault d, None)"
      unfolding doCanary_ready [OF p s c nc rd]
      by (rule handler_not_converged [OF trafficOps(2) n])
  qed
  have h4: "Traffic ctx \<noteq> None \<and>
    trafficConverged d (Traffic ctx) ''revertCanary'' (trafficRevertCanary d) (world ctx)
      = Some (e1', w1') \<and>
    eachInTurn (deleted d) (Targets ctx) w1' = Some (e2', w2') \<and>
    trafficUnsettled d (trafficRevertStable d) w2'
      \<longrightarrow> fst (doRecycle d ctx) = (False, retryDefault d, None)"
  proof (intro impI, elim conjE)
    assume t: "Traffic ctx \<noteq> None"
      and s: "trafficConverged d (Traffic ctx) ''revertCanary'' (trafficRevertCanary d)
                (world ctx) = Some (e1', w1')"
      and dl: "eachInTurn (deleted d) (Targets ctx) w1' = Some (e2', w2')"
      and u: "trafficUnsettled d (trafficRevertStable d) w2'"
    let ?c2 = "ctx\<lparr>world := w2', trace := trace ctx @ e1' @ e2'\<rparr>"
    have n: "trafficConverged d (Traffic ?c2) ''revertStable'' (trafficRevertStable d)
               (world ?c2) = None"
      using trafficUnsettled_not_converged [OF t, of d "''revertStable''"
              "trafficRevertStable d" w2'] u by simp
    show "fst (doRecycle d ctx) = (False, retryDefault d, None)"
      unfolding doRecycle_deleted [OF s dl]
      by (rule handler_not_converged [OF trafficOps(3) n])
  qed
  have b: "\<not> fst (fst (modifyTraffic d ctx ''forkStable''))
            \<longrightarrow> fst (doCanary d ctx) = (False, retryDefault d, None)"
  proof
    assume n: "\<not> fst (fst (modifyTraffic d ctx ''forkStable''))"
    obtain dn rt c1 where m: "modifyTraffic d ctx ''forkStable'' = ((dn, rt), c1)"
      by (metis surj_pair)
    from modifyTraffic_trace [OF _ m] n m have "rt = retryDefault d" "\<not> dn" by auto
    with m show "fst (doCanary d ctx) = (False, retryDefault d, None)"
      by (simp add: doCanary_def)
  qed
  have c: "\<not> fst (fst (modifyTraffic d ctx ''revertCanary''))
            \<longrightarrow> fst (doRecycle d ctx) = (False, retryDefault d, None)"
  proof
    assume n: "\<not> fst (fst (modifyTraffic d ctx ''revertCanary''))"
    obtain dn rt c1 where m: "modifyTraffic d ctx ''revertCanary'' = ((dn, rt), c1)"
      by (metis surj_pair)
    from modifyTraffic_trace [OF _ m] n m have "rt = retryDefault d" "\<not> dn" by auto
    with m show "fst (doRecycle d ctx) = (False, retryDefault d, None)"
      by (simp add: doRecycle_def)
  qed
  show ?thesis
    using a h1 h2 h3 h4 b c by blast
qed

theorem modifyTraffic_transient_witness:
  "Traffic sampleContext \<noteq> None \<and>
   trafficForkStable failingForkEnv (world sampleContext)
     = ((OperationResultNone, Some (ErrorString ''timeout'')), []) \<and>
   fst (modifyTraffic failingForkEnv sampleContext ''forkStable'')
     = (False, retryDefault failingForkEnv) \<and>
   modifyTraffic sampleEnv (sampleContext\<lparr>Traffic := None\<rparr>) ''revertStable''
     = ((True, retryImmediately sampleEnv), sampleContext\<lparr>Traffic := None\<rparr>) \<and>
   trafficUnsettled failingForkEnv (trafficForkStable failingForkEnv) (world sampleContext) \<and>
   fst (doCanary failingForkEnv sampleContext) = (False, retryDefault failingForkEnv, None) \<and>
   Traffic existingContext \<noteq> None \<and>
   trafficUnsettled convergingForkCanaryEnv (trafficForkCanary convergingForkCanaryEnv)
     [2, 1, 1, 2] \<and>
   fst (doCanary convergingForkCanaryEnv existingContext) =
     (False, retryDefault convergingForkCanaryEnv, None) \<and>
   trafficUnsettled convergingRevertEnv (trafficRevertCanary convergingRevertEnv)
     (world sampleContext) \<and>
   fst (doRecycle convergingRevertEnv sampleContext) =
     (False, retryDefault convergingRevertEnv, None) \<and>
   trafficUnsettled convergingRevertStableEnv (trafficRevertStable convergingRevertStableEnv)
     [] \<and>
   fst (doRecycle convergingRevertStableEnv existingContext) =
     (False, retryDefault convergingRevertStableEnv, None)"
proof -
  let ?P = "fst (appendBuiltinPodTemplateMetadataPatch sampleEnv None emptyHeap)"
  let ?H = "snd (appendBuiltinPodTemplateMetadataPatch sampleEnv None emptyHeap)"
  let ?fs = "[CallTraffic ''forkStable'' ''unchanged'' None, CallCheckReady ''forkStable'' True]"
  let ?rc = "[CallTraffic ''revertCanary'' ''unchanged'' None,
              CallCheckReady ''revertCanary'' True]"
  let ?uab = "[CallGet ''c1'' ''a'' (Some 1), CallCanaryStrategy 1 1 None,
              CallCreateOrUpdate 1 (FromInt 1) ?P (patchLabels ?H ?P) ''unchanged'' None,
              CallGet ''c2'' ''bb'' (Some 2), CallCanaryStrategy 2 2 None,
              CallCreateOrUpdate 2 (FromInt 1) ?P (patchLabels ?H ?P) ''unchanged'' None]"
  let ?dab = "[CallGet ''c1'' ''a'' (Some 1), CallCanaryStrategy 1 1 None, CallDelete 1 None,
            CallGet ''c2'' ''bb'' (Some 2), CallCanaryStrategy 2 2 None, CallDelete 2 None]"
  let ?info = "\<lparr>InfoClusterName = ''c'', InfoName = ''n'', StatusReplicas = 1,
                StatusUpdatedAvailableReplicas = 1\<rparr>"
  let ?rd = "[CallGetCanaryInfo 1 ?info, CallCheckPartitionReady ?info 1 True,
              CallGetCanaryInfo 2 ?info, CallCheckPartitionReady ?info 1 True]"
  have m1: "(''forkStable'', trafficForkStable failingForkEnv) \<in>
      {(''forkStable'', trafficForkStable failingForkEnv),
       (''forkCanary'', trafficForkCanary failingForkEnv),
       (''revertStable'', trafficRevertStable failingForkEnv),
       (''revertCanary'', trafficRevertCanary failingForkEnv)}"
    by simp
  have m2: "trafficForkStable failingForkEnv (world sampleContext)
     = ((OperationResultNone, Some (ErrorString ''timeout'')), [])"
    by (simp add: failingForkEnv_def sampleContext_def)
  have m3: "Traffic sampleContext \<noteq> None" "Traffic existingContext \<noteq> None"
    by (simp_all add: sampleContext_def existingContext_def)
  have g1: "(''revertStable'', trafficRevertStable sampleEnv) \<in>
      {(''forkStable'', trafficForkStable sampleEnv),
       (''forkCanary'', trafficForkCanary sampleEnv),
       (''revertStable'', trafficRevertStable sampleEnv),
       (''revertCanary'', trafficRevertCanary sampleEnv)}"
    by simp
  have g2: "trafficRevertStable sampleEnv (world (sampleContext\<lparr>Traffic := None\<rparr>))
     = ((OperationResultNone, None), [])"
    by (simp add: sampleEnv_def sampleContext_def OperationResultNone_def)
  have g3: "Traffic (sampleContext\<lparr>Traffic := None\<rparr>) = None"
    by simp
  have u1: "trafficUnsettled failingForkEnv (trafficForkStable failingForkEnv)
              (world sampleContext)"
    by (simp add: trafficUnsettled_def sample_defs)
  have p5: "appendBuiltinPodTemplateMetadataPatch convergingForkCanaryEnv
              (PodTemplateMetadataPatch existingContext) (heap existingContext) = (?P, ?H)"
    by (simp add: appendBuiltinPodTemplateMetadataPatch_def convergingForkCanaryEnv_def
          existingContext_def sampleContext_def)
  have s5: "trafficConverged convergingForkCanaryEnv (Traffic existingContext) ''forkStable''
     (trafficForkStable convergingForkCanaryEnv) (world existingContext) = Some (?fs, [1, 2])"
    by (simp add: trafficConverged_def sample_defs)
  have c5: "eachInTurn (createdOrUpdated convergingForkCanaryEnv ?P (patchLabels ?H ?P))
              (Targets existingContext) [1, 2] = Some (?uab, [2, 1, 1, 2])"
    by (simp add: createdOrUpdated_def sampleEnv_def sampleContext_def existingContext_def
          convergingForkCanaryEnv_def OperationResultNone_def)
  have n5: "\<not> list_ex changedCreateOrUpdate ?uab" "createdStrategies ?uab = [1, 2]"
    by (simp_all add: OperationResultNone_def)
  have r5: "eachInTurn (partitionReady convergingForkCanaryEnv) [1, 2] [2, 1, 1, 2] =
               Some (?rd, [2, 1, 1, 2])"
    by (simp add: partitionReady_def sampleEnv_def convergingForkCanaryEnv_def)
  have u2: "trafficUnsettled convergingForkCanaryEnv
              (trafficForkCanary convergingForkCanaryEnv) [2, 1, 1, 2]"
    by (simp add: trafficUnsettled_def sample_defs)
  have u3: "trafficUnsettled convergingRevertEnv (trafficRevertCanary convergingRevertEnv)
              (world sampleContext)"
    by (simp add: trafficUnsettled_def sample_defs)
  have s6: "trafficConverged convergingRevertStableEnv (Traffic existingContext)
     ''revertCanary'' (trafficRevertCanary convergingRevertStableEnv) (world existingContext)
       = Some (?rc, [1, 2])"
    by (simp add: trafficConverged_def sample_defs)
  have d6: "eachInTurn (deleted convergingRevertStableEnv) (Targets existingContext) [1, 2] =
               Some (?dab, [])"
    by (simp add: deleted_def sample_defs)
  have u4: "trafficUnsettled convergingRevertStableEnv
              (trafficRevertStable convergingRevertStableEnv) []"
    by (simp add: trafficUnsettled_def sample_defs)
  from modifyTraffic_transient [where d = failingForkEnv and ctx = sampleContext
         and op = "''forkStable''" and f = "trafficForkStable failingForkEnv"
         and r = OperationResultNone and err = "Some (ErrorString ''timeout'')" and w = "[]"]
       m1 m2 m3(1) u1
  have a: "fst (modifyTraffic failingForkEnv sampleContext ''forkStable'')
             = (False, retryDefault failingForkEnv)"
    "fst (doCanary failingForkEnv sampleContext) = (False, retryDefault failingForkEnv, None)"
    by blast+
  from modifyTraffic_transient [where d = sampleEnv
         and ctx = "sampleContext\<lparr>Traffic := None\<rparr>"
         and op = "''revertStable''" and f = "trafficRevertStable sampleEnv"
         and r = OperationResultNone and err = None and w = "[]"] g1 g2 g3
  have b: "modifyTraffic sampleEnv (sampleContext\<lparr>Traffic := None\<rparr>) ''revertStable''
     = ((True, retryImmediately sampleEnv), sampleContext\<lparr>Traffic := None\<rparr>)"
    by blast
  from modifyTraffic_transient [where d = convergingForkCanaryEnv and ctx = existingContext
         and p = ?P and h = ?H and ?e1.0 = ?fs and ?w1.0 = "[1, 2]" and ?e2.0 = ?uab
         and ?w2.0 = "[2, 1, 1, 2]" and ?e3.0 = ?rd and ?w3.0 = "[2, 1, 1, 2]"]
       m3(2) p5 s5 c5 n5 r5 u2
  have c: "fst (doCanary convergingForkCanaryEnv existingContext) =
     (False, retryDefault convergingForkCanaryEnv, None)"
    by simp
  from modifyTraffic_transient [where d = convergingRevertEnv and ctx = sampleContext]
       m3(1) u3
  have d: "fst (doRecycle convergingRevertEnv sampleContext) =
     (False, retryDefault convergingRevertEnv, None)"
    by blast
  from modifyTraffic_transient [where d = convergingRevertStableEnv and ctx = existingContext
         and e1' = ?rc and w1' = "[1, 2]" and e2' = ?dab and w2' = "[]"]
       m3(2) s6 d6 u4
  have e: "fst (doRecycle convergingRevertStableEnv existingContext) =
     (False, retryDefault convergingRevertStableEnv, None)"
    by blast
  show ?thesis
    using m3 m2 a b u1 u2 c u3 d u4 e by simp
qed

subsection \<open>The metadata patch\<close>

text \<open>
  C7. Whatever metadata patch the rollout-run spec carries (nil, or one whose labels
  already bind the two keys), the labels of the patch passed to every \<^verbatim>\<open>CreateOrUpdate\<close>
  call of \<^verbatim>\<open>doCanary\<close> bind the pod-revision key to \<open>canary\<close> and, the two keys being
  different, the canary key to \<open>true\<close>.
\<close>

theorem doCanary_passes_canary_labels:
  "\<forall>e \<in> set (emitted ctx (snd (doCanary d ctx))).
     isCreateOrUpdateCall e \<longrightarrow>
       (\<exists>m. passedLabels e = Some m \<and>
            m (LabelPodRevision d) = Some ''canary'' \<and>
            (LabelCanary d \<noteq> LabelPodRevision d \<longrightarrow> m (LabelCanary d) = Some ''true''))"
proof
  fix e
  assume e: "e \<in> set (emitted ctx (snd (doCanary d ctx)))"
  obtain p h where ap:
    "appendBuiltinPodTemplateMetadataPatch d (PodTemplateMetadataPatch ctx) (heap ctx) = (p, h)"
    by (metis surj_pair)
  from doCanary_run [of ctx d] obtain evs1 evs2 evs3 evs4 where
    em: "emitted ctx (snd (doCanary d ctx)) = evs1 @ evs2 @ evs3 @ evs4"
    and k: "\<forall>e \<in> set evs1. isTrafficCall ''forkStable'' e"
      "\<forall>e \<in> set evs3. isReadinessCall e" "\<forall>e \<in> set evs4. isTrafficCall ''forkCanary'' e"
    and l: "\<forall>e \<in> set evs2. isCreateOrUpdateCall e \<longrightarrow> passedLabels e = patchLabels h p"
    unfolding ap by auto
  show "isCreateOrUpdateCall e \<longrightarrow>
       (\<exists>m. passedLabels e = Some m \<and>
            m (LabelPodRevision d) = Some ''canary'' \<and>
            (LabelCanary d \<noteq> LabelPodRevision d \<longrightarrow> m (LabelCanary d) = Some ''true''))"
  proof
    assume c: "isCreateOrUpdateCall e"
    then have "isCreateCall e" by (rule createOrUpdate_is_create)
    then have "e \<notin> set evs1" "e \<notin> set evs3" "e \<notin> set evs4"
      using k traffic_kind readiness_kind by blast+
    with e em have "e \<in> set evs2" by simp
    with l c have "passedLabels e = patchLabels h p" by blast
    with appendBuiltin_labels [OF ap] show
      "\<exists>m. passedLabels e = Some m \<and>
            m (LabelPodRevision d) = Some ''canary'' \<and>
            (LabelCanary d \<noteq> LabelPodRevision d \<longrightarrow> m (LabelCanary d) = Some ''true'')"
      by simp
  qed
qed

theorem doCanary_passes_canary_labels_witness:
  "LabelCanary sampleEnv \<noteq> LabelPodRevision sampleEnv \<and>
   map (\<lambda>e. map_option (\<lambda>m. (m ''canary'', m ''pod-revision'', m ''app'')) (passedLabels e))
     (filter isCreateOrUpdateCall
        (emitted overrideContext (snd (doCanary sampleEnv overrideContext)))) =
     [Some (Some ''true'', Some ''canary'', Some ''x''),
      Some (Some ''true'', Some ''canary'', Some ''x'')] \<and>
   map (\<lambda>e. map_option (\<lambda>m. (m ''canary'', m ''pod-revision'', m ''app'')) (passedLabels e))
     (filter isCreateOrUpdateCall
        (emitted sampleContext (snd (doCanary sampleEnv sampleContext)))) =
     [Some (Some ''true'', Some ''canary'', None),
      Some (Some ''true'', Some ''canary'', None)]"
  using doCanary_passes_canary_labels [of overrideContext sampleEnv]
    doCanary_passes_canary_labels [of sampleContext sampleEnv]
  by (simp add: model_defs)

text \<open>
  C10 (amended). For a non-nil patch pointer \<open>p\<close> of the rollout-run spec,
  \<^verbatim>\<open>appendBuiltinPodTemplateMetadataPatch\<close> returns \<open>p\<close> itself; a nil \<^verbatim>\<open>Labels\<close> field gets a
  fresh map holding the two keys, stored into the patch at \<open>p\<close>, and an existing labels
  map is updated with the two keys where it is. Whenever \<^verbatim>\<open>doCanary\<close> gets past the
  stable traffic fork, the store it leaves is the one this call left: the spec still
  points to \<open>p\<close>, and the labels of \<open>p\<close> hold the canary labels.
\<close>

theorem doCanary_patch_in_place:
  assumes "PodTemplateMetadataPatch ctx = Some p"
  shows "let h = heap ctx;
             h' = snd (appendBuiltinPodTemplateMetadataPatch d (Some p) h)
         in fst (appendBuiltinPodTemplateMetadataPatch d (Some p) h) = p \<and>
            (case Labels (patches h p) of
               None \<Rightarrow>
                 Labels (patches h' p) = Some (nextMap h) \<and>
                 labelMaps h' (nextMap h) =
                   [LabelCanary d \<mapsto> ''true'', LabelPodRevision d \<mapsto> ''canary'']
             | Some m \<Rightarrow>
                 Labels (patches h' p) = Some m \<and>
                 labelMaps h' m =
                   (labelMaps h m)(LabelCanary d \<mapsto> ''true'', LabelPodRevision d \<mapsto> ''canary'')) \<and>
            (fst (fst (modifyTraffic d ctx ''forkStable'')) \<longrightarrow>
               PodTemplateMetadataPatch (snd (doCanary d ctx)) = Some p \<and>
               heap (snd (doCanary d ctx)) = h' \<and>
               (\<exists>m. patchLabels (heap (snd (doCanary d ctx))) p = Some m \<and>
                    m (LabelPodRevision d) = Some ''canary'' \<and>
                    (LabelCanary d \<noteq> LabelPodRevision d \<longrightarrow> m (LabelCanary d) = Some ''true'')))"
proof -
  obtain q h' where ap: "appendBuiltinPodTemplateMetadataPatch d (Some p) (heap ctx) = (q, h')"
    by (metis surj_pair)
  have q: "q = p"
    using ap by (auto simp add: appendBuiltinPodTemplateMetadataPatch_def Let_def
        split: option.splits prod.splits)
  have lab: "case Labels (patches (heap ctx) p) of
               None \<Rightarrow>
                 Labels (patches h' p) = Some (nextMap (heap ctx)) \<and>
                 labelMaps h' (nextMap (heap ctx)) =
                   [LabelCanary d \<mapsto> ''true'', LabelPodRevision d \<mapsto> ''canary'']
             | Some m \<Rightarrow>
                 Labels (patches h' p) = Some m \<and>
                 labelMaps h' m =
                   (labelMaps (heap ctx) m)(LabelCanary d \<mapsto> ''true'', LabelPodRevision d \<mapsto> ''canary'')"
    using ap by (auto simp add: appendBuiltinPodTemplateMetadataPatch_def Let_def newLabelMap_def
        split: option.splits prod.splits)
  have run: "fst (fst (modifyTraffic d ctx ''forkStable'')) \<longrightarrow>
               PodTemplateMetadataPatch (snd (doCanary d ctx)) = Some p \<and>
               heap (snd (doCanary d ctx)) = h'"
    using doCanary_run [of ctx d] assms ap by (auto split: if_splits)
  from appendBuiltin_labels [OF ap] q
  have ex: "\<exists>m. patchLabels h' p = Some m \<and> m (LabelPodRevision d) = Some ''canary'' \<and>
           (LabelCanary d \<noteq> LabelPodRevision d \<longrightarrow> m (LabelCanary d) = Some ''true'')"
    by simp
  have s: "snd (appendBuiltinPodTemplateMetadataPatch d (Some p) (heap ctx)) = h'"
    "fst (appendBuiltinPodTemplateMetadataPatch d (Some p) (heap ctx)) = p"
    using ap q by simp_all
  show ?thesis
    unfolding Let_def s using run lab ex by blast
qed

theorem doCanary_patch_in_place_witness:
  "PodTemplateMetadataPatch barePatchContext = Some 0 \<and>
   fst (fst (modifyTraffic sampleEnv barePatchContext ''forkStable'')) \<and>
   Labels (patches (heap barePatchContext) 0) = None \<and>
   PodTemplateMetadataPatch (snd (doCanary sampleEnv barePatchContext)) = Some 0 \<and>
   Labels (patches (heap (snd (doCanary sampleEnv barePatchContext))) 0) = Some 0 \<and>
   labelMaps (heap (snd (doCanary sampleEnv barePatchContext))) 0 ''canary'' = Some ''true'' \<and>
   labelMaps (heap (snd (doCanary sampleEnv barePatchContext))) 0 ''pod-revision'' = Some ''canary''"
proof -
  have h1: "PodTemplateMetadataPatch barePatchContext = Some 0"
    by (simp add: model_defs)
  have h2: "fst (fst (modifyTraffic sampleEnv barePatchContext ''forkStable''))"
    by (simp add: model_defs)
  have h3: "Labels (patches (heap barePatchContext) 0) = None"
    "nextMap (heap barePatchContext) = 0"
    by (simp_all add: model_defs)
  from doCanary_patch_in_place [OF h1, of sampleEnv, unfolded Let_def] h2
  have a: "PodTemplateMetadataPatch (snd (doCanary sampleEnv barePatchContext)) = Some 0"
    "heap (snd (doCanary sampleEnv barePatchContext)) =
       snd (appendBuiltinPodTemplateMetadataPatch sampleEnv (Some 0) (heap barePatchContext))"
    by blast+
  from doCanary_patch_in_place [OF h1, of sampleEnv, unfolded Let_def] h3
  have b: "Labels (patches (snd (appendBuiltinPodTemplateMetadataPatch sampleEnv (Some 0)
                                   (heap barePatchContext))) 0) = Some 0"
    "labelMaps (snd (appendBuiltinPodTemplateMetadataPatch sampleEnv (Some 0)
                       (heap barePatchContext))) 0 =
       [LabelCanary sampleEnv \<mapsto> ''true'', LabelPodRevision sampleEnv \<mapsto> ''canary'']"
    by simp_all
  show ?thesis
    using h1 h2 h3 a b by (simp add: sampleEnv_def)
qed

text \<open>
  The claim as first stated fails when the stable traffic fork is not complete:
  \<^verbatim>\<open>doCanary\<close> returns before the patch is touched, and the labels of the spec's patch
  are still nil.
\<close>

theorem doCanary_patch_untouched_counterexample:
  "PodTemplateMetadataPatch barePatchContext = Some 0 \<and>
   fst (doCanary failingForkEnv barePatchContext) = (False, 5000000000, None) \<and>
   patchLabels (heap (snd (doCanary failingForkEnv barePatchContext))) 0 = None"
  by (simp add: model_defs)

subsection \<open>The state machine of the canary executor\<close>

lemmas step_defs = StepPending_def StepPreCanaryStepHook_def StepRunning_def
  StepPostCanaryStepHook_def StepResourceRecycling_def StepSucceeded_def

lemma doInit_State: "State (snd (doInit d ctx)) = State ctx"
proof -
  obtain r c' where run: "initTargets d (Targets ctx) ctx = (r, c')"
    by (metis surj_pair)
  from initTargets_trace [OF run] have "State c' = State ctx"
    by (auto simp add: calls_def)
  with run show ?thesis
    by (simp add: doInit_def split: option.splits)
qed

lemma doPreStepHook_State: "State (snd (doPreStepHook d ctx)) = State ctx"
  by (simp add: doPreStepHook_def webhook_Do_def called_def split: prod.splits)

lemma doPostStepHook_State: "State (snd (doPostStepHook d ctx)) = State ctx"
  by (auto simp add: doPostStepHook_def webhook_Do_def called_def Pause_def split: prod.splits)

lemma doCanary_State: "State (snd (doCanary d ctx)) = State ctx"
  using doCanary_run [of ctx d] by blast

lemma doRecycle_State: "State (snd (doRecycle d ctx)) = State ctx"
proof -
  obtain done1 r1 c1 where m1: "modifyTraffic d ctx ''revertCanary'' = ((done1, r1), c1)"
    by (metis surj_pair)
  from modifyTraffic_trace [OF _ m1] have s1: "State c1 = State ctx"
    by (auto simp add: calls_def)
  obtain r c2 where dl: "deleteTargets d (Targets c1) c1 = (r, c2)"
    by (metis surj_pair)
  from deleteTargets_trace [OF dl] s1 have s2: "State c2 = State ctx"
    by (auto simp add: calls_def)
  obtain done3 r3 c3 where m3: "modifyTraffic d c2 ''revertStable'' = ((done3, r3), c3)"
    by (metis surj_pair)
  from modifyTraffic_trace [OF _ m3] s2 have s3: "State c3 = State ctx"
    by (auto simp add: calls_def)
  show ?thesis
    using m1 dl m3 s1 s2 s3 by (simp add: doRecycle_def split: option.splits)
qed

lemma skipStep_State: "State (snd (skipStep d ctx)) = State ctx"
  by (simp add: skipStep_def)

lemma newCanaryExecutor_graph:
  "newCanaryExecutor d = Returned \<lparr>stateMachine = specTransitions d\<rparr>"
  by (simp add: newCanaryExecutor_def stepStateMachine_add_def outcome_bind_def
        newStepStateMachine_def specTransitions_def step_defs)

text \<open>One transition of the machine, for a handler that leaves the step state alone.\<close>

lemma stepStateMachine_do_step:
  assumes entry: "m s = Some \<lparr>nextState = n, lifecycle = h\<rparr>"
    and frame: "\<And>c. State (snd (h c)) = State c"
    and nxt: "terminalState m n \<or>
               (\<forall>c. \<exists>res c'. stepStateMachine_do d m c n = Some (Returned (res, c')) \<and>
                       (State c' = State c \<or> State c' \<in> K))"
  shows "\<exists>res c'. stepStateMachine_do d m ctx s = Some (Returned (res, c')) \<and>
           (State c' = State ctx \<or> State c' \<in> insert n K)"
proof -
  obtain dn rt err c1 where h: "h ctx = ((dn, rt, err), c1)"
    by (metis surj_pair)
  have s1: "State c1 = State ctx"
    using frame [of ctx] h by simp
  show ?thesis
  proof (cases "err = None \<and> dn \<and> n \<noteq> [] \<and> rt = retryImmediately d \<and> \<not> terminalState m n")
    case True
    then have eq: "stepStateMachine_do d m ctx s =
        stepStateMachine_do d m (c1\<lparr>State := n\<rparr>) n"
      using entry h by (subst stepStateMachine_do.simps) simp
    from True nxt obtain res c' where
      "stepStateMachine_do d m (c1\<lparr>State := n\<rparr>) n = Some (Returned (res, c'))"
      "State c' = State (c1\<lparr>State := n\<rparr>) \<or> State c' \<in> K"
      by blast
    with eq True have "stepStateMachine_do d m ctx s = Some (Returned (res, c')) \<and>
           (State c' = State ctx \<or> State c' \<in> insert n K)"
      by auto
    then show ?thesis by blast
  next
    case False
    then show ?thesis
      using entry h s1
      by (subst stepStateMachine_do.simps) (cases err; auto)
  qed
qed

lemma spec_lookup:
  "specTransitions d StepPending = Some \<lparr>nextState = StepPreCanaryStepHook, lifecycle = doInit d\<rparr>"
  "specTransitions d StepPreCanaryStepHook =
     Some \<lparr>nextState = StepRunning, lifecycle = doPreStepHook d\<rparr>"
  "specTransitions d StepRunning = Some \<lparr>nextState = StepPostCanaryStepHook, lifecycle = doCanary d\<rparr>"
  "specTransitions d StepPostCanaryStepHook =
     Some \<lparr>nextState = StepResourceRecycling, lifecycle = doPostStepHook d\<rparr>"
  "specTransitions d StepResourceRecycling =
     Some \<lparr>nextState = StepSucceeded, lifecycle = doRecycle d\<rparr>"
  "specTransitions d StepSucceeded = Some \<lparr>nextState = [], lifecycle = skipStep d\<rparr>"
  by (simp_all add: specTransitions_def step_defs)

lemma spec_unknown:
  "stepRank s = 6 \<Longrightarrow> specTransitions d s = None"
  by (simp add: specTransitions_def stepRank_def split: if_splits)

lemma do_Succeeded:
  "stepStateMachine_do d (specTransitions d) ctx StepSucceeded =
     Some (Returned ((True, requeueResult d (retryImmediately d), None), ctx))"
  by (subst stepStateMachine_do.simps) (simp add: spec_lookup skipStep_def)

lemma do_Recycling:
  "\<exists>res c'. stepStateMachine_do d (specTransitions d) ctx StepResourceRecycling =
       Some (Returned (res, c')) \<and>
     (State c' = State ctx \<or> State c' \<in> {StepSucceeded})"
proof -
  have t: "terminalState (specTransitions d) StepSucceeded \<or>
       (\<forall>c. \<exists>res c'. stepStateMachine_do d (specTransitions d) c StepSucceeded =
                Some (Returned (res, c')) \<and> (State c' = State c \<or> State c' \<in> {}))"
    by (simp add: terminalState_def spec_lookup)
  show ?thesis
    by (rule stepStateMachine_do_step [where m = "specTransitions d" and h = "doRecycle d",
          OF spec_lookup(5) doRecycle_State t])
qed

lemma do_Post:
  "\<exists>res c'. stepStateMachine_do d (specTransitions d) ctx StepPostCanaryStepHook =
       Some (Returned (res, c')) \<and>
     (State c' = State ctx \<or> State c' \<in> {StepResourceRecycling, StepSucceeded})"
proof -
  have t: "terminalState (specTransitions d) StepResourceRecycling \<or>
       (\<forall>c. \<exists>res c'. stepStateMachine_do d (specTransitions d) c StepResourceRecycling =
                Some (Returned (res, c')) \<and> (State c' = State c \<or> State c' \<in> {StepSucceeded}))"
    using do_Recycling [of d] by blast
  show ?thesis
    by (rule stepStateMachine_do_step [where m = "specTransitions d" and h = "doPostStepHook d",
          OF spec_lookup(4) doPostStepHook_State t])
qed

lemma do_Running:
  "\<exists>res c'. stepStateMachine_do d (specTransitions d) ctx StepRunning =
       Some (Returned (res, c')) \<and>
     (State c' = State ctx \<or>
      State c' \<in> {StepPostCanaryStepHook, StepResourceRecycling, StepSucceeded})"
proof -
  have t: "terminalState (specTransitions d) StepPostCanaryStepHook \<or>
       (\<forall>c. \<exists>res c'. stepStateMachine_do d (specTransitions d) c StepPostCanaryStepHook =
                Some (Returned (res, c')) \<and>
                (State c' = State c \<or> State c' \<in> {StepResourceRecycling, StepSucceeded}))"
    using do_Post [of d] by blast
  show ?thesis
    by (rule stepStateMachine_do_step [where m = "specTransitions d" and h = "doCanary d",
          OF spec_lookup(3) doCanary_State t])
qed

lemma do_Pre:
  "\<exists>res c'. stepStateMachine_do d (specTransitions d) ctx StepPreCanaryStepHook =
       Some (Returned (res, c')) \<and>
     (State c' = State ctx \<or>
      State c' \<in> {StepRunning, StepPostCanaryStepHook, StepResourceRecycling, StepSucceeded})"
proof -
  have t: "terminalState (specTransitions d) StepRunning \<or>
       (\<forall>c. \<exists>res c'. stepStateMachine_do d (specTransitions d) c StepRunning =
                Some (Returned (res, c')) \<and>
                (State c' = State c \<or>
                 State c' \<in> {StepPostCanaryStepHook, StepResourceRecycling, StepSucceeded}))"
    using do_Running [of d] by blast
  show ?thesis
    by (rule stepStateMachine_do_step [where m = "specTransitions d" and h = "doPreStepHook d",
          OF spec_lookup(2) doPreStepHook_State t])
qed

lemma do_Pending:
  "\<exists>res c'. stepStateMachine_do d (specTransitions d) ctx StepPending =
       Some (Returned (res, c')) \<and>
     (State c' = State ctx \<or>
      State c' \<in> {StepPreCanaryStepHook, StepRunning, StepPostCanaryStepHook,
                    StepResourceRecycling, StepSucceeded})"
proof -
  have t: "terminalState (specTransitions d) StepPreCanaryStepHook \<or>
       (\<forall>c. \<exists>res c'. stepStateMachine_do d (specTransitions d) c StepPreCanaryStepHook =
                Some (Returned (res, c')) \<and>
                (State c' = State c \<or>
                 State c' \<in> {StepRunning, StepPostCanaryStepHook, StepResourceRecycling,
                               StepSucceeded}))"
    using do_Pre [of d] by blast
  show ?thesis
    by (rule stepStateMachine_do_step [where m = "specTransitions d" and h = "doInit d",
          OF spec_lookup(1) doInit_State t])
qed

lemma do_unknown:
  "stepRank s = 6 \<Longrightarrow> stepStateMachine_do d (specTransitions d) ctx s = Some Panic"
  by (subst stepStateMachine_do.simps) (simp add: spec_unknown)

lemma stepRank_values:
  "stepRank StepPending = 0" "stepRank StepPreCanaryStepHook = 1" "stepRank StepRunning = 2"
  "stepRank StepPostCanaryStepHook = 3" "stepRank StepResourceRecycling = 4"
  "stepRank StepSucceeded = 5"
  by (simp_all add: stepRank_def step_defs)

lemma stepRank_cases:
  "s = StepPending \<or> s = StepPreCanaryStepHook \<or> s = StepRunning \<or>
   s = StepPostCanaryStepHook \<or> s = StepResourceRecycling \<or> s = StepSucceeded \<or>
   stepRank s = 6"
  by (simp add: stepRank_def)

text \<open>A run of the machine from the step state of the context.\<close>

lemma do_forward:
  "case stepStateMachine_do d (specTransitions d) ctx (State ctx) of
     None \<Rightarrow> False
   | Some Panic \<Rightarrow> stepRank (State ctx) = 6
   | Some (Returned (res, ctx')) \<Rightarrow>
       stepRank (State ctx) \<le> stepRank (State ctx') \<and> stepRank (State ctx') \<le> 5"
proof -
  consider "State ctx = StepPending" | "State ctx = StepPreCanaryStepHook"
    | "State ctx = StepRunning" | "State ctx = StepPostCanaryStepHook"
    | "State ctx = StepResourceRecycling" | "State ctx = StepSucceeded"
    | "stepRank (State ctx) = 6"
    using stepRank_cases [of "State ctx"] by blast
  then show ?thesis
  proof cases
    case 1
    with do_Pending [of d ctx] show ?thesis by (auto simp add: stepRank_values)
  next
    case 2
    with do_Pre [of d ctx] show ?thesis by (auto simp add: stepRank_values)
  next
    case 3
    with do_Running [of d ctx] show ?thesis by (auto simp add: stepRank_values)
  next
    case 4
    with do_Post [of d ctx] show ?thesis by (auto simp add: stepRank_values)
  next
    case 5
    with do_Recycling [of d ctx] show ?thesis by (auto simp add: stepRank_values)
  next
    case 6
    with do_Succeeded [of d ctx] show ?thesis by (simp add: stepRank_values)
  next
    case 7
    with do_unknown [of "State ctx" d ctx] show ?thesis by simp
  qed
qed

text \<open>
  C2. \<^verbatim>\<open>newCanaryExecutor\<close> builds exactly the transition graph the spec lists, and does
  not fail. With this graph a call of \<^verbatim>\<open>Do\<close> returns (or fails fast, when the step state
  is none of the six), and when it returns, the step state is where it was or further
  along the chain, and still one of the six if it was. The machine run from \<open>Succeeded\<close>
  reports done and leaves the whole context as it was: no handler of an earlier state is
  called, and the only call \<^verbatim>\<open>Do\<close> makes in state \<open>Succeeded\<close> is the binding of the
  traffic manager.
\<close>

theorem canaryExecutor_forward:
  "newCanaryExecutor d = Returned \<lparr>stateMachine = specTransitions d\<rparr> \<and>
   (case Do d \<lparr>stateMachine = specTransitions d\<rparr> ctx of
      None \<Rightarrow> False
    | Some Panic \<Rightarrow> stepRank (State ctx) = 6
    | Some (Returned (res, ctx')) \<Rightarrow>
        stepRank (State ctx) \<le> stepRank (State ctx') \<and>
        (stepRank (State ctx) \<le> 5 \<longrightarrow> stepRank (State ctx') \<le> 5)) \<and>
   stepStateMachine_do d (specTransitions d) ctx StepSucceeded =
     Some (Returned ((True, requeueResult d (retryImmediately d), None), ctx)) \<and>
   (State ctx = StepSucceeded \<longrightarrow>
      (case Do d \<lparr>stateMachine = specTransitions d\<rparr> ctx of
         None \<Rightarrow> False
       | Some Panic \<Rightarrow> False
       | Some (Returned (res, ctx')) \<Rightarrow>
           State ctx' = StepSucceeded \<and> list_all (\<lambda>e. e = CallWith) (emitted ctx ctx')))"
proof -
  obtain b w where ic: "inCanary d ctx = (b, w)"
    by (metis surj_pair)
  let ?c1 = "TrafficManager_With d (ctx\<lparr>world := w\<rparr>)"
  have s1: "State ?c1 = State ctx" "emitted ctx ?c1 = [CallWith]"
    by (simp_all add: TrafficManager_With_def called_def emitted_def)
  have fwd: "case Do d \<lparr>stateMachine = specTransitions d\<rparr> ctx of
      None \<Rightarrow> False
    | Some Panic \<Rightarrow> stepRank (State ctx) = 6
    | Some (Returned (res, ctx')) \<Rightarrow>
        stepRank (State ctx) \<le> stepRank (State ctx') \<and>
        (stepRank (State ctx) \<le> 5 \<longrightarrow> stepRank (State ctx') \<le> 5)"
  proof (cases b)
    case False
    with ic show ?thesis by (simp add: Do_def)
  next
    case True
    with ic have "Do d \<lparr>stateMachine = specTransitions d\<rparr> ctx =
        stepStateMachine_do d (specTransitions d) ?c1 (State ?c1)"
      by (simp add: Do_def Let_def)
    with do_forward [where d = d and ctx = ?c1] s1(1) show ?thesis
      by (auto split: option.splits outcome.splits)
  qed
  have stay: "State ctx = StepSucceeded \<longrightarrow>
      (case Do d \<lparr>stateMachine = specTransitions d\<rparr> ctx of
         None \<Rightarrow> False
       | Some Panic \<Rightarrow> False
       | Some (Returned (res, ctx')) \<Rightarrow>
           State ctx' = StepSucceeded \<and> list_all (\<lambda>e. e = CallWith) (emitted ctx ctx'))"
  proof
    assume s: "State ctx = StepSucceeded"
    show "case Do d \<lparr>stateMachine = specTransitions d\<rparr> ctx of
         None \<Rightarrow> False
       | Some Panic \<Rightarrow> False
       | Some (Returned (res, ctx')) \<Rightarrow>
           State ctx' = StepSucceeded \<and> list_all (\<lambda>e. e = CallWith) (emitted ctx ctx')"
    proof (cases b)
      case False
      with ic s show ?thesis by (simp add: Do_def emitted_def)
    next
      case True
      with ic s s1 have "Do d \<lparr>stateMachine = specTransitions d\<rparr> ctx =
          stepStateMachine_do d (specTransitions d) ?c1 StepSucceeded"
        by (simp add: Do_def Let_def)
      with do_Succeeded [of d ?c1] s s1 show ?thesis by simp
    qed
  qed
  show ?thesis
    using newCanaryExecutor_graph [of d] fwd do_Succeeded [of d ctx] stay by blast
qed

theorem canaryExecutor_forward_witness:
  "newCanaryExecutor sampleEnv = Returned \<lparr>stateMachine = specTransitions sampleEnv\<rparr> \<and>
   map_option (map_outcome (\<lambda>(res, c). (fst res, State c, paused c)))
     (Do sampleEnv \<lparr>stateMachine = specTransitions sampleEnv\<rparr>
        (sampleContext\<lparr>State := StepPostCanaryStepHook\<rparr>))
     = Some (Returned (False, StepSucceeded, True)) \<and>
   stepRank StepPostCanaryStepHook \<le> stepRank StepSucceeded \<and>
   map_option (map_outcome (\<lambda>(res, c). (fst res, State c, emitted (sampleContext\<lparr>State := StepSucceeded\<rparr>) c)))
     (Do sampleEnv \<lparr>stateMachine = specTransitions sampleEnv\<rparr>
        (sampleContext\<lparr>State := StepSucceeded\<rparr>))
     = Some (Returned (True, StepSucceeded, [CallWith])) \<and>
   Do sampleEnv \<lparr>stateMachine = specTransitions sampleEnv\<rparr> (sampleContext\<lparr>State := ''Unknown''\<rparr>)
     = Some Panic"
  using canaryExecutor_forward [of sampleEnv "sampleContext\<lparr>State := StepPostCanaryStepHook\<rparr>"]
    canaryExecutor_forward [of sampleEnv "sampleContext\<lparr>State := StepSucceeded\<rparr>"]
  by (simp add: Do_def TrafficManager_With_def stepStateMachine_do.simps specTransitions_def
        step_defs stepRank_def terminalState_def skipStep_def model_defs)

end
